theory Spec2Isabelle
  imports Main "HOL-Library.Word" "HOL-Library.Multiset" "HOL-Library.AList"
begin

section \<open>Values shared by the message handlers\<close>

text \<open>
  A UUID is a 128-bit value; \<open>uuid.Nil\<close> is the all-zero UUID, which is also the value
  of the \<open>ID\<close> field of a freshly allocated (not found) database row.
\<close>

type_synonym uuid = "128 word"

definition uuid_Nil :: uuid where
  "uuid_Nil = 0"

text \<open>
  The dynamic values of a \<open>map[string]interface{}\<close>. Numbers keep their literal text;
  the handlers never inspect a number. A JSON object is a key/value list read with
  \<open>map_of\<close>.
\<close>

datatype jvalue =
    JString string
  | JBool bool
  | JNumber string
  | JNull
  | JArray "jvalue list"
  | JObject "(string \<times> jvalue) list"

type_synonym jobject = "(string \<times> jvalue) list"

text \<open>The type assertions \<open>v.(string)\<close> and \<open>v.(bool)\<close> on a map entry.\<close>

definition asString :: "jvalue option \<Rightarrow> string option" where
  "asString v = (case v of Some (JString s) \<Rightarrow> Some s | _ \<Rightarrow> None)"

definition asBool :: "jvalue option \<Rightarrow> bool option" where
  "asBool v = (case v of Some (JBool b) \<Rightarrow> Some b | _ \<Rightarrow> None)"

text \<open>A \<open>*string\<close> stored in a map that is later marshalled.\<close>

definition jptr :: "string option \<Rightarrow> jvalue" where
  "jptr p = (case p of None \<Rightarrow> JNull | Some s \<Rightarrow> JString s)"

record Msg =
  msg_Data :: string
  msg_Subject :: string

text \<open>
  The structs of the packages \<open>organization\<close>, \<open>token\<close>, \<open>vault\<close> and \<open>nchain\<close>, with
  the fields the handlers read. A pointer field is an option.
\<close>

record Organization =
  org_ID :: uuid
  org_Name :: "string option"
  org_Metadata :: "string option"

record Token =
  tok_OrganizationID :: "uuid option"
  tok_ApplicationID :: "uuid option"
  tok_Scope :: "string option"
  tok_Token :: "string option"

record Vault =
  vlt_ID :: uuid

record Key =
  key_ID :: uuid
  key_Name :: "string option"
  key_Spec :: "string option"
  key_Address :: "string option"
  key_PublicKey :: "string option"

record Contract =
  contract_ID :: uuid
  contract_Address :: "string option"
  contract_Type :: "string option"

record Wallet =
  wallet_ID :: uuid

record SignResponse =
  sig_Signature :: "string option"

text \<open>
  What a handler does to the outside world, in the order it does it: log lines (format
  string and arguments), the acknowledgment calls on the message, and every call to a
  collaborator with the arguments it is given (a parameter map that the source always
  passes empty is left out). \<open>TokenVend n t\<close> is the call \<open>t.Vend()\<close> at the \<open>n\<close>-th
  \<open>Vend\<close> call site of the handler, in source order from 0. \<open>OrganizationUpdate o m\<close> is
  \<open>o.setMetadata(m)\<close> followed by \<open>o.Update()\<close>, and \<open>DbExec s a\<close> is \<open>db.Exec\<close> of the
  statement \<open>s\<close> with the arguments \<open>a\<close>. A run of a handler is the list of these events.
\<close>

datatype arg = S string | N nat | U uuid

datatype event =
    Debugf string "arg list"
  | Warningf string "arg list"
  | Warning string
  | Ack
  | Nak
  | TokenVend nat Token
  | VaultCreateVault string jobject
  | VaultListVaults string
  | VaultListKeys string string jobject
  | VaultCreateKey string string jobject
  | VaultSignMessage string string string string
  | NatsPublish string jobject
  | NchainListContracts string
  | NchainGetContractDetails string string
  | NchainCreateWallet string jobject
  | NchainExecuteContract string string jobject
  | OrganizationUpdate Organization jobject
  | DbExec string "arg list"

text \<open>
  What the handlers call and is not under the sources at hand is a parameter of the
  model: the library functions (\<open>json.Unmarshal\<close>, \<open>strings.ToLower\<close>, \<open>hex\<close>, \<open>uuid\<close>),
  the database lookups, the clients of the vault and of the ledger, and the repository's
  own \<open>common.StringOrNil\<close>, \<open>Token.Vend\<close> and \<open>Organization.ParseMetadata\<close>. A Go
  result \<open>(value, err)\<close> is a sum with the error message on the left; on success the
  value is taken to be non-nil. \<open>hex_DecodeString\<close> returns the bytes decoded before an
  error together with the error. \<open>token_Vend n t\<close> is the answer of the token issuer at
  the \<open>n\<close>-th \<open>Vend\<close> call site of a handler on the token \<open>t\<close>: whether it succeeded and
  the token afterwards; two call sites may be answered differently on equal tokens.
  \<open>db_FindOrganization\<close> is the record left by
  \<open>db.Where("id = ?", id).Find(&organization)\<close>; its \<open>ID\<close> is \<open>uuid.Nil\<close> when no row
  matched. \<open>organization_ParseMetadata\<close> returns the metadata map, \<open>None\<close> for a nil map.
  \<open>json.Unmarshal\<close> accepts the JSON text \<open>null\<close> and leaves the map it is given nil.
  A nil map reads like an empty one, and a handler only reads its map: there
  \<open>json_Unmarshal\<close> stands for the empty object. Where the code hands the map on,
  \<open>jsonNull\<close> below tells the two apart.
\<close>

record Env =
  json_Unmarshal :: "string \<Rightarrow> string + jobject"
  strings_ToLower :: "string \<Rightarrow> string"
  hex_DecodeString :: "string \<Rightarrow> string \<times> string option"
  hex_EncodeToString :: "string \<Rightarrow> string"
  uuid_FromString :: "string \<Rightarrow> string + uuid"
  uuid_String :: "uuid \<Rightarrow> string"
  common_StringOrNil :: "string \<Rightarrow> string option"
  db_FindOrganization :: "string \<Rightarrow> Organization"
  db_FindTokens :: "string \<Rightarrow> Token list"
  organization_ParseMetadata :: "Organization \<Rightarrow> jobject option"
  token_Vend :: "nat \<Rightarrow> Token \<Rightarrow> bool \<times> Token"
  vault_CreateVault :: "string \<Rightarrow> jobject \<Rightarrow> string + Vault"
  vault_ListVaults :: "string \<Rightarrow> string + Vault list"
  vault_ListKeys :: "string \<Rightarrow> string \<Rightarrow> jobject \<Rightarrow> string + Key list"
  vault_CreateKey :: "string \<Rightarrow> string \<Rightarrow> jobject \<Rightarrow> string + Key"
  vault_SignMessage :: "string \<Rightarrow> string \<Rightarrow> string \<Rightarrow> string \<Rightarrow> string + SignResponse"
  nchain_ListContracts :: "string \<Rightarrow> string + Contract list"
  nchain_GetContractDetails :: "string \<Rightarrow> string \<Rightarrow> string + Contract"
  nchain_CreateWallet :: "string \<Rightarrow> jobject \<Rightarrow> string + Wallet"
  nchain_ExecuteContract :: "string \<Rightarrow> string \<Rightarrow> jobject \<Rightarrow> string + unit"

text \<open>
  The JSON text \<open>null\<close>, with the white space that JSON allows around a value.
\<close>

definition jsonSpace :: "char \<Rightarrow> bool" where
  "jsonSpace c = (c = CHR '' '' \<or> c = CHR 0x09 \<or> c = CHR 0x0A \<or> c = CHR 0x0D)"

definition jsonNull :: "string \<Rightarrow> bool" where
  "jsonNull raw = (rev (dropWhile jsonSpace (rev (dropWhile jsonSpace raw))) = ''null'')"

text \<open>A token struct literal with only the organization set.\<close>

definition orgTokenFor :: "uuid \<Rightarrow> Token" where
  "orgTokenFor oid =
     \<lparr>tok_OrganizationID = Some oid, tok_ApplicationID = None, tok_Scope = None, tok_Token = None\<rparr>"

text \<open>The value a nil dereference panics with.\<close>

definition nilDeref :: string where
  "nilDeref = ''runtime error: invalid memory address or nil pointer dereference''"

section \<open>Vault Provisioner: consumeCreatedOrganizationMsg\<close>

text \<open>
  The deferred function of the handler: a panic is recovered and the message is
  negative-acknowledged.
\<close>

definition recoveredNak :: "event list" where
  "recoveredNak = [Nak]"

definition createVaultParams :: "string \<Rightarrow> string \<Rightarrow> jobject" where
  "createVaultParams name organizationID =
     [(''name'', JString (name @ '' vault'')),
      (''description'', JString ''default organizational keystore''),
      (''organization_id'', JString organizationID)]"

definition consumeCreatedOrganizationMsg :: "Env \<Rightarrow> Msg \<Rightarrow> event list" where
  "consumeCreatedOrganizationMsg env msg =
     Debugf ''consuming %d-byte NATS created organization message on subject: %s''
       [N (length (msg_Data msg)), S (msg_Subject msg)] #
     (case json_Unmarshal env (msg_Data msg) of
        Inl err \<Rightarrow>
          [Warningf ''failed to unmarshal organization created message; %s'' [S err], Nak]
      | Inr params \<Rightarrow>
     (case asString (map_of params ''organization_id'') of
        None \<Rightarrow>
          [Warning ''failed to unmarshal organization_id during created message handler'', Nak]
      | Some organizationID \<Rightarrow>
     (let organization = db_FindOrganization env organizationID in
      if org_ID organization = uuid_Nil then
        [Warningf ''failed to resolve organization during created message handler; organization id: %s''
           [S organizationID], Nak]
      else
        TokenVend 0 (orgTokenFor (org_ID organization)) #
        (case token_Vend env 0 (orgTokenFor (org_ID organization)) of (vended, orgToken) \<Rightarrow>
         if \<not> vended then
           [Warningf ''failed to vend signed JWT for organization registration tx signing; organization id: %s''
              [S organizationID], Nak]
         else
        (case tok_Token orgToken of None \<Rightarrow> recoveredNak | Some jwt \<Rightarrow>
        (case org_Name organization of None \<Rightarrow> recoveredNak | Some name \<Rightarrow>
           VaultCreateVault jwt (createVaultParams name organizationID) #
           (case vault_CreateVault env jwt (createVaultParams name organizationID) of
              Inr vlt \<Rightarrow>
                [Debugf ''created default vault for organization: %s; vault id: %s''
                   [S name, S (uuid_String env (vlt_ID vlt))], Ack]
            | Inl err \<Rightarrow>
                [Warningf ''failed to create default vault for organization: %s; %s''
                   [S name, S err], Nak])))))))"

section \<open>Key-Exchange Initiator: consumeOrganizationImplicitKeyExchangeInitMsg\<close>

definition natsOrganizationImplicitKeyExchangeCompleteSubject :: string where
  "natsOrganizationImplicitKeyExchangeCompleteSubject = ''ident.organization.keys.exchange.complete''"

definition natsOrganizationImplicitKeyExchangeInitSubject :: string where
  "natsOrganizationImplicitKeyExchangeInitSubject = ''ident.organization.keys.exchange.init''"

definition natsOrganizationRegistrationSubject :: string where
  "natsOrganizationRegistrationSubject = ''ident.organization.registration''"

text \<open>The test of the key search loop: \<open>key.Name != nil && strings.ToLower(*key.Name) == "ekho signing"\<close>.\<close>

definition isEkhoSigning :: "Env \<Rightarrow> Key \<Rightarrow> bool" where
  "isEkhoSigning env key =
     (case key_Name key of None \<Rightarrow> False | Some name \<Rightarrow> strings_ToLower env name = ''ekho signing'')"

text \<open>The loop over the listed keys, left at the first match by \<open>break\<close>.\<close>

fun findSigningKey :: "Env \<Rightarrow> Key list \<Rightarrow> Key option" where
  "findSigningKey env [] = None"
| "findSigningKey env (key # keys) =
     (if isEkhoSigning env key then Some key else findSigningKey env keys)"

definition createKeyParams :: "string \<Rightarrow> jobject" where
  "createKeyParams peerOrganizationID =
     [(''type'', JString ''asymmetric''),
      (''usage'', JString ''sign/verify''),
      (''spec'', JString ''C25519''),
      (''name'', JString ''ekho single-use c25519 key exchange''),
      (''description'', JString (''ekho - single-use c25519 key exchange with peer organization: '' @ peerOrganizationID)),
      (''ephemeral'', JString ''true'')]"

definition exchangeCompletePayload ::
  "Env \<Rightarrow> string \<Rightarrow> string \<Rightarrow> string \<Rightarrow> string \<Rightarrow> string \<Rightarrow> string \<Rightarrow> jobject" where
  "exchangeCompletePayload env organizationID peerOrganizationID publicKey c25519PublicKeySigned signingPublicKey signingSpec =
     [(''organization_id'', JString organizationID),
      (''peer_organization_id'', JString peerOrganizationID),
      (''public_key'', JString publicKey),
      (''signature'', JString (hex_EncodeToString env c25519PublicKeySigned)),
      (''signing_key'', JString signingPublicKey),
      (''signing_spec'', JString signingSpec)]"

text \<open>The branch \<open>signingKey != nil\<close>: lines 299-342 of the handler.\<close>

definition exchangeInit ::
  "Env \<Rightarrow> string \<Rightarrow> string \<Rightarrow> string \<Rightarrow> string \<Rightarrow> Key \<Rightarrow> event list" where
  "exchangeInit env organizationID peerOrganizationID jwt vaultID signingKey =
     VaultCreateKey jwt vaultID (createKeyParams peerOrganizationID) #
     (case vault_CreateKey env jwt vaultID (createKeyParams peerOrganizationID) of
        Inl err \<Rightarrow>
          [Warningf ''failed to generate single-use c25519 public key for implicit key exchange; organization id: %s''
             [S organizationID], Nak]
      | Inr c25519Key \<Rightarrow>
     (case key_PublicKey c25519Key of None \<Rightarrow> recoveredNak | Some publicKey \<Rightarrow>
     (let c25519PublicKeyRaw = fst (hex_DecodeString env publicKey);
          keyID = uuid_String env (key_ID c25519Key) in
      VaultSignMessage jwt vaultID keyID c25519PublicKeyRaw #
      (case vault_SignMessage env jwt vaultID keyID c25519PublicKeyRaw of
         Inl err \<Rightarrow>
           [Warningf ''failed to sign single-use c25519 public key for implicit key exchange; organization id: %s; %s''
              [S organizationID, S err], Nak]
       | Inr signingResponse \<Rightarrow>
      (case sig_Signature signingResponse of None \<Rightarrow> recoveredNak | Some c25519PublicKeySigned \<Rightarrow>
         Debugf ''generated %d-byte signature using Ed25519 signing key'' [N (length c25519PublicKeySigned)] #
         (case key_PublicKey signingKey of None \<Rightarrow> recoveredNak | Some signingPublicKey \<Rightarrow>
         (case key_Spec signingKey of None \<Rightarrow> recoveredNak | Some signingSpec \<Rightarrow>
            [NatsPublish natsOrganizationImplicitKeyExchangeCompleteSubject
               (exchangeCompletePayload env organizationID peerOrganizationID publicKey
                  c25519PublicKeySigned signingPublicKey signingSpec),
             Debugf ''published %s implicit key exchange message for peer organization id: %s''
               [S natsOrganizationImplicitKeyExchangeCompleteSubject, S peerOrganizationID],
             Ack])))))))"

definition consumeOrganizationImplicitKeyExchangeInitMsg :: "Env \<Rightarrow> Msg \<Rightarrow> event list" where
  "consumeOrganizationImplicitKeyExchangeInitMsg env msg =
     Debugf ''consuming %d-byte NATS organization implicit key exchange message on subject: %s''
       [N (length (msg_Data msg)), S (msg_Subject msg)] #
     (case json_Unmarshal env (msg_Data msg) of
        Inl err \<Rightarrow>
          [Warningf ''failed to unmarshal organization implicit key exchange message; %s'' [S err], Nak]
      | Inr params \<Rightarrow>
     (case asString (map_of params ''organization_id'') of
        None \<Rightarrow>
          [Warning ''failed to parse organization_id during implicit key exchange message handler'', Nak]
      | Some organizationID \<Rightarrow>
     (case asString (map_of params ''peer_organization_id'') of
        None \<Rightarrow>
          [Warning ''failed to parse peer_organization_id during implicit key exchange message handler'', Nak]
      | Some peerOrganizationID \<Rightarrow>
     (let organization = db_FindOrganization env organizationID in
      if org_ID organization = uuid_Nil then
        [Warningf ''failed to resolve organization during implicit key exchange message handler; organization id: %s''
           [S organizationID], Nak]
      else
        TokenVend 0 (orgTokenFor (org_ID organization)) #
        (case token_Vend env 0 (orgTokenFor (org_ID organization)) of (vended, orgToken) \<Rightarrow>
         if \<not> vended then
           [Warningf ''failed to vend signed JWT for organization implicit key exchange; organization id: %s''
              [S organizationID], Nak]
         else
        (case tok_Token orgToken of None \<Rightarrow> recoveredNak | Some jwt \<Rightarrow>
           VaultListVaults jwt #
           (case vault_ListVaults env jwt of
              Inl err \<Rightarrow>
                [Warningf ''failed to fetch vaults during implicit key exchange message handler; organization id: %s''
                   [S organizationID], Nak]
            | Inr vaults \<Rightarrow>
           (case vaults of
              [] \<Rightarrow>
                [Warningf ''failed to resolve signing key during implicit key exchange message handler; organization id: %s; %d associated vaults''
                   [S organizationID, N (length vaults)], Nak]
            | orgVault # others \<Rightarrow>
                VaultListKeys jwt (uuid_String env (vlt_ID orgVault)) [] #
                (case vault_ListKeys env jwt (uuid_String env (vlt_ID orgVault)) [] of
                   Inl err \<Rightarrow>
                     [Warningf ''failed to fetch keys from vault during implicit key exchange message handler; organization id: %s''
                        [S organizationID], Nak]
                 | Inr keys \<Rightarrow>
                (case findSigningKey env keys of
                   Some signingKey \<Rightarrow>
                     exchangeInit env organizationID peerOrganizationID jwt
                       (uuid_String env (vlt_ID orgVault)) signingKey
                 | None \<Rightarrow>
                     [Warningf ''failed to resolve signing key during implicit key exchange message handler; organization id: %s''
                        [S organizationID], Nak]))))))))))"

section \<open>Key-Exchange Responder: consumeOrganizationImplicitKeyExchangeCompleteMsg\<close>

text \<open>
  Lines 471-495: with a signing key the handler sets \<open>err\<close> to a new error where the
  call of \<open>CreateDiffieHellmanSharedSecret\<close> is commented out, and then branches on
  \<open>err == nil\<close>.
\<close>

definition sharedSecretErr :: "string option" where
  "sharedSecretErr = Some ''the CreateDiffieHellmanSharedSecret method is not exposed by the vault API yet''"

definition exchangeComplete ::
  "string \<Rightarrow> string \<Rightarrow> string \<Rightarrow> string \<Rightarrow> string \<Rightarrow> Key option \<Rightarrow> event list" where
  "exchangeComplete organizationID peerOrganizationID peerPubKey peerSigningKey sig signingKey =
     (case signingKey of
        Some key \<Rightarrow>
          Debugf ''peer org id: %s; peer public key: %s; peer signing key: %s; sig: %s''
            [S peerOrganizationID, S peerPubKey, S peerSigningKey, S sig] #
          (case sharedSecretErr of
             None \<Rightarrow> [Ack]
           | Some err \<Rightarrow>
               [Warningf ''failed to encrypt shared secret during implicit key exchange message handler; organization id: %s; %s''
                  [S organizationID, S err], Nak])
      | None \<Rightarrow>
          [Warningf ''failed to resolve signing key during implicit key exchange message handler; organization id: %s''
             [S organizationID], Nak])"

text \<open>Lines 412-500: from the database lookup on.\<close>

definition exchangeCompleteResolve ::
  "Env \<Rightarrow> string \<Rightarrow> string \<Rightarrow> string \<Rightarrow> string \<Rightarrow> string \<Rightarrow> event list" where
  "exchangeCompleteResolve env organizationID peerOrganizationID peerPublicKey peerSigningKey signature =
     (let organization = db_FindOrganization env organizationID in
      if org_ID organization = uuid_Nil then
        [Warningf ''failed to resolve organization during implicit key exchange message handler; organization id: %s''
           [S organizationID], Nak]
      else
        TokenVend 0 (orgTokenFor (org_ID organization)) #
        (case token_Vend env 0 (orgTokenFor (org_ID organization)) of (vended, orgToken) \<Rightarrow>
         if \<not> vended then
           [Warningf ''failed to vend signed JWT for organization implicit key exchange; organization id: %s''
              [S organizationID], Nak]
         else
        (case tok_Token orgToken of None \<Rightarrow> recoveredNak | Some jwt \<Rightarrow>
           VaultListVaults jwt #
           (case vault_ListVaults env jwt of
              Inl err \<Rightarrow>
                [Warningf ''failed to fetch vaults during implicit key exchange message handler; organization id: %s''
                   [S organizationID], Nak]
            | Inr vaults \<Rightarrow>
           (case vaults of
              [] \<Rightarrow>
                [Warningf ''failed to resolve signing key during implicit key exchange message handler; organization id: %s; %d associated vaults''
                   [S organizationID, N (length vaults)], Nak]
            | orgVault # others \<Rightarrow>
                VaultListKeys jwt (uuid_String env (vlt_ID orgVault)) [] #
                (case vault_ListKeys env jwt (uuid_String env (vlt_ID orgVault)) [] of
                   Inl err \<Rightarrow>
                     [Warningf ''failed to fetch keys from vault during implicit key exchange message handler; organization id: %s''
                        [S organizationID], Nak]
                 | Inr keys \<Rightarrow>
                (case hex_DecodeString env peerPublicKey of
                   (peerPubKey, Some err) \<Rightarrow>
                     [Warningf ''failed to decode peer public key as hex during implicit key exchange message handler; organization id: %s; %s''
                        [S organizationID, S err], Nak]
                 | (peerPubKey, None) \<Rightarrow>
                (case hex_DecodeString env signature of
                   (sig, Some err) \<Rightarrow>
                     [Warningf ''failed to decode signature as hex during implicit key exchange message handler; organization id: %s; %s''
                        [S organizationID, S err], Nak]
                 | (sig, None) \<Rightarrow>
                     exchangeComplete organizationID peerOrganizationID peerPubKey peerSigningKey sig
                       (findSigningKey env keys)))))))))"

definition consumeOrganizationImplicitKeyExchangeCompleteMsg :: "Env \<Rightarrow> Msg \<Rightarrow> event list" where
  "consumeOrganizationImplicitKeyExchangeCompleteMsg env msg =
     Debugf ''consuming %d-byte NATS organization implicit key exchange message on subject: %s''
       [N (length (msg_Data msg)), S (msg_Subject msg)] #
     (case json_Unmarshal env (msg_Data msg) of
        Inl err \<Rightarrow>
          [Warningf ''failed to unmarshal organization implicit key exchange message; %s'' [S err], Nak]
      | Inr params \<Rightarrow>
     (case asString (map_of params ''organization_id'') of
        None \<Rightarrow>
          [Warning ''failed to parse organization_id during implicit key exchange message handler'', Nak]
      | Some organizationID \<Rightarrow>
     (case asString (map_of params ''peer_organization_id'') of
        None \<Rightarrow>
          [Warning ''failed to parse peer_organization_id during implicit key exchange message handler'', Nak]
      | Some peerOrganizationID \<Rightarrow>
     (case asString (map_of params ''public_key'') of
        None \<Rightarrow>
          [Warning ''failed to parse peer public key during implicit key exchange message handler'', Nak]
      | Some peerPublicKey \<Rightarrow>
     (case asString (map_of params ''signing_key'') of
        None \<Rightarrow>
          [Warning ''failed to parse peer signing key during implicit key exchange message handler'', Nak]
      | Some peerSigningKey \<Rightarrow>
     (case asString (map_of params ''signature'') of
        None \<Rightarrow>
          [Warning ''failed to parse signature during implicit key exchange message handler'', Nak]
      | Some signature \<Rightarrow>
          exchangeCompleteResolve env organizationID peerOrganizationID peerPublicKey
            peerSigningKey signature))))))"

section \<open>Registration Coordinator: consumeOrganizationRegistrationMsg\<close>

definition organizationRegistrationMethod :: string where
  "organizationRegistrationMethod = ''registerOrg''"

definition organizationUpdateRegistrationMethod :: string where
  "organizationUpdateRegistrationMethod = ''updateOrg''"

definition contractTypeOrgRegistry :: string where
  "contractTypeOrgRegistry = ''organization-registry''"

definition contractTypeERC1820Registry :: string where
  "contractTypeERC1820Registry = ''erc1820-registry''"

text \<open>
  The deferred function of this handler logs the recovered value and
  negative-acknowledges.
\<close>

definition recoveredRegistration :: "string \<Rightarrow> event list" where
  "recoveredRegistration r =
     [Warningf ''recovered in org registration message handler; %s'' [S r], Nak]"

text \<open>
  The local variables of the handler; \<open>v_x\<close> is the variable \<open>x\<close>. \<open>v_jwtToken\<close> holds
  the dereferenced \<open>*jwtToken\<close>, which is first dereferenced where it is first used.
\<close>

record Locals =
  v_organizationID :: string
  v_applicationID :: string
  v_applicationUUID :: uuid
  v_updateRegistry :: bool
  v_organization :: Organization
  v_orgAddress :: "string option"
  v_orgMessagingEndpoint :: "string option"
  v_orgDomain :: "string option"
  v_orgZeroKnowledgePublicKey :: "string option"
  v_metadata :: jobject
  v_updateOrgMetadata :: bool
  v_tokens :: "Token list"
  v_jwtToken :: string
  v_contracts :: "Contract list"
  v_erc1820RegistryContractID :: "string option"
  v_orgRegistryContractID :: "string option"
  v_erc1820RegistryContractAddress :: "string option"
  v_orgRegistryContractAddress :: "string option"
  v_orgWalletID :: "string option"

text \<open>
  The handler is one function; it is cut here into the consecutive parts of its body.
  A part returns the events it emits and the local variables with which the next part
  goes on, or \<open>None\<close> when the handler has returned (or panicked and recovered) in it.
\<close>

type_synonym 'a step = "event list \<times> 'a option"

definition stop :: "event list \<Rightarrow> 'a step" where
  "stop es = (es, None)"

definition proceed :: "'a \<Rightarrow> 'a step" where
  "proceed l = ([], Some l)"

definition emit :: "event \<Rightarrow> 'a step \<Rightarrow> 'a step" where
  "emit e r = (e # fst r, snd r)"

definition andThen :: "'a step \<Rightarrow> ('a \<Rightarrow> 'b step) \<Rightarrow> 'b step" where
  "andThen r f =
     (case snd r of
        None \<Rightarrow> (fst r, None)
      | Some l \<Rightarrow> (fst r @ fst (f l), snd (f l)))"

text \<open>Lines 510-555: the message parameters and the organization.\<close>

definition registrationParams :: "Env \<Rightarrow> Msg \<Rightarrow> Locals step" where
  "registrationParams env msg =
     emit (Debugf ''consuming %d-byte NATS organization registration message on subject: %s''
             [N (length (msg_Data msg)), S (msg_Subject msg)])
     (case json_Unmarshal env (msg_Data msg) of
        Inl err \<Rightarrow>
          stop [Warningf ''failed to unmarshal organization registration message; %s'' [S err], Nak]
      | Inr params \<Rightarrow>
     (case asString (map_of params ''organization_id'') of
        None \<Rightarrow>
          stop [Warning ''failed to parse organization_id during organization registration message handler'', Nak]
      | Some organizationID \<Rightarrow>
     (case asString (map_of params ''application_id'') of
        None \<Rightarrow>
          stop [Warning ''failed to parse application_id during organization registration message handler'', Nak]
      | Some applicationID \<Rightarrow>
     (case uuid_FromString env applicationID of
        Inl err \<Rightarrow>
          stop [Warning ''failed to parse application uuid during organization registration message handler'', Nak]
      | Inr applicationUUID \<Rightarrow>
     (let updateRegistry = (case asBool (map_of params ''update_registry'') of
                              Some update \<Rightarrow> update | None \<Rightarrow> False);
          organization = db_FindOrganization env organizationID in
      if org_ID organization = uuid_Nil then
        stop [Warningf ''failed to resolve organization during registration message handler; organization id: %s''
                [S organizationID], Nak]
      else
        proceed
          \<lparr>v_organizationID = organizationID,
           v_applicationID = applicationID,
           v_applicationUUID = applicationUUID,
           v_updateRegistry = updateRegistry,
           v_organization = organization,
           v_orgAddress = None,
           v_orgMessagingEndpoint = None,
           v_orgDomain = None,
           v_orgZeroKnowledgePublicKey = None,
           v_metadata = [],
           v_updateOrgMetadata = False,
           v_tokens = [],
           v_jwtToken = [],
           v_contracts = [],
           v_erc1820RegistryContractID = None,
           v_orgRegistryContractID = None,
           v_erc1820RegistryContractAddress = None,
           v_orgRegistryContractAddress = None,
           v_orgWalletID = None\<rparr>)))))"

text \<open>Lines 592-597 and 608-613: the first listed key gives the address, or the public key.\<close>

definition firstKeyAddress :: "Env \<Rightarrow> Key list \<Rightarrow> string option" where
  "firstKeyAddress env keys =
     (case keys of
        [] \<Rightarrow> None
      | key # others \<Rightarrow>
          (case key_Address key of None \<Rightarrow> None | Some a \<Rightarrow> common_StringOrNil env a))"

definition firstKeyPublicKey :: "Env \<Rightarrow> Key list \<Rightarrow> string option" where
  "firstKeyPublicKey env keys =
     (case keys of
        [] \<Rightarrow> None
      | key # others \<Rightarrow>
          (case key_PublicKey key of None \<Rightarrow> None | Some k \<Rightarrow> common_StringOrNil env k))"

text \<open>Lines 557-614: the organization token, the vault and its keys.\<close>

definition registrationVaultKeys :: "Env \<Rightarrow> Locals \<Rightarrow> Locals step" where
  "registrationVaultKeys env l =
     emit (TokenVend 0 (orgTokenFor (org_ID (v_organization l))))
     (case token_Vend env 0 (orgTokenFor (org_ID (v_organization l))) of (vended, orgToken) \<Rightarrow>
      if \<not> vended then
        stop [Warningf ''failed to vend signed JWT for organization implicit key exchange; organization id: %s''
                [S (v_organizationID l)], Nak]
      else
     (case tok_Token orgToken of None \<Rightarrow> stop (recoveredRegistration nilDeref) | Some jwt \<Rightarrow>
        emit (VaultListVaults jwt)
        (case vault_ListVaults env jwt of
           Inl err \<Rightarrow>
             stop [Warningf ''failed to fetch vaults during implicit key exchange message handler; organization id: %s''
                     [S (v_organizationID l)], Nak]
         | Inr vaults \<Rightarrow>
        (case vaults of
           [] \<Rightarrow> proceed l
         | orgVault # others \<Rightarrow>
             emit (VaultListKeys jwt (uuid_String env (vlt_ID orgVault)) [(''spec'', JString ''secp256k1'')])
             (case vault_ListKeys env jwt (uuid_String env (vlt_ID orgVault)) [(''spec'', JString ''secp256k1'')] of
                Inl err \<Rightarrow>
                  stop [Warningf ''failed to fetch secp256k1 keys from vault during implicit key exchange message handler; organization id: %s; %s''
                          [S (v_organizationID l), S err], Nak]
              | Inr keys \<Rightarrow>
                  emit (VaultListKeys jwt (uuid_String env (vlt_ID orgVault)) [(''spec'', JString ''babyJubJub'')])
                  (case vault_ListKeys env jwt (uuid_String env (vlt_ID orgVault)) [(''spec'', JString ''babyJubJub'')] of
                     Inl err \<Rightarrow>
                       stop [Warningf ''failed to fetch babyJubJub keys from vault during implicit key exchange message handler; organization id: %s; %s''
                               [S (v_organizationID l), S err], Nak]
                   | Inr zkKeys \<Rightarrow>
                       proceed (l\<lparr>v_orgAddress := firstKeyAddress env keys,
                                  v_orgZeroKnowledgePublicKey := firstKeyPublicKey env zkKeys\<rparr>)))))))"

text \<open>
  Lines 616-630: the metadata. Reading a nil map finds nothing; the assignment
  \<open>metadata["address"] = orgAddress\<close> panics on a nil map.
\<close>

definition registrationMetadata :: "Env \<Rightarrow> Locals \<Rightarrow> Locals step" where
  "registrationMetadata env l =
     (case organization_ParseMetadata env (v_organization l) of
        None \<Rightarrow> stop (recoveredRegistration ''assignment to entry in nil map'')
      | Some metadata \<Rightarrow>
     (let l1 = (case asString (map_of metadata ''messaging_endpoint'') of
                  Some messagingEndpoint \<Rightarrow>
                    l\<lparr>v_orgMessagingEndpoint := common_StringOrNil env messagingEndpoint\<rparr>
                | None \<Rightarrow> l);
          l2 = (case asString (map_of metadata ''address'') of
                  Some addr \<Rightarrow> l1\<lparr>v_metadata := metadata\<rparr>
                | None \<Rightarrow>
                    l1\<lparr>v_metadata := AList.update ''address'' (jptr (v_orgAddress l)) metadata,
                       v_updateOrgMetadata := True\<rparr>);
          l3 = (case asString (map_of metadata ''domain'') of
                  Some domain \<Rightarrow> l2\<lparr>v_orgDomain := common_StringOrNil env domain\<rparr>
                | None \<Rightarrow> l2)
      in proceed l3))"

text \<open>Lines 632-654: the four required values, checked in this order.\<close>

definition registrationRequire :: "Locals \<Rightarrow> Locals step" where
  "registrationRequire l =
     (if v_orgAddress l = None then
        stop [Warningf ''failed to resolve organization public address for storage in the public org registry; organization id: %s''
                [S (v_organizationID l)], Nak]
      else if v_orgDomain l = None then
        stop [Warningf ''failed to resolve organization domain for storage in the public org registry; organization id: %s''
                [S (v_organizationID l)], Nak]
      else if v_orgMessagingEndpoint l = None then
        stop [Warningf ''failed to resolve organization messaging endpoint for storage in the public org registry; organization id: %s''
                [S (v_organizationID l)], Nak]
      else if v_orgZeroKnowledgePublicKey l = None then
        stop [Warningf ''failed to resolve organization zero-knowledge public key for storage in the public org registry; organization id: %s''
                [S (v_organizationID l)], Nak]
      else proceed l)"

text \<open>Lines 656-669: the tokens of the application, or a new one when there is none.\<close>

definition offlineAccessToken :: "Env \<Rightarrow> uuid \<Rightarrow> Token" where
  "offlineAccessToken env applicationUUID =
     \<lparr>tok_OrganizationID = None,
      tok_ApplicationID = Some applicationUUID,
      tok_Scope = common_StringOrNil env ''offline_access'',
      tok_Token = None\<rparr>"

definition registrationTokens :: "Env \<Rightarrow> Locals \<Rightarrow> Locals step" where
  "registrationTokens env l =
     (case db_FindTokens env (v_applicationID l) of
        [] \<Rightarrow>
          emit (TokenVend 1 (offlineAccessToken env (v_applicationUUID l)))
          (case token_Vend env 1 (offlineAccessToken env (v_applicationUUID l)) of (vended, tkn) \<Rightarrow>
           if \<not> vended then
             stop [Warningf ''failed to vend signed JWT for application with offline access; organization id: %s''
                     [S (v_applicationID l)], Nak]
           else proceed (l\<lparr>v_tokens := [tkn]\<rparr>))
      | tkn # others \<Rightarrow> proceed (l\<lparr>v_tokens := tkn # others\<rparr>))"

text \<open>Lines 671-679 and 784-787: the first token and the contracts listed with it.\<close>

definition registrationContracts :: "Env \<Rightarrow> Locals \<Rightarrow> Locals step" where
  "registrationContracts env l =
     (case v_tokens l of
        [] \<Rightarrow>
          stop [Warningf ''failed to resolve API token during registration message handler; organization id: %s''
                  [S (v_organizationID l)], Nak]
      | tkn # others \<Rightarrow>
     (case tok_Token tkn of None \<Rightarrow> stop (recoveredRegistration nilDeref) | Some jwt \<Rightarrow>
        emit (NchainListContracts jwt)
        (case nchain_ListContracts env jwt of
           Inl err \<Rightarrow>
             stop [Warningf ''failed to resolve organization registry contract to which the organization registration tx should be sent; organization id: %s''
                     [S (v_organizationID l)], Nak]
         | Inr contracts \<Rightarrow> proceed (l\<lparr>v_jwtToken := jwt, v_contracts := contracts\<rparr>))))"

text \<open>Lines 689-711: the organization token and the HD wallet.\<close>

definition registrationWallet :: "Env \<Rightarrow> Locals \<Rightarrow> Locals step" where
  "registrationWallet env l =
     emit (TokenVend 2 (orgTokenFor (org_ID (v_organization l))))
     (case token_Vend env 2 (orgTokenFor (org_ID (v_organization l))) of (vended, orgToken) \<Rightarrow>
      if \<not> vended then
        stop [Warningf ''failed to vend signed JWT for organization registration tx signing; organization id: %s''
                [S (v_organizationID l)], Nak]
      else
     (case tok_Token orgToken of None \<Rightarrow> stop (recoveredRegistration nilDeref) | Some orgJwt \<Rightarrow>
        emit (NchainCreateWallet orgJwt [(''purpose'', JNumber ''44'')])
        (case nchain_CreateWallet env orgJwt [(''purpose'', JNumber ''44'')] of
           Inl err \<Rightarrow>
             stop [Warningf ''failed to create organization HD wallet for organization registration tx should be sent; organization id: %s''
                     [S (v_organizationID l)], Nak]
         | Inr orgWalletResp \<Rightarrow>
        (case common_StringOrNil env (uuid_String env (wallet_ID orgWalletResp)) of
           None \<Rightarrow> stop (recoveredRegistration nilDeref)
         | Some orgWalletID \<Rightarrow>
             emit (Debugf ''created HD wallet %s for organization %s''
                     [S orgWalletID, U (org_ID (v_organization l))])
               (proceed (l\<lparr>v_orgWalletID := Some orgWalletID\<rparr>))))))"

text \<open>Lines 721-730: the switch on the declared type of a contract.\<close>

definition classifyContract :: "Env \<Rightarrow> Contract \<Rightarrow> Locals \<Rightarrow> Locals" where
  "classifyContract env resp l =
     (case contract_Type resp of
        None \<Rightarrow> l
      | Some t \<Rightarrow>
          if t = contractTypeERC1820Registry then
            l\<lparr>v_erc1820RegistryContractID := common_StringOrNil env (uuid_String env (contract_ID resp)),
              v_erc1820RegistryContractAddress := contract_Address resp\<rparr>
          else if t = contractTypeOrgRegistry then
            l\<lparr>v_orgRegistryContractID := common_StringOrNil env (uuid_String env (contract_ID resp)),
              v_orgRegistryContractAddress := contract_Address resp\<rparr>
          else l)"

text \<open>Lines 713-731: the loop over the listed contracts.\<close>

fun registrationClassify :: "Env \<Rightarrow> Contract list \<Rightarrow> Locals \<Rightarrow> Locals step" where
  "registrationClassify env [] l = proceed l"
| "registrationClassify env (c # cs) l =
     emit (NchainGetContractDetails (v_jwtToken l) (uuid_String env (contract_ID c)))
     (case nchain_GetContractDetails env (v_jwtToken l) (uuid_String env (contract_ID c)) of
        Inl err \<Rightarrow>
          stop [Warningf ''failed to resolve organization registry contract to which the organization registration tx should be sent; organization id: %s''
                  [S (v_organizationID l)], Nak]
      | Inr resp \<Rightarrow> registrationClassify env cs (classifyContract env resp l))"

text \<open>Lines 733-749: both registries and the wallet must have been resolved.\<close>

definition registrationRegistries :: "Locals \<Rightarrow> Locals step" where
  "registrationRegistries l =
     (if v_erc1820RegistryContractID l = None \<or> v_erc1820RegistryContractAddress l = None then
        stop [Warningf ''failed to resolve ERC1820 registry contract; application id: %s''
                [S (v_applicationID l)], Nak]
      else if v_orgRegistryContractID l = None \<or> v_orgRegistryContractAddress l = None then
        stop [Warningf ''failed to resolve organization registry contract; application id: %s''
                [S (v_applicationID l)], Nak]
      else if v_orgWalletID l = None then
        stop [Warningf ''failed to resolve organization HD wallet for signing organization impl transaction transaction; organization id: %s''
                [S (v_organizationID l)], Nak]
      else proceed l)"

definition executeParams ::
  "string option \<Rightarrow> string \<Rightarrow> string option \<Rightarrow> string \<Rightarrow> string \<Rightarrow> string \<Rightarrow> string \<Rightarrow> jobject" where
  "executeParams orgWalletID method orgAddress name orgDomain orgMessagingEndpoint orgZeroKnowledgePublicKey =
     [(''wallet_id'', jptr orgWalletID),
      (''method'', JString method),
      (''params'', JArray [jptr orgAddress, JString name, JString orgDomain,
                           JString orgMessagingEndpoint, JString orgZeroKnowledgePublicKey,
                           JString ''{}'']),
      (''value'', JNumber ''0'')]"

text \<open>
  Lines 751-783: the contract execution, the trailing update of the organization and the
  acknowledgment. The dereferences of the call's arguments are evaluated before the call.
\<close>

definition registrationExecute :: "Env \<Rightarrow> Locals \<Rightarrow> Locals step" where
  "registrationExecute env l =
     (let method = (if v_updateRegistry l then organizationUpdateRegistrationMethod
                    else organizationRegistrationMethod) in
      case v_orgRegistryContractAddress l of
        None \<Rightarrow> stop (recoveredRegistration nilDeref)
      | Some orgRegistryContractAddress \<Rightarrow>
      emit (Debugf ''attempting to register organization %s, with on-chain registry contract: %s''
              [S (v_organizationID l), S orgRegistryContractAddress])
     (case v_orgRegistryContractID l of
        None \<Rightarrow> stop (recoveredRegistration nilDeref)
      | Some orgRegistryContractID \<Rightarrow>
     (case org_Name (v_organization l) of
        None \<Rightarrow> stop (recoveredRegistration nilDeref)
      | Some name \<Rightarrow>
     (case v_orgDomain l of
        None \<Rightarrow> stop (recoveredRegistration nilDeref)
      | Some orgDomain \<Rightarrow>
     (case v_orgMessagingEndpoint l of
        None \<Rightarrow> stop (recoveredRegistration nilDeref)
      | Some orgMessagingEndpoint \<Rightarrow>
     (case v_orgZeroKnowledgePublicKey l of
        None \<Rightarrow> stop (recoveredRegistration nilDeref)
      | Some orgZeroKnowledgePublicKey \<Rightarrow>
        emit (NchainExecuteContract (v_jwtToken l) orgRegistryContractID
                (executeParams (v_orgWalletID l) method (v_orgAddress l) name orgDomain
                   orgMessagingEndpoint orgZeroKnowledgePublicKey))
        (case nchain_ExecuteContract env (v_jwtToken l) orgRegistryContractID
                (executeParams (v_orgWalletID l) method (v_orgAddress l) name orgDomain
                   orgMessagingEndpoint orgZeroKnowledgePublicKey) of
           Inl err \<Rightarrow>
             stop [Warningf ''organization registry transaction broadcast failed on behalf of organization: %s; org registry contract id: %s; %s''
                     [S (v_organizationID l), S orgRegistryContractID, S err]]
         | Inr res \<Rightarrow>
             stop ((if v_updateOrgMetadata l
                    then [OrganizationUpdate (v_organization l) (v_metadata l)] else []) @
                   [Debugf ''broadcast organization registry and interface impl transactions on behalf of organization: %s''
                      [S (v_organizationID l)],
                    Ack]))))))))"

text \<open>Steps 1 and 2 of the handler: everything up to the four required values.\<close>

definition registrationResolved :: "Env \<Rightarrow> Msg \<Rightarrow> Locals step" where
  "registrationResolved env msg =
     andThen (andThen (registrationParams env msg) (registrationVaultKeys env))
       (registrationMetadata env)"

text \<open>Up to the listing of the contracts.\<close>

definition registrationListed :: "Env \<Rightarrow> Msg \<Rightarrow> Locals step" where
  "registrationListed env msg =
     andThen (andThen (andThen (registrationResolved env msg) registrationRequire)
       (registrationTokens env)) (registrationContracts env)"

text \<open>Up to the contract execution.\<close>

definition registrationPrepared :: "Env \<Rightarrow> Msg \<Rightarrow> Locals step" where
  "registrationPrepared env msg =
     andThen (andThen (andThen (registrationListed env msg) (registrationWallet env))
       (\<lambda>l. registrationClassify env (v_contracts l) l)) registrationRegistries"

text \<open>The same without the last check: up to the end of the loop over the listed contracts.\<close>

definition registrationClassified :: "Env \<Rightarrow> Msg \<Rightarrow> Locals step" where
  "registrationClassified env msg =
     andThen (andThen (registrationListed env msg) (registrationWallet env))
       (\<lambda>l. registrationClassify env (v_contracts l) l)"

definition consumeOrganizationRegistrationMsg :: "Env \<Rightarrow> Msg \<Rightarrow> event list" where
  "consumeOrganizationRegistrationMsg env msg =
     fst (andThen (registrationPrepared env msg) (registrationExecute env))"

section \<open>Onboarding Trigger: addOrganization\<close>

record Application =
  app_ID :: uuid
  app_Config :: "string option"

text \<open>
  The two tables the trigger reads and writes: the organizations, and the rows
  (application id, organization id, permissions) of \<open>applications_organizations\<close>.
\<close>

record Db =
  db_organizations :: "Organization list"
  db_applications_organizations :: "(uuid \<times> uuid \<times> 32 word) list"

text \<open>
  \<open>ParseConfig\<close>: an empty map without a configuration, a nil map when it does not
  parse, and the map as \<open>json.Unmarshal\<close> leaves it otherwise: nil, without a log line,
  for the JSON text \<open>null\<close>.
\<close>

definition ParseConfig :: "Env \<Rightarrow> Application \<Rightarrow> event list \<times> jobject option" where
  "ParseConfig env app =
     (case app_Config app of
        None \<Rightarrow> ([], Some [])
      | Some raw \<Rightarrow>
          (case json_Unmarshal env raw of
             Inl err \<Rightarrow> ([Warningf ''Failed to unmarshal application params; %s'' [S err]], None)
           | Inr cfg \<Rightarrow> ([], if jsonNull raw then None else Some cfg)))"

text \<open>
  The rows of \<open>OrganizationsListQuery\<close>: organizations joined with
  \<open>applications_organizations\<close> on the organization id, for one application.
\<close>

definition associatedOrganizations :: "Db \<Rightarrow> uuid \<Rightarrow> Organization list" where
  "associatedOrganizations db appID =
     concat (map (\<lambda>organization.
       map (\<lambda>ao. organization)
         (filter (\<lambda>ao. fst (snd ao) = org_ID organization \<and> fst ao = appID)
            (db_applications_organizations db)))
       (db_organizations db))"

text \<open>
  \<open>app.OrganizationsListQuery(db).Where("organizations.id != ?", organizationID).Find(&orgs)\<close>.
  The order \<open>organizations.name desc\<close> of the database is the parameter \<open>orderByNameDesc\<close>.
\<close>

definition peerOrganizations ::
  "(Organization list \<Rightarrow> Organization list) \<Rightarrow> Db \<Rightarrow> uuid \<Rightarrow> uuid \<Rightarrow> Organization list" where
  "peerOrganizations orderByNameDesc db appID organizationID =
     orderByNameDesc
       (filter (\<lambda>organization. org_ID organization \<noteq> organizationID)
          (associatedOrganizations db appID))"

definition exchangeInitPayload :: "Env \<Rightarrow> uuid \<Rightarrow> uuid \<Rightarrow> jobject" where
  "exchangeInitPayload env organizationID peerOrganizationID =
     [(''organization_id'', JString (uuid_String env organizationID)),
      (''peer_organization_id'', JString (uuid_String env peerOrganizationID))]"

definition initImplicitDiffieHellmanKeyExchange ::
  "Env \<Rightarrow> (Organization list \<Rightarrow> Organization list) \<Rightarrow> Db \<Rightarrow> Application \<Rightarrow> uuid \<Rightarrow> event list" where
  "initImplicitDiffieHellmanKeyExchange env orderByNameDesc db app organizationID =
     Debugf ''initializing implicit Diffie-Hellman key exchange for application: %s; new organization: %s''
       [U (app_ID app), U organizationID] #
     concat (map (\<lambda>peerOrg.
       [NatsPublish natsOrganizationImplicitKeyExchangeInitSubject
          (exchangeInitPayload env organizationID (org_ID peerOrg)),
        NatsPublish natsOrganizationImplicitKeyExchangeInitSubject
          (exchangeInitPayload env (org_ID peerOrg) organizationID)])
       (peerOrganizations orderByNameDesc db (app_ID app) organizationID))"

definition registrationPayload :: "Env \<Rightarrow> uuid \<Rightarrow> uuid \<Rightarrow> jobject" where
  "registrationPayload env appID organizationID =
     [(''application_id'', JString (uuid_String env appID)),
      (''organization_id'', JString (uuid_String env organizationID))]"

definition initOrgRegistration :: "Env \<Rightarrow> Application \<Rightarrow> uuid \<Rightarrow> event list" where
  "initOrgRegistration env app organizationID =
     [Debugf ''dispatching async org registration for application: %s; new organization: %s''
        [U (app_ID app), U organizationID],
      NatsPublish natsOrganizationRegistrationSubject
        (registrationPayload env (app_ID app) organizationID)]"

text \<open>
  \<open>addOrganization\<close>. \<open>rowsAffected\<close> is what the database reports for the \<open>INSERT\<close>; the
  row is in the table afterwards when it is 1. The result is the returned \<open>success\<close>, the
  database afterwards, the events of the call itself, and the events of each goroutine
  it starts with \<open>go\<close>, each run on the database as the call leaves it.
\<close>

definition addOrganization ::
  "Env \<Rightarrow> (Organization list \<Rightarrow> Organization list) \<Rightarrow> nat \<Rightarrow> Db \<Rightarrow> Application \<Rightarrow> Organization
     \<Rightarrow> 32 word \<Rightarrow> bool \<times> Db \<times> event list \<times> event list list" where
  "addOrganization env orderByNameDesc rowsAffected db app org permissions =
     (let adding =
            [Debugf ''adding organization %s to application: %s'' [U (org_ID org), U (app_ID app)],
             DbExec ''INSERT INTO applications_organizations (application_id, organization_id, permissions) VALUES (?, ?, ?)''
               [U (app_ID app), U (org_ID org), N (unat permissions)]];
          success = (rowsAffected = 1)
      in
      if success then
        (let db' = db\<lparr>db_applications_organizations :=
                        db_applications_organizations db @ [(app_ID app, org_ID org, permissions)]\<rparr>;
             added =
               [Debugf ''added organization %s to application: %s'' [U (org_ID org), U (app_ID app)],
                DbExec ''DELETE FROM applications_users WHERE applications_users.application_id=? AND applications_users.user_id IN (SELECT user_id FROM organizations_users WHERE organizations_users.organization_id=?)''
                  [U (app_ID app), U (org_ID org)]];
             cfg = ParseConfig env app;
             isBaseline = (case snd cfg of
                             None \<Rightarrow> False
                           | Some c \<Rightarrow> (case asBool (map_of c ''baselined'') of
                                          Some b \<Rightarrow> b | None \<Rightarrow> False))
         in (success, db', adding @ added @ fst cfg,
             if isBaseline then
               [initOrgRegistration env app (org_ID org),
                initImplicitDiffieHellmanKeyExchange env orderByNameDesc db' app (org_ID org)]
             else []))
      else
        (success, db,
         adding @ [Warningf ''failed to add organization %s to application: %s''
                     [U (org_ID org), U (app_ID app)]],
         []))"

section \<open>Observations on a run\<close>

fun isCreateVault :: "event \<Rightarrow> bool" where
  "isCreateVault (VaultCreateVault t p) = True"
| "isCreateVault e = False"

fun isPublish :: "event \<Rightarrow> bool" where
  "isPublish (NatsPublish s p) = True"
| "isPublish e = False"

fun isCreateWallet :: "event \<Rightarrow> bool" where
  "isCreateWallet (NchainCreateWallet t p) = True"
| "isCreateWallet e = False"

fun isGetContractDetails :: "event \<Rightarrow> bool" where
  "isGetContractDetails (NchainGetContractDetails t c) = True"
| "isGetContractDetails e = False"

fun isExecuteContract :: "event \<Rightarrow> bool" where
  "isExecuteContract (NchainExecuteContract t c p) = True"
| "isExecuteContract e = False"

fun isOrganizationUpdate :: "event \<Rightarrow> bool" where
  "isOrganizationUpdate (OrganizationUpdate organization m) = True"
| "isOrganizationUpdate e = False"

text \<open>
  The position of an event of the registration handler in the order of its source: the
  three \<open>Vend\<close> call sites, the calls to the vault and to the ledger, the update of the
  organization, and the two acknowledgment calls. A log line has no position.
\<close>

fun phase :: "event \<Rightarrow> nat option" where
  "phase (TokenVend n t) = Some (if n = 0 then 1 else if n = 1 then 4 else 6)"
| "phase (VaultListVaults t) = Some 2"
| "phase (VaultListKeys t v p) = Some 3"
| "phase (NchainListContracts t) = Some 5"
| "phase (NchainCreateWallet t p) = Some 7"
| "phase (NchainGetContractDetails t c) = Some 8"
| "phase (NchainExecuteContract t c p) = Some 9"
| "phase (OrganizationUpdate organization m) = Some 10"
| "phase Ack = Some 11"
| "phase Nak = Some 11"
| "phase e = None"

definition phases :: "event list \<Rightarrow> nat list" where
  "phases es = List.map_filter phase es"

text \<open>
  \<open>inOrder lo hi stopped es\<close>: the events of \<open>es\<close> that have a position other than \<open>Nak\<close>
  lie between \<open>lo\<close> and \<open>hi\<close> and never decrease, and \<open>Nak\<close> occurs exactly when
  \<open>stopped\<close>, as the last event.
\<close>

fun inOrder :: "nat \<Rightarrow> nat \<Rightarrow> bool \<Rightarrow> event list \<Rightarrow> bool" where
  "inOrder lo hi stopped [] = (\<not> stopped)"
| "inOrder lo hi stopped (e # es) =
     (if e = Nak then stopped \<and> es = []
      else case phase e of
             None \<Rightarrow> inOrder lo hi stopped es
           | Some p \<Rightarrow> lo \<le> p \<and> p \<le> hi \<and> inOrder p hi stopped es)"

fun isLog :: "event \<Rightarrow> bool" where
  "isLog (Debugf f a) = True"
| "isLog (Warningf f a) = True"
| "isLog (Warning f) = True"
| "isLog e = False"

text \<open>
  The four ways in which the last part of the registration handler can end: a recovered
  panic before or after its first log line, a failed contract execution, or a successful
  one followed by the optional update and the acknowledgment.
\<close>

definition executeShape :: "Env \<Rightarrow> Locals \<Rightarrow> event list \<Rightarrow> bool" where
  "executeShape env l es =
     (es = recoveredRegistration nilDeref \<or>
      (\<exists>d. isLog d \<and> es = d # recoveredRegistration nilDeref) \<or>
      (\<exists>d cid p err. isLog d \<and>
         es = [d, NchainExecuteContract (v_jwtToken l) cid p,
               Warningf ''organization registry transaction broadcast failed on behalf of organization: %s; org registry contract id: %s; %s''
                 [S (v_organizationID l), S cid, S err]] \<and>
         nchain_ExecuteContract env (v_jwtToken l) cid p = Inl err) \<or>
      (\<exists>d cid p res d'. isLog d \<and> isLog d' \<and>
         es = [d, NchainExecuteContract (v_jwtToken l) cid p] @
              (if v_updateOrgMetadata l
               then [OrganizationUpdate (v_organization l) (v_metadata l)] else []) @
              [d', Ack] \<and>
         nchain_ExecuteContract env (v_jwtToken l) cid p = Inr res))"

text \<open>
  A call that the registration handler makes before the contract execution, to the token
  issuer, the vault or the ledger, and that is answered with a failure: a \<open>Vend\<close> that
  returns false, or an error.
\<close>

fun failedCall :: "Env \<Rightarrow> event \<Rightarrow> bool" where
  "failedCall env (TokenVend n t) = (\<not> fst (token_Vend env n t))"
| "failedCall env (VaultListVaults t) = isl (vault_ListVaults env t)"
| "failedCall env (VaultListKeys t v p) = isl (vault_ListKeys env t v p)"
| "failedCall env (NchainListContracts t) = isl (nchain_ListContracts env t)"
| "failedCall env (NchainCreateWallet t p) = isl (nchain_CreateWallet env t p)"
| "failedCall env (NchainGetContractDetails t c) = isl (nchain_GetContractDetails env t c)"
| "failedCall env e = False"

text \<open>
  \<open>abortsOnFailure env es\<close>: the first failed call of \<open>es\<close>, if there is one, is followed
  by one log line and \<open>Nak\<close>, and by nothing else.
\<close>

fun abortsOnFailure :: "Env \<Rightarrow> event list \<Rightarrow> bool" where
  "abortsOnFailure env [] = True"
| "abortsOnFailure env (e # es) =
     (if failedCall env e then isLog (hd es) \<and> es = [hd es, Nak]
      else abortsOnFailure env es)"

text \<open>The log line of the deferred function of the registration handler.\<close>

fun isRecovered :: "event \<Rightarrow> bool" where
  "isRecovered (Warningf f a) = (f = ''recovered in org registration message handler; %s'')"
| "isRecovered e = False"

text \<open>\<open>naksRecovered es\<close>: that log line, if it occurs, is followed by \<open>Nak\<close> and nothing else.\<close>

fun naksRecovered :: "event list \<Rightarrow> bool" where
  "naksRecovered [] = True"
| "naksRecovered (e # es) = (if isRecovered e then es = [Nak] else naksRecovered es)"

text \<open>The first position of an event with a property, if there is one.\<close>

fun firstIndex :: "(event \<Rightarrow> bool) \<Rightarrow> event list \<Rightarrow> nat option" where
  "firstIndex P [] = None"
| "firstIndex P (e # es) =
     (if P e then Some 0 else (case firstIndex P es of None \<Rightarrow> None | Some i \<Rightarrow> Some (Suc i)))"

text \<open>A publish on a given subject.\<close>

fun isPublishOn :: "string \<Rightarrow> event \<Rightarrow> bool" where
  "isPublishOn subject (NatsPublish s p) = (s = subject)"
| "isPublishOn subject e = False"

text \<open>The token a ledger call about contracts is made with.\<close>

fun contractCallToken :: "event \<Rightarrow> string option" where
  "contractCallToken (NchainListContracts t) = Some t"
| "contractCallToken (NchainGetContractDetails t c) = Some t"
| "contractCallToken (NchainExecuteContract t c p) = Some t"
| "contractCallToken e = None"

section \<open>Concrete collaborators and messages\<close>

text \<open>
  A world in which every collaborator answers: one organization \<open>org-1\<close> with a vault
  holding a signing key, a secp256k1 key and a babyJubJub key, an application \<open>app-1\<close>
  without persisted tokens and with one contract of each registry type.
\<close>

definition okOrganization :: Organization where
  "okOrganization = \<lparr>org_ID = 1, org_Name = Some ''Acme'', org_Metadata = Some ''metadata-1''\<rparr>"

definition noOrganization :: Organization where
  "noOrganization = \<lparr>org_ID = 0, org_Name = None, org_Metadata = None\<rparr>"

definition okUuidString :: "uuid \<Rightarrow> string" where
  "okUuidString u =
     (if u = 1 then ''org-1'' else if u = 2 then ''org-2'' else if u = 3 then ''org-3''
      else if u = 4 then ''org-4'' else if u = 10 then ''vault-10''
      else if u = 11 then ''vault-11'' else if u = 23 then ''key-23''
      else if u = 30 then ''contract-30'' else if u = 31 then ''contract-31''
      else if u = 40 then ''wallet-40'' else if u = 100 then ''app-1'' else ''other'')"

definition okUnmarshal :: "string \<Rightarrow> string + jobject" where
  "okUnmarshal d =
     (if d = ''created org-1'' then Inr [(''organization_id'', JString ''org-1'')]
      else if d = ''created org-9'' then Inr [(''organization_id'', JString ''org-9'')]
      else if d = ''init org-1 org-2'' then
        Inr [(''organization_id'', JString ''org-1''), (''peer_organization_id'', JString ''org-2'')]
      else if d = ''init org-2 org-1'' then
        Inr [(''organization_id'', JString ''org-2''), (''peer_organization_id'', JString ''org-1'')]
      else if d = ''complete org-1 org-2'' then
        Inr [(''organization_id'', JString ''org-1''), (''peer_organization_id'', JString ''org-2''),
             (''public_key'', JString ''c0ffee''), (''signature'', JString ''5157''),
             (''signing_key'', JString ''ed01''), (''signing_spec'', JString ''Ed25519'')]
      else if d = ''register org-1 app-1'' then
        Inr [(''organization_id'', JString ''org-1''), (''application_id'', JString ''app-1'')]
      else if d = ''update org-1 app-1'' then
        Inr [(''organization_id'', JString ''org-1''), (''application_id'', JString ''app-1''),
             (''update_registry'', JBool True)]
      else if d = ''baselined'' then Inr [(''baselined'', JBool True)]
      else Inl ''unexpected end of JSON input'')"

definition okKey :: "uuid \<Rightarrow> string \<Rightarrow> string \<Rightarrow> Key" where
  "okKey i name spec =
     \<lparr>key_ID = i, key_Name = Some name, key_Spec = Some spec,
      key_Address = Some ''0xacme'', key_PublicKey = Some ''c0ffee''\<rparr>"

definition okContracts :: "Contract list" where
  "okContracts =
     [\<lparr>contract_ID = 30, contract_Address = None, contract_Type = None\<rparr>,
      \<lparr>contract_ID = 31, contract_Address = None, contract_Type = None\<rparr>]"

definition okErc1820Registry :: Contract where
  "okErc1820Registry =
     \<lparr>contract_ID = 30, contract_Address = Some ''0xe1820'',
      contract_Type = Some ''erc1820-registry''\<rparr>"

definition okOrgRegistry :: Contract where
  "okOrgRegistry =
     \<lparr>contract_ID = 31, contract_Address = Some ''0x0r6'',
      contract_Type = Some ''organization-registry''\<rparr>"

definition okEnv :: Env where
  "okEnv =
     \<lparr>json_Unmarshal = okUnmarshal,
      strings_ToLower = (\<lambda>s. if s = ''Ekho Signing'' then ''ekho signing'' else s),
      hex_DecodeString = (\<lambda>s. (s, None)),
      hex_EncodeToString = (\<lambda>s. s),
      uuid_FromString = (\<lambda>s. if s = ''app-1'' then Inr 100 else Inl ''uuid: incorrect UUID length''),
      uuid_String = okUuidString,
      common_StringOrNil = (\<lambda>s. if s = [] then None else Some s),
      db_FindOrganization = (\<lambda>s. if s = ''org-1'' then okOrganization else noOrganization),
      db_FindTokens = (\<lambda>s. []),
      organization_ParseMetadata =
        (\<lambda>organization. Some [(''messaging_endpoint'', JString ''nats://acme''),
                              (''domain'', JString ''acme.example'')]),
      token_Vend = (\<lambda>n t. (True, t\<lparr>tok_Token := Some (if n = 1 then ''app-jwt'' else ''org-jwt'')\<rparr>)),
      vault_CreateVault = (\<lambda>t p. Inr \<lparr>vlt_ID = 10\<rparr>),
      vault_ListVaults = (\<lambda>t. Inr [\<lparr>vlt_ID = 10\<rparr>]),
      vault_ListKeys =
        (\<lambda>t v p. if p = [(''spec'', JString ''secp256k1'')] then Inr [okKey 21 ''wallet key'' ''secp256k1'']
                  else if p = [(''spec'', JString ''babyJubJub'')] then Inr [okKey 22 ''zk key'' ''babyJubJub'']
                  else Inr [okKey 21 ''wallet key'' ''secp256k1'', okKey 20 ''Ekho Signing'' ''Ed25519'']),
      vault_CreateKey = (\<lambda>t v p. Inr (okKey 23 ''ekho single-use c25519 key exchange'' ''C25519'')),
      vault_SignMessage = (\<lambda>t v k m. Inr \<lparr>sig_Signature = Some ''5157''\<rparr>),
      nchain_ListContracts = (\<lambda>t. Inr okContracts),
      nchain_GetContractDetails =
        (\<lambda>t c. if c = ''contract-30'' then Inr okErc1820Registry else Inr okOrgRegistry),
      nchain_CreateWallet = (\<lambda>t p. Inr \<lparr>wallet_ID = 40\<rparr>),
      nchain_ExecuteContract = (\<lambda>t c p. Inr ())\<rparr>"

definition msgOf :: "string \<Rightarrow> Msg" where
  "msgOf d = \<lparr>msg_Data = d, msg_Subject = ''ident''\<rparr>"

text \<open>The same world where the organization has no vault.\<close>

definition noVaultEnv :: Env where
  "noVaultEnv = okEnv\<lparr>vault_ListVaults := (\<lambda>t. Inr [])\<rparr>"

text \<open>The same world where the ledger fails to give the details of a contract.\<close>

definition detailsFailEnv :: Env where
  "detailsFailEnv = okEnv\<lparr>nchain_GetContractDetails := (\<lambda>t c. Inl ''contract not found'')\<rparr>"

text \<open>
  The same world where the token issuer refuses at the third \<open>Vend\<close> call site, where the
  application has no contracts, and where \<open>Vend\<close> succeeds but leaves the token empty.
\<close>

definition vendFailEnv :: Env where
  "vendFailEnv = okEnv\<lparr>token_Vend :=
     (\<lambda>n t. (n \<noteq> 2, t\<lparr>tok_Token := Some (if n = 1 then ''app-jwt'' else ''org-jwt'')\<rparr>))\<rparr>"

definition noContractsEnv :: Env where
  "noContractsEnv = okEnv\<lparr>nchain_ListContracts := (\<lambda>t. Inr [])\<rparr>"

definition nilTokenEnv :: Env where
  "nilTokenEnv = okEnv\<lparr>token_Vend := (\<lambda>n t. (True, t))\<rparr>"

text \<open>The same world where the contract execution fails.\<close>

definition executeFailEnv :: Env where
  "executeFailEnv = okEnv\<lparr>nchain_ExecuteContract := (\<lambda>t c p. Inl ''nonce too low'')\<rparr>"

text \<open>The same world where the application has a persisted token without a scope.\<close>

definition persistedToken :: Token where
  "persistedToken =
     \<lparr>tok_OrganizationID = None, tok_ApplicationID = Some 100, tok_Scope = None,
      tok_Token = Some ''legacy-jwt''\<rparr>"

definition persistedTokenEnv :: Env where
  "persistedTokenEnv = okEnv\<lparr>db_FindTokens := (\<lambda>s. if s = ''app-1'' then [persistedToken] else [])\<rparr>"

text \<open>
  The same world with one of the four required values missing: no secp256k1 key, no
  \<open>domain\<close> or no \<open>messaging_endpoint\<close> in the metadata, no babyJubJub key.
\<close>

definition noAddressEnv :: Env where
  "noAddressEnv = okEnv\<lparr>vault_ListKeys :=
     (\<lambda>t v p. if p = [(''spec'', JString ''secp256k1'')] then Inr []
               else Inr [okKey 22 ''zk key'' ''babyJubJub''])\<rparr>"

definition noDomainEnv :: Env where
  "noDomainEnv = okEnv\<lparr>organization_ParseMetadata :=
     (\<lambda>organization. Some [(''messaging_endpoint'', JString ''nats://acme'')])\<rparr>"

definition noEndpointEnv :: Env where
  "noEndpointEnv = okEnv\<lparr>organization_ParseMetadata :=
     (\<lambda>organization. Some [(''domain'', JString ''acme.example'')])\<rparr>"

definition noZkKeyEnv :: Env where
  "noZkKeyEnv = okEnv\<lparr>vault_ListKeys :=
     (\<lambda>t v p. if p = [(''spec'', JString ''secp256k1'')] then Inr [okKey 21 ''wallet key'' ''secp256k1'']
               else Inr [])\<rparr>"

text \<open>An organization that is a member of applications.\<close>

definition organizationWithID :: "uuid \<Rightarrow> Organization" where
  "organizationWithID i = \<lparr>org_ID = i, org_Name = Some ''member'', org_Metadata = None\<rparr>"

text \<open>
  A world with two organizations, each with its own token and its own vault: the vault
  of \<open>org-2\<close> holds an exchange signing key, the vault of \<open>org-1\<close> does not.
\<close>

definition peerSigningKeyEnv :: Env where
  "peerSigningKeyEnv = okEnv\<lparr>
     db_FindOrganization :=
       (\<lambda>s. if s = ''org-1'' then okOrganization
            else if s = ''org-2'' then organizationWithID 2 else noOrganization),
     token_Vend :=
       (\<lambda>n t. (True, t\<lparr>tok_Token :=
                   Some (if tok_OrganizationID t = Some 2 then ''org-2-jwt'' else ''org-jwt'')\<rparr>)),
     vault_ListVaults :=
       (\<lambda>t. if t = ''org-2-jwt'' then Inr [\<lparr>vlt_ID = 11\<rparr>] else Inr [\<lparr>vlt_ID = 10\<rparr>]),
     vault_ListKeys :=
       (\<lambda>t v p. if t = ''org-2-jwt'' then Inr [okKey 20 ''Ekho Signing'' ''Ed25519'']
                 else Inr [okKey 21 ''wallet key'' ''secp256k1''])\<rparr>"

text \<open>
  A baselined application \<open>app-1\<close> already associated with the organizations 1, 2 and 3,
  in a database that also holds the organization 4, and an organization 5 associated
  with another application.
\<close>

definition okDb :: Db where
  "okDb =
     \<lparr>db_organizations = map organizationWithID [1, 2, 3, 4, 5],
      db_applications_organizations = [(100, 1, 0), (200, 5, 0), (100, 2, 0), (100, 3, 0)]\<rparr>"

definition okApplication :: Application where
  "okApplication = \<lparr>app_ID = 100, app_Config = Some ''baselined''\<rparr>"

section \<open>Vault Provisioner\<close>

text \<open>
  C4. For an organization-created event whose \<open>organization_id\<close> resolves to an existing
  organization, with the token issuer and the vault service answering, the Vault
  Provisioner calls \<open>CreateVault\<close> exactly once, for that organization, and acknowledges
  the message without a negative-acknowledgment. When the \<open>organization_id\<close> does not
  resolve to an existing organization, it negative-acknowledges and never calls
  \<open>CreateVault\<close>. Whether the organization already has a vault is never looked at.
\<close>

theorem vault_provisioner_creates_one_vault:
  assumes "json_Unmarshal env (msg_Data msg) = Inr params"
    and "asString (map_of params ''organization_id'') = Some organizationID"
  shows "(org_ID (db_FindOrganization env organizationID) \<noteq> uuid_Nil \<and>
          token_Vend env 0 (orgTokenFor (org_ID (db_FindOrganization env organizationID))) = (True, orgToken) \<and>
          tok_Token orgToken = Some jwt \<and>
          org_Name (db_FindOrganization env organizationID) = Some name \<and>
          vault_CreateVault env jwt (createVaultParams name organizationID) = Inr vlt
          \<longrightarrow> filter isCreateVault (consumeCreatedOrganizationMsg env msg) =
                [VaultCreateVault jwt (createVaultParams name organizationID)] \<and>
              last (consumeCreatedOrganizationMsg env msg) = Ack \<and>
              Nak \<notin> set (consumeCreatedOrganizationMsg env msg)) \<and>
         (org_ID (db_FindOrganization env organizationID) = uuid_Nil
          \<longrightarrow> filter isCreateVault (consumeCreatedOrganizationMsg env msg) = [] \<and>
              last (consumeCreatedOrganizationMsg env msg) = Nak \<and>
              Ack \<notin> set (consumeCreatedOrganizationMsg env msg))"
  using assms by (simp add: consumeCreatedOrganizationMsg_def Let_def)

theorem vault_provisioner_creates_one_vault_witness:
  "filter isCreateVault (consumeCreatedOrganizationMsg okEnv (msgOf ''created org-1'')) =
     [VaultCreateVault ''org-jwt'' (createVaultParams ''Acme'' ''org-1'')] \<and>
   last (consumeCreatedOrganizationMsg okEnv (msgOf ''created org-1'')) = Ack \<and>
   Nak \<notin> set (consumeCreatedOrganizationMsg okEnv (msgOf ''created org-1'')) \<and>
   filter isCreateVault (consumeCreatedOrganizationMsg okEnv (msgOf ''created org-9'')) = [] \<and>
   last (consumeCreatedOrganizationMsg okEnv (msgOf ''created org-9'')) = Nak \<and>
   Ack \<notin> set (consumeCreatedOrganizationMsg okEnv (msgOf ''created org-9''))"
proof -
  have u1: "json_Unmarshal okEnv (msg_Data (msgOf ''created org-1'')) =
      Inr [(''organization_id'', JString ''org-1'')]"
    by (simp add: okEnv_def okUnmarshal_def msgOf_def)
  have u9: "json_Unmarshal okEnv (msg_Data (msgOf ''created org-9'')) =
      Inr [(''organization_id'', JString ''org-9'')]"
    by (simp add: okEnv_def okUnmarshal_def msgOf_def)
  have s1: "asString (map_of [(''organization_id'', JString ''org-1'')] ''organization_id'') = Some ''org-1''"
    by (simp add: asString_def)
  have s9: "asString (map_of [(''organization_id'', JString ''org-9'')] ''organization_id'') = Some ''org-9''"
    by (simp add: asString_def)
  have found: "org_ID (db_FindOrganization okEnv ''org-1'') \<noteq> uuid_Nil \<and>
     token_Vend okEnv 0 (orgTokenFor (org_ID (db_FindOrganization okEnv ''org-1''))) =
       (True, (orgTokenFor 1)\<lparr>tok_Token := Some ''org-jwt''\<rparr>) \<and>
     tok_Token ((orgTokenFor 1)\<lparr>tok_Token := Some ''org-jwt''\<rparr>) = Some ''org-jwt'' \<and>
     org_Name (db_FindOrganization okEnv ''org-1'') = Some ''Acme'' \<and>
     vault_CreateVault okEnv ''org-jwt'' (createVaultParams ''Acme'' ''org-1'') = Inr \<lparr>vlt_ID = 10\<rparr>"
    by (simp add: okEnv_def okOrganization_def uuid_Nil_def)
  have missing: "org_ID (db_FindOrganization okEnv ''org-9'') = uuid_Nil"
    by (simp add: okEnv_def noOrganization_def uuid_Nil_def)
  from vault_provisioner_creates_one_vault
         [OF u1 s1, of "(orgTokenFor 1)\<lparr>tok_Token := Some ''org-jwt''\<rparr>" "''org-jwt''" "''Acme''" "\<lparr>vlt_ID = 10\<rparr>"]
       vault_provisioner_creates_one_vault [OF u9 s9, of orgToken jwt name vlt] found missing
  show ?thesis by blast
qed

section \<open>Key-Exchange Initiator\<close>

lemma findSigningKey_Some:
  "findSigningKey env keys = Some k \<Longrightarrow> k \<in> set keys \<and> isEkhoSigning env k"
  by (induction keys) (auto split: if_splits)

text \<open>
  C5. Let no key be named as the exchange signing key (a name that \<open>strings.ToLower\<close>
  turns into \<open>ekho signing\<close>) among the keys listed from the first vault of the
  organization of the event, with the token vended for that organization. Then the
  Key-Exchange Initiator publishes nothing, does not acknowledge, and ends with a
  negative-acknowledgment; in particular when the organization has no vault or the
  listing fails. The vaults and keys of other organizations do not matter.
\<close>

theorem key_exchange_init_needs_signing_key:
  assumes "\<And>params organizationID orgToken jwt orgVault others keys key name.
             json_Unmarshal env (msg_Data msg) = Inr params \<Longrightarrow>
             asString (map_of params ''organization_id'') = Some organizationID \<Longrightarrow>
             token_Vend env 0
               \<lparr>tok_OrganizationID = Some (org_ID (db_FindOrganization env organizationID)),
                tok_ApplicationID = None, tok_Scope = None, tok_Token = None\<rparr> = (True, orgToken) \<Longrightarrow>
             tok_Token orgToken = Some jwt \<Longrightarrow>
             vault_ListVaults env jwt = Inr (orgVault # others) \<Longrightarrow>
             vault_ListKeys env jwt (uuid_String env (vlt_ID orgVault)) [] = Inr keys \<Longrightarrow>
             key \<in> set keys \<Longrightarrow> key_Name key = Some name \<Longrightarrow>
             strings_ToLower env name \<noteq> ''ekho signing''"
  shows "\<not> list_ex isPublish (consumeOrganizationImplicitKeyExchangeInitMsg env msg) \<and>
         Ack \<notin> set (consumeOrganizationImplicitKeyExchangeInitMsg env msg) \<and>
         last (consumeOrganizationImplicitKeyExchangeInitMsg env msg) = Nak"
proof -
  have none: False
    if "json_Unmarshal env (msg_Data msg) = Inr params"
      and "asString (map_of params ''organization_id'') = Some organizationID"
      and "token_Vend env 0 (orgTokenFor (org_ID (db_FindOrganization env organizationID))) = (True, orgToken)"
      and "tok_Token orgToken = Some jwt"
      and "vault_ListVaults env jwt = Inr (orgVault # others)"
      and "vault_ListKeys env jwt (uuid_String env (vlt_ID orgVault)) [] = Inr keys"
      and "findSigningKey env keys = Some k"
    for params organizationID orgToken jwt orgVault others keys k
  proof -
    from findSigningKey_Some [OF that(7)] obtain name
      where "k \<in> set keys" "key_Name k = Some name" "strings_ToLower env name = ''ekho signing''"
      by (auto simp: isEkhoSigning_def split: option.splits)
    with assms [OF that(1,2) that(3) [unfolded orgTokenFor_def] that(4,5,6)] show False by blast
  qed
  show ?thesis
    by (auto simp: consumeOrganizationImplicitKeyExchangeInitMsg_def Let_def recoveredNak_def
        split: sum.splits option.splits list.splits prod.splits dest: none)
qed

lemmas init_defs = consumeOrganizationImplicitKeyExchangeInitMsg_def peerSigningKeyEnv_def okEnv_def
  okUnmarshal_def msgOf_def asString_def okOrganization_def organizationWithID_def
  uuid_Nil_def orgTokenFor_def okUuidString_def okKey_def isEkhoSigning_def

theorem key_exchange_init_needs_signing_key_witness:
  "\<not> list_ex isPublish (consumeOrganizationImplicitKeyExchangeInitMsg peerSigningKeyEnv (msgOf ''init org-1 org-2'')) \<and>
   Ack \<notin> set (consumeOrganizationImplicitKeyExchangeInitMsg peerSigningKeyEnv (msgOf ''init org-1 org-2'')) \<and>
   last (consumeOrganizationImplicitKeyExchangeInitMsg peerSigningKeyEnv (msgOf ''init org-1 org-2'')) = Nak \<and>
   VaultListKeys ''org-jwt'' ''vault-10'' [] \<in> set (consumeOrganizationImplicitKeyExchangeInitMsg peerSigningKeyEnv (msgOf ''init org-1 org-2'')) \<and>
   vault_ListKeys peerSigningKeyEnv ''org-2-jwt'' ''vault-11'' [] = Inr [okKey 20 ''Ekho Signing'' ''Ed25519''] \<and>
   VaultListKeys ''org-2-jwt'' ''vault-11'' [] \<in> set (consumeOrganizationImplicitKeyExchangeInitMsg peerSigningKeyEnv (msgOf ''init org-2 org-1'')) \<and>
   list_ex isPublish (consumeOrganizationImplicitKeyExchangeInitMsg peerSigningKeyEnv (msgOf ''init org-2 org-1'')) \<and>
   last (consumeOrganizationImplicitKeyExchangeInitMsg peerSigningKeyEnv (msgOf ''init org-2 org-1'')) = Ack \<and>
   \<not> list_ex isPublish (consumeOrganizationImplicitKeyExchangeInitMsg noVaultEnv (msgOf ''init org-1 org-2'')) \<and>
   Ack \<notin> set (consumeOrganizationImplicitKeyExchangeInitMsg noVaultEnv (msgOf ''init org-1 org-2'')) \<and>
   last (consumeOrganizationImplicitKeyExchangeInitMsg noVaultEnv (msgOf ''init org-1 org-2'')) = Nak"
proof -
  have h: "strings_ToLower peerSigningKeyEnv name \<noteq> ''ekho signing''"
    if "json_Unmarshal peerSigningKeyEnv (msg_Data (msgOf ''init org-1 org-2'')) = Inr params"
      and "asString (map_of params ''organization_id'') = Some organizationID"
      and "token_Vend peerSigningKeyEnv 0
               \<lparr>tok_OrganizationID = Some (org_ID (db_FindOrganization peerSigningKeyEnv organizationID)),
                tok_ApplicationID = None, tok_Scope = None, tok_Token = None\<rparr> = (True, orgToken)"
      and "tok_Token orgToken = Some jwt"
      and "vault_ListVaults peerSigningKeyEnv jwt = Inr (orgVault # others)"
      and "vault_ListKeys peerSigningKeyEnv jwt (uuid_String peerSigningKeyEnv (vlt_ID orgVault)) [] = Inr keys"
      and "key \<in> set keys" and "key_Name key = Some name"
    for params organizationID orgToken jwt orgVault others keys key name
  proof -
    from that(1,2) have "organizationID = ''org-1''"
      by (auto simp: peerSigningKeyEnv_def okEnv_def okUnmarshal_def msgOf_def asString_def)
    with that(3,4) have "jwt = ''org-jwt''"
      by (auto simp: peerSigningKeyEnv_def okEnv_def okOrganization_def)
    with that(6,7,8) show ?thesis
      by (auto simp: peerSigningKeyEnv_def okEnv_def okKey_def)
  qed
  have h': "strings_ToLower noVaultEnv name \<noteq> ''ekho signing''"
    if "vault_ListVaults noVaultEnv jwt = Inr (orgVault # others)"
    for jwt orgVault others name
    using that by (simp add: noVaultEnv_def okEnv_def)
  have reached: "VaultListKeys ''org-jwt'' ''vault-10'' [] \<in> set (consumeOrganizationImplicitKeyExchangeInitMsg peerSigningKeyEnv (msgOf ''init org-1 org-2''))"
    by (simp add: init_defs)
  have other: "vault_ListKeys peerSigningKeyEnv ''org-2-jwt'' ''vault-11'' [] = Inr [okKey 20 ''Ekho Signing'' ''Ed25519'']"
    "VaultListKeys ''org-2-jwt'' ''vault-11'' [] \<in> set (consumeOrganizationImplicitKeyExchangeInitMsg peerSigningKeyEnv (msgOf ''init org-2 org-1''))"
    "list_ex isPublish (consumeOrganizationImplicitKeyExchangeInitMsg peerSigningKeyEnv (msgOf ''init org-2 org-1''))"
    "last (consumeOrganizationImplicitKeyExchangeInitMsg peerSigningKeyEnv (msgOf ''init org-2 org-1'')) = Ack"
    by (simp_all add: init_defs exchangeInit_def Let_def)
  have "\<not> list_ex isPublish (consumeOrganizationImplicitKeyExchangeInitMsg peerSigningKeyEnv (msgOf ''init org-1 org-2'')) \<and>
   Ack \<notin> set (consumeOrganizationImplicitKeyExchangeInitMsg peerSigningKeyEnv (msgOf ''init org-1 org-2'')) \<and>
   last (consumeOrganizationImplicitKeyExchangeInitMsg peerSigningKeyEnv (msgOf ''init org-1 org-2'')) = Nak"
    by (rule key_exchange_init_needs_signing_key) (rule h, assumption+)
  moreover have "\<not> list_ex isPublish (consumeOrganizationImplicitKeyExchangeInitMsg noVaultEnv (msgOf ''init org-1 org-2'')) \<and>
   Ack \<notin> set (consumeOrganizationImplicitKeyExchangeInitMsg noVaultEnv (msgOf ''init org-1 org-2'')) \<and>
   last (consumeOrganizationImplicitKeyExchangeInitMsg noVaultEnv (msgOf ''init org-1 org-2'')) = Nak"
    by (rule key_exchange_init_needs_signing_key) (rule h', assumption)
  ultimately show ?thesis using reached other by blast
qed

section \<open>Key-Exchange Responder\<close>

lemma exchangeComplete_nak:
  "exchangeComplete oid peer pk sk sg k \<noteq> [] \<and>
   Ack \<notin> set (exchangeComplete oid peer pk sk sg k) \<and>
   last (exchangeComplete oid peer pk sk sg k) = Nak"
  by (simp add: exchangeComplete_def sharedSecretErr_def split: option.splits)

lemma exchangeCompleteResolve_nak:
  "exchangeCompleteResolve env oid peer pk sk sg \<noteq> [] \<and>
   Ack \<notin> set (exchangeCompleteResolve env oid peer pk sk sg) \<and>
   last (exchangeCompleteResolve env oid peer pk sk sg) = Nak"
  by (simp add: exchangeCompleteResolve_def recoveredNak_def Let_def exchangeComplete_nak
      split: sum.splits option.splits list.splits prod.splits)


text \<open>
  C9. The Key-Exchange Responder never acknowledges: no run contains \<open>Ack\<close> and every run
  ends with \<open>Nak\<close>. The branch taken with a signing key logs the peer's material, then
  the error that the derivation method is not exposed by the vault API, and
  negative-acknowledges; its acknowledgment is never reached.
\<close>

theorem key_exchange_complete_never_acknowledges:
  "Ack \<notin> set (consumeOrganizationImplicitKeyExchangeCompleteMsg env msg) \<and>
   last (consumeOrganizationImplicitKeyExchangeCompleteMsg env msg) = Nak \<and>
   exchangeComplete organizationID peerOrganizationID peerPubKey peerSigningKey sig (Some signingKey) =
     [Debugf ''peer org id: %s; peer public key: %s; peer signing key: %s; sig: %s''
        [S peerOrganizationID, S peerPubKey, S peerSigningKey, S sig],
      Warningf ''failed to encrypt shared secret during implicit key exchange message handler; organization id: %s; %s''
        [S organizationID,
         S ''the CreateDiffieHellmanSharedSecret method is not exposed by the vault API yet''],
      Nak]"
proof (intro conjI)
  show "Ack \<notin> set (consumeOrganizationImplicitKeyExchangeCompleteMsg env msg)"
    by (simp add: consumeOrganizationImplicitKeyExchangeCompleteMsg_def exchangeCompleteResolve_nak
        split: sum.splits option.splits)
  show "last (consumeOrganizationImplicitKeyExchangeCompleteMsg env msg) = Nak"
    by (simp add: consumeOrganizationImplicitKeyExchangeCompleteMsg_def exchangeCompleteResolve_nak
        split: sum.splits option.splits)
  show "exchangeComplete organizationID peerOrganizationID peerPubKey peerSigningKey sig (Some signingKey) =
     [Debugf ''peer org id: %s; peer public key: %s; peer signing key: %s; sig: %s''
        [S peerOrganizationID, S peerPubKey, S peerSigningKey, S sig],
      Warningf ''failed to encrypt shared secret during implicit key exchange message handler; organization id: %s; %s''
        [S organizationID,
         S ''the CreateDiffieHellmanSharedSecret method is not exposed by the vault API yet''],
      Nak]"
    by (simp add: exchangeComplete_def sharedSecretErr_def)
qed

lemmas env_defs = okEnv_def okUnmarshal_def msgOf_def asString_def asBool_def okOrganization_def
  noOrganization_def uuid_Nil_def orgTokenFor_def okUuidString_def okKey_def okContracts_def
  okErc1820Registry_def okOrgRegistry_def

text \<open>A run that reaches the shared-secret branch.\<close>

theorem key_exchange_complete_never_acknowledges_witness:
  "Debugf ''peer org id: %s; peer public key: %s; peer signing key: %s; sig: %s''
     [S ''org-2'', S ''c0ffee'', S ''ed01'', S ''5157'']
     \<in> set (consumeOrganizationImplicitKeyExchangeCompleteMsg okEnv (msgOf ''complete org-1 org-2'')) \<and>
   Ack \<notin> set (consumeOrganizationImplicitKeyExchangeCompleteMsg okEnv (msgOf ''complete org-1 org-2'')) \<and>
   last (consumeOrganizationImplicitKeyExchangeCompleteMsg okEnv (msgOf ''complete org-1 org-2'')) = Nak"
proof -
  have reached: "Debugf ''peer org id: %s; peer public key: %s; peer signing key: %s; sig: %s''
     [S ''org-2'', S ''c0ffee'', S ''ed01'', S ''5157'']
     \<in> set (consumeOrganizationImplicitKeyExchangeCompleteMsg okEnv (msgOf ''complete org-1 org-2''))"
    by (simp add: consumeOrganizationImplicitKeyExchangeCompleteMsg_def exchangeCompleteResolve_def
        exchangeComplete_def sharedSecretErr_def isEkhoSigning_def env_defs)
  from key_exchange_complete_never_acknowledges [of okEnv "msgOf ''complete org-1 org-2''"] reached
  show ?thesis by blast
qed

section \<open>Registration Coordinator\<close>

subsection \<open>Events in order\<close>

lemma inOrder_mono:
  "inOrder lo hi s es \<Longrightarrow> lo' \<le> lo \<Longrightarrow> hi \<le> hi' \<Longrightarrow> inOrder lo' hi' s es"
  by (induction es arbitrary: lo lo') (auto split: option.splits if_splits)

lemma inOrder_append:
  "inOrder lo hi False xs \<Longrightarrow> inOrder lo' hi' s ys \<Longrightarrow> lo \<le> lo' \<Longrightarrow> hi \<le> lo' \<Longrightarrow> lo' \<le> hi'
   \<Longrightarrow> inOrder lo hi' s (xs @ ys)"
proof (induction xs arbitrary: lo)
  case Nil
  then show ?case using inOrder_mono [of lo' hi' s ys lo hi'] by simp
next
  case (Cons e xs)
  then show ?case by (auto split: option.splits if_splits)
qed

lemma inOrder_andThen:
  assumes "inOrder lo hi (snd r = None) (fst r)"
    and "\<And>l. inOrder lo' hi' (snd (f l) = None) (fst (f l))"
    and "lo \<le> lo'" and "hi \<le> lo'" and "lo' \<le> hi'"
  shows "inOrder lo hi' (snd (andThen r f) = None) (fst (andThen r f))"
proof (cases "snd r")
  case None
  then show ?thesis using assms(1,4,5) inOrder_mono [of lo hi True "fst r" lo hi']
    by (simp add: andThen_def)
next
  case (Some l)
  then show ?thesis using assms inOrder_append [of lo hi "fst r" lo' hi' "snd (f l) = None" "fst (f l)"]
    by (simp add: andThen_def)
qed

lemma inOrder_stopped: "inOrder lo hi True es \<Longrightarrow> es \<noteq> [] \<and> last es = Nak"
  by (induction es arbitrary: lo) (auto split: option.splits if_splits)

lemma inOrder_running: "inOrder lo hi False es \<Longrightarrow> Nak \<notin> set es"
  by (induction es arbitrary: lo) (auto split: option.splits if_splits)

lemma inOrder_bound:
  "inOrder lo hi s es \<Longrightarrow> e \<in> set es \<Longrightarrow> e \<noteq> Nak \<Longrightarrow> phase e = Some p \<Longrightarrow> lo \<le> p \<and> p \<le> hi"
proof (induction es arbitrary: lo)
  case Nil
  then show ?case by simp
next
  case (Cons x xs)
  show ?case
  proof (cases "e = x")
    case True
    with Cons.prems show ?thesis by (auto split: option.splits if_splits)
  next
    case False
    with Cons.prems have mem: "e \<in> set xs" by simp
    from Cons.prems(1,3) mem have "x \<noteq> Nak" by (auto split: if_splits)
    show ?thesis
    proof (cases "phase x")
      case None
      with Cons.prems \<open>x \<noteq> Nak\<close> have "inOrder lo hi s xs" by simp
      from Cons.IH [OF this mem Cons.prems(3,4)] show ?thesis .
    next
      case (Some q)
      with Cons.prems \<open>x \<noteq> Nak\<close> have q: "lo \<le> q" "inOrder q hi s xs" by simp_all
      from Cons.IH [OF q(2) mem Cons.prems(3,4)] q(1) show ?thesis by simp
    qed
  qed
qed

lemma phases_Cons:
  "phases (e # es) = (case phase e of None \<Rightarrow> phases es | Some p \<Rightarrow> p # phases es)"
  by (simp add: phases_def map_filter_simps split: option.splits)

lemma phases_Nil: "phases [] = []"
  by (simp add: phases_def map_filter_simps)

lemma phases_append: "phases (xs @ ys) = phases xs @ phases ys"
  by (simp add: phases_def map_filter_def)

lemma inOrder_lower:
  "inOrder lo hi s es \<Longrightarrow> hi \<le> 11 \<Longrightarrow> lo \<le> 11 \<Longrightarrow> p \<in> set (phases es) \<Longrightarrow> lo \<le> p"
proof (induction es arbitrary: lo)
  case Nil
  then show ?case by (simp add: phases_Nil)
next
  case (Cons e es)
  show ?case
  proof (cases "e = Nak")
    case True
    with Cons.prems show ?thesis by (simp add: phases_Cons phases_Nil)
  next
    case False
    show ?thesis
    proof (cases "phase e")
      case None
      with Cons.prems False have "inOrder lo hi s es" "p \<in> set (phases es)"
        by (simp_all add: phases_Cons)
      from Cons.IH [OF this(1) Cons.prems(2,3) this(2)] show ?thesis .
    next
      case (Some q)
      with Cons.prems False have q: "lo \<le> q" "q \<le> hi" "inOrder q hi s es" "p = q \<or> p \<in> set (phases es)"
        by (simp_all add: phases_Cons)
      from q(4) show ?thesis
      proof
        assume "p = q" with q(1) show ?thesis by simp
      next
        assume "p \<in> set (phases es)"
        from Cons.IH [OF q(3) Cons.prems(2) _ this] q(2) Cons.prems(2) have "q \<le> p" by simp
        with q(1) show ?thesis by simp
      qed
    qed
  qed
qed

lemma inOrder_sorted: "inOrder lo hi s es \<Longrightarrow> hi \<le> 11 \<Longrightarrow> sorted (phases es)"
proof (induction es arbitrary: lo)
  case Nil
  then show ?case by (simp add: phases_Nil)
next
  case (Cons e es)
  show ?case
  proof (cases "e = Nak")
    case True
    with Cons.prems show ?thesis by (simp add: phases_Cons phases_Nil)
  next
    case False
    show ?thesis
    proof (cases "phase e")
      case None
      with Cons.prems False have "inOrder lo hi s es" by simp
      from Cons.IH [OF this Cons.prems(2)] None show ?thesis by (simp add: phases_Cons)
    next
      case (Some q)
      with Cons.prems False have q: "q \<le> hi" "inOrder q hi s es" by simp_all
      have "\<forall>p \<in> set (phases es). q \<le> p"
        using inOrder_lower [OF q(2) Cons.prems(2)] q(1) Cons.prems(2) by auto
      with Cons.IH [OF q(2) Cons.prems(2)] Some show ?thesis by (simp add: phases_Cons)
    qed
  qed
qed

lemma stage_params: "inOrder 0 0 (snd (registrationParams env msg) = None) (fst (registrationParams env msg))"
  by (simp add: registrationParams_def emit_def stop_def proceed_def Let_def
      split: sum.splits option.splits)

lemma stage_vaultKeys: "inOrder 1 3 (snd (registrationVaultKeys env l) = None) (fst (registrationVaultKeys env l))"
  by (simp add: registrationVaultKeys_def emit_def stop_def proceed_def recoveredRegistration_def
      split: sum.splits option.splits prod.splits list.splits)

lemma stage_metadata: "inOrder 3 3 (snd (registrationMetadata env l) = None) (fst (registrationMetadata env l))"
  by (simp add: registrationMetadata_def stop_def proceed_def recoveredRegistration_def Let_def
      split: option.splits)

lemma stage_require: "inOrder 3 3 (snd (registrationRequire l) = None) (fst (registrationRequire l))"
  by (simp add: registrationRequire_def stop_def proceed_def)

lemma stage_tokens: "inOrder 4 4 (snd (registrationTokens env l) = None) (fst (registrationTokens env l))"
  by (simp add: registrationTokens_def emit_def stop_def proceed_def
      split: list.splits prod.splits)

lemma stage_contracts: "inOrder 5 5 (snd (registrationContracts env l) = None) (fst (registrationContracts env l))"
  by (simp add: registrationContracts_def emit_def stop_def proceed_def recoveredRegistration_def
      split: list.splits option.splits sum.splits)

lemma stage_wallet: "inOrder 6 7 (snd (registrationWallet env l) = None) (fst (registrationWallet env l))"
  by (simp add: registrationWallet_def emit_def stop_def proceed_def recoveredRegistration_def
      split: prod.splits option.splits sum.splits)

lemma stage_classify: "inOrder 8 8 (snd (registrationClassify env cs l) = None) (fst (registrationClassify env cs l))"
  by (induction cs arbitrary: l) (simp_all add: emit_def stop_def proceed_def split: sum.splits)

lemma stage_registries: "inOrder 8 8 (snd (registrationRegistries l) = None) (fst (registrationRegistries l))"
  by (simp add: registrationRegistries_def stop_def proceed_def)

lemma stage_resolved: "inOrder 0 3 (snd (registrationResolved env msg) = None) (fst (registrationResolved env msg))"
  unfolding registrationResolved_def
  by (intro inOrder_andThen [where lo = 0 and hi = 3 and lo' = 3 and hi' = 3]
            inOrder_andThen [where lo = 0 and hi = 0 and lo' = 1 and hi' = 3]
            stage_params stage_vaultKeys stage_metadata) simp_all

lemma stage_listed: "inOrder 0 5 (snd (registrationListed env msg) = None) (fst (registrationListed env msg))"
  unfolding registrationListed_def
  by (intro inOrder_andThen [where lo = 0 and hi = 4 and lo' = 5 and hi' = 5]
            inOrder_andThen [where lo = 0 and hi = 3 and lo' = 4 and hi' = 4]
            inOrder_andThen [where lo = 0 and hi = 3 and lo' = 3 and hi' = 3]
            stage_resolved stage_require stage_tokens stage_contracts) simp_all

lemma stage_prepared: "inOrder 0 8 (snd (registrationPrepared env msg) = None) (fst (registrationPrepared env msg))"
  unfolding registrationPrepared_def
  by (intro inOrder_andThen [where lo = 0 and hi = 8 and lo' = 8 and hi' = 8]
            inOrder_andThen [where lo = 0 and hi = 7 and lo' = 8 and hi' = 8]
            inOrder_andThen [where lo = 0 and hi = 5 and lo' = 6 and hi' = 7]
            stage_listed stage_wallet stage_classify stage_registries) simp_all


lemma isExecuteContract_phase: "isExecuteContract e \<Longrightarrow> phase e = Some 9 \<and> e \<noteq> Nak"
  by (cases e) simp_all

lemma isOrganizationUpdate_phase: "isOrganizationUpdate e \<Longrightarrow> phase e = Some 10 \<and> e \<noteq> Nak"
  by (cases e) simp_all

lemma isCreateWallet_phase: "isCreateWallet e \<Longrightarrow> phase e = Some 7 \<and> e \<noteq> Nak"
  by (cases e) simp_all

lemma isLog_plain:
  "isLog d \<Longrightarrow> phase d = None \<and> d \<noteq> Nak \<and> d \<noteq> Ack \<and> \<not> isExecuteContract d \<and>
     \<not> isOrganizationUpdate d \<and> contractCallToken d = None"
  by (cases d) simp_all

lemma execute_cases: "executeShape env l (fst (registrationExecute env l))"
proof (cases "v_orgRegistryContractAddress l")
  case None
  then show ?thesis by (simp add: registrationExecute_def stop_def executeShape_def)
next
  case addr: (Some orgRegistryContractAddress)
  show ?thesis
  proof (cases "v_orgRegistryContractID l")
    case None
    with addr show ?thesis by (simp add: registrationExecute_def emit_def stop_def executeShape_def)
  next
    case cid: (Some orgRegistryContractID)
    show ?thesis
    proof (cases "org_Name (v_organization l) = None \<or> v_orgDomain l = None \<or>
        v_orgMessagingEndpoint l = None \<or> v_orgZeroKnowledgePublicKey l = None")
      case True
      with addr cid show ?thesis
        by (auto simp: registrationExecute_def emit_def stop_def executeShape_def split: option.splits)
    next
      case False
      then obtain name orgDomain orgMessagingEndpoint orgZeroKnowledgePublicKey where
        v: "org_Name (v_organization l) = Some name" "v_orgDomain l = Some orgDomain"
           "v_orgMessagingEndpoint l = Some orgMessagingEndpoint"
           "v_orgZeroKnowledgePublicKey l = Some orgZeroKnowledgePublicKey" by auto
      show ?thesis
      proof (cases "nchain_ExecuteContract env (v_jwtToken l) orgRegistryContractID
                (executeParams (v_orgWalletID l)
                   (if v_updateRegistry l then organizationUpdateRegistrationMethod
                    else organizationRegistrationMethod)
                   (v_orgAddress l) name orgDomain orgMessagingEndpoint orgZeroKnowledgePublicKey)")
        case (Inl err)
        with addr cid v show ?thesis
          by (simp add: registrationExecute_def emit_def stop_def executeShape_def)
      next
        case (Inr res)
        with addr cid v show ?thesis
          by (simp add: registrationExecute_def emit_def stop_def executeShape_def)
      qed
    qed
  qed
qed

lemma recovered_phases: "phases (recoveredRegistration r) = [11]"
  by (simp add: recoveredRegistration_def phases_Cons phases_Nil)

lemma execute_phases:
  "sorted (phases (fst (registrationExecute env l))) \<and>
   (\<forall>p \<in> set (phases (fst (registrationExecute env l))). 9 \<le> p)"
  using execute_cases [of env l] unfolding executeShape_def
  by (auto simp: phases_Cons phases_Nil phases_append recovered_phases dest!: isLog_plain
      split: if_splits)

lemma execute_nak_last:
  "Nak \<in> set (fst (registrationExecute env l)) \<Longrightarrow>
   last (fst (registrationExecute env l)) = Nak \<and> Ack \<notin> set (fst (registrationExecute env l))"
  using execute_cases [of env l] unfolding executeShape_def
  by (auto simp: recoveredRegistration_def dest!: isLog_plain split: if_splits)

lemma execute_nonempty: "fst (registrationExecute env l) \<noteq> []"
  using execute_cases [of env l] unfolding executeShape_def
  by (auto simp: recoveredRegistration_def)

lemma registration_run:
  "(snd (registrationPrepared env msg) = None \<and>
    consumeOrganizationRegistrationMsg env msg = fst (registrationPrepared env msg)) \<or>
   (\<exists>l. snd (registrationPrepared env msg) = Some l \<and>
    consumeOrganizationRegistrationMsg env msg =
      fst (registrationPrepared env msg) @ fst (registrationExecute env l))"
  by (cases "snd (registrationPrepared env msg)")
     (simp_all add: consumeOrganizationRegistrationMsg_def andThen_def)

lemma prepared_no_late_event:
  assumes "e \<in> set (fst (registrationPrepared env msg))" and "phase e = Some p" and "e \<noteq> Nak"
  shows "p \<le> 8"
  using inOrder_bound [OF stage_prepared assms(1,3,2)] by simp

lemma registration_phases_sorted: "sorted (phases (consumeOrganizationRegistrationMsg env msg))"
proof -
  have pre: "sorted (phases (fst (registrationPrepared env msg)))"
    using inOrder_sorted [OF stage_prepared] by simp
  from registration_run [of env msg] show ?thesis
  proof
    assume "snd (registrationPrepared env msg) = None \<and>
      consumeOrganizationRegistrationMsg env msg = fst (registrationPrepared env msg)"
    with pre show ?thesis by simp
  next
    assume "\<exists>l. snd (registrationPrepared env msg) = Some l \<and>
      consumeOrganizationRegistrationMsg env msg =
        fst (registrationPrepared env msg) @ fst (registrationExecute env l)"
    then obtain l where l: "snd (registrationPrepared env msg) = Some l"
      and t: "consumeOrganizationRegistrationMsg env msg =
        fst (registrationPrepared env msg) @ fst (registrationExecute env l)" by blast
    from l stage_prepared [of env msg] have run: "inOrder 0 8 False (fst (registrationPrepared env msg))"
      by simp
    have low: "\<forall>p \<in> set (phases (fst (registrationPrepared env msg))). p \<le> 8"
    proof
      fix p assume "p \<in> set (phases (fst (registrationPrepared env msg)))"
      then obtain e where e: "e \<in> set (fst (registrationPrepared env msg))" "phase e = Some p"
        by (auto simp: phases_def map_filter_def)
      from inOrder_running [OF run] e(1) have "e \<noteq> Nak" by auto
      from inOrder_bound [OF run e(1) this e(2)] show "p \<le> 8" by simp
    qed
    from execute_phases [of env l] low pre t show ?thesis
      by (fastforce simp: phases_append sorted_append)
  qed
qed

lemmas reg_defs = consumeOrganizationRegistrationMsg_def registrationPrepared_def
  registrationListed_def registrationResolved_def andThen_def registrationParams_def
  registrationVaultKeys_def registrationMetadata_def registrationRequire_def
  registrationTokens_def registrationContracts_def registrationWallet_def
  registrationRegistries_def registrationExecute_def classifyContract_def
  emit_def stop_def proceed_def firstKeyAddress_def firstKeyPublicKey_def offlineAccessToken_def
  jptr_def contractTypeERC1820Registry_def contractTypeOrgRegistry_def Let_def

subsection \<open>What each part leaves in the local variables\<close>

lemma andThen_None: "snd r = None \<Longrightarrow> andThen r f = (fst r, None)"
  by (simp add: andThen_def)

lemma andThen_Some:
  "snd (andThen r f) = Some l' \<Longrightarrow>
   \<exists>l. snd r = Some l \<and> snd (f l) = Some l' \<and> fst (andThen r f) = fst r @ fst (f l)"
  by (cases "snd r") (simp_all add: andThen_def)

lemma andThen_step: "snd r = Some l \<Longrightarrow> andThen r f = (fst r @ fst (f l), snd (f l))"
  by (simp add: andThen_def)

lemma require_frame:
  "snd (registrationRequire l) = Some l' \<Longrightarrow>
   l' = l \<and> fst (registrationRequire l) = [] \<and> v_orgAddress l \<noteq> None \<and> v_orgDomain l \<noteq> None \<and>
   v_orgMessagingEndpoint l \<noteq> None \<and> v_orgZeroKnowledgePublicKey l \<noteq> None"
  by (simp add: registrationRequire_def stop_def proceed_def split: if_splits)

lemma tokens_frame:
  "snd (registrationTokens env l) = Some l' \<Longrightarrow>
   (\<exists>tkn others. l' = l\<lparr>v_tokens := tkn # others\<rparr> \<and>
      (db_FindTokens env (v_applicationID l) = tkn # others \<or>
       db_FindTokens env (v_applicationID l) = [] \<and> others = [] \<and>
       token_Vend env 1 (offlineAccessToken env (v_applicationUUID l)) = (True, tkn)))"
  by (auto simp: registrationTokens_def emit_def stop_def proceed_def
      split: list.splits prod.splits if_splits)


lemma contracts_frame:
  "snd (registrationContracts env l) = Some l' \<Longrightarrow>
   (\<exists>jwt contracts tkn others. l' = l\<lparr>v_jwtToken := jwt, v_contracts := contracts\<rparr> \<and>
      v_tokens l = tkn # others \<and> tok_Token tkn = Some jwt \<and>
      nchain_ListContracts env jwt = Inr contracts \<and>
      fst (registrationContracts env l) = [NchainListContracts jwt])"
  by (auto simp: registrationContracts_def emit_def stop_def proceed_def recoveredRegistration_def
      split: list.splits option.splits sum.splits)

lemma wallet_frame:
  "snd (registrationWallet env l) = Some l' \<Longrightarrow>
   (\<exists>w. l' = l\<lparr>v_orgWalletID := Some w\<rparr>)"
  by (auto simp: registrationWallet_def emit_def stop_def proceed_def recoveredRegistration_def
      split: prod.splits option.splits sum.splits if_splits)

lemma classifyContract_fields:
  "classifyContract env resp l =
     l\<lparr>v_erc1820RegistryContractID := v_erc1820RegistryContractID (classifyContract env resp l),
       v_orgRegistryContractID := v_orgRegistryContractID (classifyContract env resp l),
       v_erc1820RegistryContractAddress := v_erc1820RegistryContractAddress (classifyContract env resp l),
       v_orgRegistryContractAddress := v_orgRegistryContractAddress (classifyContract env resp l)\<rparr>"
  by (simp add: classifyContract_def split: option.splits)

lemma classifyContract_frame:
  "\<exists>a b c d. classifyContract env resp l =
     l\<lparr>v_erc1820RegistryContractID := a, v_orgRegistryContractID := b,
       v_erc1820RegistryContractAddress := c, v_orgRegistryContractAddress := d\<rparr>"
  using classifyContract_fields [of env resp l] by blast

lemma classify_frame:
  "snd (registrationClassify env cs l) = Some l' \<Longrightarrow>
   \<exists>a b c d. l' = l\<lparr>v_erc1820RegistryContractID := a, v_orgRegistryContractID := b,
       v_erc1820RegistryContractAddress := c, v_orgRegistryContractAddress := d\<rparr>"
proof (induction cs arbitrary: l)
  case Nil
  have "l = l\<lparr>v_erc1820RegistryContractID := v_erc1820RegistryContractID l,
       v_orgRegistryContractID := v_orgRegistryContractID l,
       v_erc1820RegistryContractAddress := v_erc1820RegistryContractAddress l,
       v_orgRegistryContractAddress := v_orgRegistryContractAddress l\<rparr>" by simp
  moreover from Nil have "l' = l" by (simp add: proceed_def)
  ultimately show ?case by blast
next
  case (Cons c cs)
  from Cons.prems obtain resp where
    rest: "snd (registrationClassify env cs (classifyContract env resp l)) = Some l'"
    by (auto simp: emit_def stop_def split: sum.splits)
  from Cons.IH [OF rest] obtain a b c d where
    l': "l' = (classifyContract env resp l)\<lparr>v_erc1820RegistryContractID := a, v_orgRegistryContractID := b,
       v_erc1820RegistryContractAddress := c, v_orgRegistryContractAddress := d\<rparr>" by blast
  from classifyContract_frame [of env resp l] obtain a' b' c' d' where
    "classifyContract env resp l = l\<lparr>v_erc1820RegistryContractID := a', v_orgRegistryContractID := b',
       v_erc1820RegistryContractAddress := c', v_orgRegistryContractAddress := d'\<rparr>" by blast
  with l' have "l' = l\<lparr>v_erc1820RegistryContractID := a, v_orgRegistryContractID := b,
       v_erc1820RegistryContractAddress := c, v_orgRegistryContractAddress := d\<rparr>" by simp
  then show ?case by blast
qed

lemma registries_frame:
  "snd (registrationRegistries l) = Some l' \<Longrightarrow>
   l' = l \<and> fst (registrationRegistries l) = [] \<and>
   v_erc1820RegistryContractID l \<noteq> None \<and> v_erc1820RegistryContractAddress l \<noteq> None \<and>
   v_orgRegistryContractID l \<noteq> None \<and> v_orgRegistryContractAddress l \<noteq> None \<and> v_orgWalletID l \<noteq> None"
  by (simp add: registrationRegistries_def stop_def proceed_def split: if_splits)


lemma params_frame:
  "snd (registrationParams env msg) = Some l \<Longrightarrow>
   \<exists>params. json_Unmarshal env (msg_Data msg) = Inr params \<and>
     asString (map_of params ''organization_id'') = Some (v_organizationID l) \<and>
     asString (map_of params ''application_id'') = Some (v_applicationID l) \<and>
     uuid_FromString env (v_applicationID l) = Inr (v_applicationUUID l) \<and>
     v_updateRegistry l = (asBool (map_of params ''update_registry'') = Some True) \<and>
     v_organization l = db_FindOrganization env (v_organizationID l) \<and>
     org_ID (v_organization l) \<noteq> uuid_Nil"
  by (auto simp: registrationParams_def emit_def stop_def proceed_def Let_def
      split: sum.splits option.splits if_splits)

lemma vaultKeys_frame:
  "snd (registrationVaultKeys env l) = Some l' \<Longrightarrow>
   \<exists>a z. l' = l\<lparr>v_orgAddress := a, v_orgZeroKnowledgePublicKey := z\<rparr>"
proof -
  assume a: "snd (registrationVaultKeys env l) = Some l'"
  have same: "l = l\<lparr>v_orgAddress := v_orgAddress l,
      v_orgZeroKnowledgePublicKey := v_orgZeroKnowledgePublicKey l\<rparr>" by simp
  from a have "l' = l \<or> (\<exists>a z. l' = l\<lparr>v_orgAddress := a, v_orgZeroKnowledgePublicKey := z\<rparr>)"
    by (auto simp: registrationVaultKeys_def emit_def stop_def proceed_def recoveredRegistration_def
        split: sum.splits option.splits prod.splits list.splits if_splits)
  with same show ?thesis by metis
qed

lemma metadata_frame:
  "snd (registrationMetadata env l) = Some l' \<Longrightarrow>
   v_organizationID l' = v_organizationID l \<and> v_applicationID l' = v_applicationID l \<and>
   v_applicationUUID l' = v_applicationUUID l \<and> v_updateRegistry l' = v_updateRegistry l \<and>
   v_organization l' = v_organization l \<and> v_orgAddress l' = v_orgAddress l \<and>
   v_orgZeroKnowledgePublicKey l' = v_orgZeroKnowledgePublicKey l"
  by (auto simp: registrationMetadata_def stop_def proceed_def Let_def split: option.splits)

lemma resolved_frame:
  assumes "snd (registrationResolved env msg) = Some l"
  shows "\<exists>params. json_Unmarshal env (msg_Data msg) = Inr params \<and>
     asString (map_of params ''organization_id'') = Some (v_organizationID l) \<and>
     asString (map_of params ''application_id'') = Some (v_applicationID l) \<and>
     uuid_FromString env (v_applicationID l) = Inr (v_applicationUUID l) \<and>
     v_updateRegistry l = (asBool (map_of params ''update_registry'') = Some True) \<and>
     v_organization l = db_FindOrganization env (v_organizationID l) \<and>
     org_ID (v_organization l) \<noteq> uuid_Nil"
proof -
  from assms have "snd (andThen (andThen (registrationParams env msg) (registrationVaultKeys env))
       (registrationMetadata env)) = Some l"
    by (simp only: registrationResolved_def)
  from andThen_Some [OF this] obtain l2 where
    l2: "snd (andThen (registrationParams env msg) (registrationVaultKeys env)) = Some l2"
    and m: "snd (registrationMetadata env l2) = Some l" by blast
  from andThen_Some [OF l2] obtain l1 where l1: "snd (registrationParams env msg) = Some l1"
    and k: "snd (registrationVaultKeys env l1) = Some l2" by blast
  from vaultKeys_frame [OF k] obtain a z where
    l2_eq: "l2 = l1\<lparr>v_orgAddress := a, v_orgZeroKnowledgePublicKey := z\<rparr>" by blast
  from params_frame [OF l1] obtain params where p: "json_Unmarshal env (msg_Data msg) = Inr params"
     "asString (map_of params ''organization_id'') = Some (v_organizationID l1)"
     "asString (map_of params ''application_id'') = Some (v_applicationID l1)"
     "uuid_FromString env (v_applicationID l1) = Inr (v_applicationUUID l1)"
     "v_updateRegistry l1 = (asBool (map_of params ''update_registry'') = Some True)"
     "v_organization l1 = db_FindOrganization env (v_organizationID l1)"
     "org_ID (v_organization l1) \<noteq> uuid_Nil" by blast
  from metadata_frame [OF m] l2_eq have same: "v_organizationID l = v_organizationID l1"
    "v_applicationID l = v_applicationID l1" "v_applicationUUID l = v_applicationUUID l1"
    "v_updateRegistry l = v_updateRegistry l1" "v_organization l = v_organization l1"
    by simp_all
  from p show ?thesis unfolding same by blast
qed

lemma listed_frame:
  assumes "snd (registrationListed env msg) = Some l"
  shows "\<exists>l0 tkn others jwt contracts.
     snd (registrationResolved env msg) = Some l0 \<and>
     l = l0\<lparr>v_tokens := tkn # others, v_jwtToken := jwt, v_contracts := contracts\<rparr> \<and>
     v_orgAddress l0 \<noteq> None \<and> v_orgDomain l0 \<noteq> None \<and>
     v_orgMessagingEndpoint l0 \<noteq> None \<and> v_orgZeroKnowledgePublicKey l0 \<noteq> None \<and>
     tok_Token tkn = Some jwt \<and> nchain_ListContracts env jwt = Inr contracts \<and>
     (db_FindTokens env (v_applicationID l0) = tkn # others \<or>
      db_FindTokens env (v_applicationID l0) = [] \<and> others = [] \<and>
      token_Vend env 1 (offlineAccessToken env (v_applicationUUID l0)) = (True, tkn))"
proof -
  from assms have "snd (andThen (andThen (andThen (registrationResolved env msg) registrationRequire)
       (registrationTokens env)) (registrationContracts env)) = Some l"
    by (simp only: registrationListed_def)
  from andThen_Some [OF this] obtain l3 where
    l3: "snd (andThen (andThen (registrationResolved env msg) registrationRequire)
       (registrationTokens env)) = Some l3"
    and c: "snd (registrationContracts env l3) = Some l" by blast
  from andThen_Some [OF l3] obtain l2 where
    l2: "snd (andThen (registrationResolved env msg) registrationRequire) = Some l2"
    and t: "snd (registrationTokens env l2) = Some l3" by blast
  from andThen_Some [OF l2] obtain l0 where l0: "snd (registrationResolved env msg) = Some l0"
    and r: "snd (registrationRequire l0) = Some l2" by blast
  from require_frame [OF r] have l2_eq: "l2 = l0" and four: "v_orgAddress l0 \<noteq> None"
    "v_orgDomain l0 \<noteq> None" "v_orgMessagingEndpoint l0 \<noteq> None"
    "v_orgZeroKnowledgePublicKey l0 \<noteq> None" by simp_all
  from tokens_frame [OF t] obtain tkn others where
    l3_eq: "l3 = l2\<lparr>v_tokens := tkn # others\<rparr>"
    and src: "db_FindTokens env (v_applicationID l2) = tkn # others \<or>
       db_FindTokens env (v_applicationID l2) = [] \<and> others = [] \<and>
       token_Vend env 1 (offlineAccessToken env (v_applicationUUID l2)) = (True, tkn)" by blast
  from contracts_frame [OF c] obtain jwt contracts tkn' others' where
    l_eq: "l = l3\<lparr>v_jwtToken := jwt, v_contracts := contracts\<rparr>"
    and tk: "v_tokens l3 = tkn' # others'" "tok_Token tkn' = Some jwt"
    and lc: "nchain_ListContracts env jwt = Inr contracts" by blast
  from tk l3_eq have tok: "tok_Token tkn = Some jwt" by simp
  from l_eq l3_eq l2_eq have
    "l = l0\<lparr>v_tokens := tkn # others, v_jwtToken := jwt, v_contracts := contracts\<rparr>" by simp
  with l0 four tok lc src [unfolded l2_eq] show ?thesis by blast
qed

lemma prepared_frame:
  assumes "snd (registrationPrepared env msg) = Some l"
  shows "\<exists>ll w a b c d.
     snd (registrationListed env msg) = Some ll \<and>
     l = ll\<lparr>v_orgWalletID := Some w, v_erc1820RegistryContractID := Some a,
           v_orgRegistryContractID := Some b, v_erc1820RegistryContractAddress := Some c,
           v_orgRegistryContractAddress := Some d\<rparr>"
proof -
  from assms have "snd (andThen (andThen (andThen (registrationListed env msg) (registrationWallet env))
       (\<lambda>l. registrationClassify env (v_contracts l) l)) registrationRegistries) = Some l"
    by (simp only: registrationPrepared_def)
  from andThen_Some [OF this] obtain l3 where
    l3: "snd (andThen (andThen (registrationListed env msg) (registrationWallet env))
       (\<lambda>l. registrationClassify env (v_contracts l) l)) = Some l3"
    and g: "snd (registrationRegistries l3) = Some l" by blast
  from andThen_Some [OF l3] obtain l2 where
    l2: "snd (andThen (registrationListed env msg) (registrationWallet env)) = Some l2"
    and c: "snd (registrationClassify env (v_contracts l2) l2) = Some l3" by blast
  from andThen_Some [OF l2] obtain ll where ll: "snd (registrationListed env msg) = Some ll"
    and w: "snd (registrationWallet env ll) = Some l2" by blast
  from wallet_frame [OF w] obtain wid where l2_eq: "l2 = ll\<lparr>v_orgWalletID := Some wid\<rparr>" by blast
  from classify_frame [OF c] obtain a b c d where
    l3_eq: "l3 = l2\<lparr>v_erc1820RegistryContractID := a,
       v_orgRegistryContractID := b, v_erc1820RegistryContractAddress := c,
       v_orgRegistryContractAddress := d\<rparr>" by blast
  from registries_frame [OF g] have l_eq: "l = l3" and some: "v_erc1820RegistryContractID l3 \<noteq> None"
    "v_orgRegistryContractID l3 \<noteq> None" "v_erc1820RegistryContractAddress l3 \<noteq> None"
    "v_orgRegistryContractAddress l3 \<noteq> None" by simp_all
  from some l3_eq obtain a' b' c' d' where "a = Some a'" "b = Some b'" "c = Some c'" "d = Some d'"
    by auto
  with l_eq l3_eq l2_eq have "l = ll\<lparr>v_orgWalletID := Some wid, v_erc1820RegistryContractID := Some a',
           v_orgRegistryContractID := Some b', v_erc1820RegistryContractAddress := Some c',
           v_orgRegistryContractAddress := Some d'\<rparr>" by simp
  with ll show ?thesis by blast
qed

subsection \<open>The run as a whole\<close>

lemma prepared_events:
  "Ack \<notin> set (fst (registrationPrepared env msg)) \<and>
   \<not> list_ex isExecuteContract (fst (registrationPrepared env msg)) \<and>
   \<not> list_ex isOrganizationUpdate (fst (registrationPrepared env msg))"
proof (intro conjI)
  show "Ack \<notin> set (fst (registrationPrepared env msg))"
    using prepared_no_late_event [of Ack env msg 11] by auto
  show "\<not> list_ex isExecuteContract (fst (registrationPrepared env msg))"
    using prepared_no_late_event [of _ env msg 9] isExecuteContract_phase
    by (fastforce simp: list_ex_iff)
  show "\<not> list_ex isOrganizationUpdate (fst (registrationPrepared env msg))"
    using prepared_no_late_event [of _ env msg 10] isOrganizationUpdate_phase
    by (fastforce simp: list_ex_iff)
qed

lemma prepared_running:
  "snd (registrationPrepared env msg) = Some l \<Longrightarrow> Nak \<notin> set (fst (registrationPrepared env msg))"
  using stage_prepared [of env msg] inOrder_running [of 0 8 "fst (registrationPrepared env msg)"] by simp

lemma prepared_resolved:
  assumes "snd (registrationPrepared env msg) = Some l"
  shows "\<exists>l0. snd (registrationResolved env msg) = Some l0 \<and>
     v_organizationID l = v_organizationID l0 \<and> v_applicationID l = v_applicationID l0 \<and>
     v_applicationUUID l = v_applicationUUID l0 \<and> v_updateRegistry l = v_updateRegistry l0 \<and>
     v_organization l = v_organization l0 \<and> v_metadata l = v_metadata l0 \<and>
     v_updateOrgMetadata l = v_updateOrgMetadata l0 \<and>
     v_orgAddress l = v_orgAddress l0 \<and> v_orgDomain l = v_orgDomain l0 \<and>
     v_orgMessagingEndpoint l = v_orgMessagingEndpoint l0 \<and>
     v_orgZeroKnowledgePublicKey l = v_orgZeroKnowledgePublicKey l0 \<and>
     v_orgAddress l0 \<noteq> None \<and> v_orgDomain l0 \<noteq> None \<and>
     v_orgMessagingEndpoint l0 \<noteq> None \<and> v_orgZeroKnowledgePublicKey l0 \<noteq> None"
proof -
  from prepared_frame [OF assms] obtain ll w a b c d where
    ll: "snd (registrationListed env msg) = Some ll"
    and l_eq: "l = ll\<lparr>v_orgWalletID := Some w, v_erc1820RegistryContractID := Some a,
           v_orgRegistryContractID := Some b, v_erc1820RegistryContractAddress := Some c,
           v_orgRegistryContractAddress := Some d\<rparr>" by blast
  from listed_frame [OF ll] obtain l0 tkn others jwt contracts where
    l0: "snd (registrationResolved env msg) = Some l0"
    and ll_eq: "ll = l0\<lparr>v_tokens := tkn # others, v_jwtToken := jwt, v_contracts := contracts\<rparr>"
    and four: "v_orgAddress l0 \<noteq> None" "v_orgDomain l0 \<noteq> None"
      "v_orgMessagingEndpoint l0 \<noteq> None" "v_orgZeroKnowledgePublicKey l0 \<noteq> None" by blast
  from l_eq ll_eq l0 four show ?thesis by simp
qed

lemma resolved_events:
  "\<not> list_ex isCreateWallet (fst (registrationResolved env msg)) \<and>
   \<not> list_ex isExecuteContract (fst (registrationResolved env msg))"
proof (intro conjI)
  have late: "e \<in> set (fst (registrationResolved env msg)) \<Longrightarrow> phase e = Some p \<Longrightarrow> e \<noteq> Nak \<Longrightarrow> p \<le> 3"
    for e p using inOrder_bound [OF stage_resolved, of e env msg p] by simp
  show "\<not> list_ex isCreateWallet (fst (registrationResolved env msg))"
    using late [of _ 7] isCreateWallet_phase by (fastforce simp: list_ex_iff)
  show "\<not> list_ex isExecuteContract (fst (registrationResolved env msg))"
    using late [of _ 9] isExecuteContract_phase by (fastforce simp: list_ex_iff)
qed

lemma require_stops:
  assumes "registrationResolved env msg = (es, Some l)" and "snd (registrationRequire l) = None"
  shows "consumeOrganizationRegistrationMsg env msg = es @ fst (registrationRequire l)"
  using assms
  by (simp add: consumeOrganizationRegistrationMsg_def registrationPrepared_def
      registrationListed_def andThen_def)

subsection \<open>The order of the steps, and the failures before the contract execution\<close>

lemma isLog_not_failed: "isLog w \<Longrightarrow> \<not> failedCall env w"
  by (cases w) simp_all

lemma aborts_append:
  "abortsOnFailure env xs \<Longrightarrow> Nak \<notin> set xs \<Longrightarrow> abortsOnFailure env ys \<Longrightarrow>
   abortsOnFailure env (xs @ ys)"
proof (induction xs)
  case Nil
  then show ?case by simp
next
  case (Cons x xs)
  show ?case
  proof (cases "failedCall env x")
    case True
    with Cons.prems(1) have "xs = [hd xs, Nak]" by simp
    then have "Nak \<in> set xs" by (metis list.set_intros(1,2))
    with Cons.prems(2) show ?thesis by simp
  next
    case False
    with Cons show ?thesis by simp
  qed
qed

lemma aborts_andThen:
  assumes "abortsOnFailure env (fst r)" and "inOrder lo hi (snd r = None) (fst r)"
    and "\<And>l. abortsOnFailure env (fst (f l))"
  shows "abortsOnFailure env (fst (andThen r f))"
proof (cases "snd r")
  case None
  with assms(1) show ?thesis by (simp add: andThen_def)
next
  case (Some l)
  with assms(2) have "inOrder lo hi False (fst r)" by simp
  from inOrder_running [OF this] assms(1,3) Some show ?thesis
    by (simp add: andThen_def aborts_append)
qed

lemma aborts_none: "\<forall>e \<in> set es. \<not> failedCall env e \<Longrightarrow> abortsOnFailure env es"
  by (induction es) simp_all

lemma aborts_shape:
  "abortsOnFailure env es \<Longrightarrow> e \<in> set es \<Longrightarrow> failedCall env e \<Longrightarrow>
   \<exists>pre w. isLog w \<and> es = pre @ [e, w, Nak]"
proof (induction es)
  case Nil
  then show ?case by simp
next
  case (Cons x xs)
  show ?case
  proof (cases "failedCall env x")
    case True
    with Cons.prems(1) obtain w where xs: "xs = [w, Nak]" and w: "isLog w"
      by auto
    from Cons.prems(2,3) xs isLog_not_failed [OF w, of env] have "e = x" by auto
    with xs w have "isLog w \<and> x # xs = [] @ [e, w, Nak]" by simp
    then show ?thesis by blast
  next
    case False
    with Cons.prems have "abortsOnFailure env xs" "e \<in> set xs" by auto
    from Cons.IH [OF this Cons.prems(3)] obtain pre w where "isLog w" "xs = pre @ [e, w, Nak]"
      by blast
    then have "isLog w \<and> x # xs = (x # pre) @ [e, w, Nak]" by simp
    then show ?thesis by blast
  qed
qed


lemma aborts_params: "abortsOnFailure env (fst (registrationParams env msg))"
  by (simp add: registrationParams_def emit_def stop_def proceed_def Let_def
      split: sum.splits option.splits)

lemma aborts_vaultKeys: "abortsOnFailure env (fst (registrationVaultKeys env l))"
  by (simp add: registrationVaultKeys_def emit_def stop_def proceed_def recoveredRegistration_def
      split: sum.splits option.splits prod.splits list.splits)

lemma aborts_metadata: "abortsOnFailure env (fst (registrationMetadata env l))"
  by (simp add: registrationMetadata_def stop_def proceed_def recoveredRegistration_def Let_def
      split: option.splits)

lemma aborts_require: "abortsOnFailure env (fst (registrationRequire l))"
  by (simp add: registrationRequire_def stop_def proceed_def)

lemma aborts_tokens: "abortsOnFailure env (fst (registrationTokens env l))"
  by (simp add: registrationTokens_def emit_def stop_def proceed_def
      split: list.splits prod.splits)

lemma aborts_contracts: "abortsOnFailure env (fst (registrationContracts env l))"
  by (simp add: registrationContracts_def emit_def stop_def proceed_def recoveredRegistration_def
      split: list.splits option.splits sum.splits)

lemma aborts_wallet: "abortsOnFailure env (fst (registrationWallet env l))"
  by (simp add: registrationWallet_def emit_def stop_def proceed_def recoveredRegistration_def
      split: prod.splits option.splits sum.splits)

lemma aborts_classify: "abortsOnFailure env (fst (registrationClassify env cs l))"
  by (induction cs arbitrary: l)
     (simp_all add: emit_def stop_def proceed_def split: sum.splits)

lemma aborts_registries: "abortsOnFailure env (fst (registrationRegistries l))"
  by (simp add: registrationRegistries_def stop_def proceed_def)


lemma execute_no_failed:
  "e \<in> set (fst (registrationExecute env l)) \<Longrightarrow> \<not> failedCall env e"
  using execute_cases [of env l] unfolding executeShape_def
  by (auto simp: recoveredRegistration_def dest: isLog_not_failed split: if_splits)

lemma aborts_execute: "abortsOnFailure env (fst (registrationExecute env l))"
  using execute_no_failed [of _ env l] by (intro aborts_none) blast

lemma aborts_resolved: "abortsOnFailure env (fst (registrationResolved env msg))"
proof -
  let ?A = "andThen (registrationParams env msg) (registrationVaultKeys env)"
  have a: "abortsOnFailure env (fst ?A)"
    by (rule aborts_andThen [OF aborts_params stage_params aborts_vaultKeys])
  have "inOrder 0 3 (snd ?A = None) (fst ?A)"
    by (intro inOrder_andThen [where lo = 0 and hi = 0 and lo' = 1 and hi' = 3]
              stage_params stage_vaultKeys) simp_all
  from aborts_andThen [OF a this aborts_metadata] show ?thesis
    by (simp only: registrationResolved_def)
qed

lemma aborts_listed: "abortsOnFailure env (fst (registrationListed env msg))"
proof -
  let ?A = "andThen (registrationResolved env msg) registrationRequire"
  let ?B = "andThen ?A (registrationTokens env)"
  have a: "abortsOnFailure env (fst ?A)"
    by (rule aborts_andThen [OF aborts_resolved stage_resolved aborts_require])
  have ia: "inOrder 0 3 (snd ?A = None) (fst ?A)"
    by (intro inOrder_andThen [where lo = 0 and hi = 3 and lo' = 3 and hi' = 3]
              stage_resolved stage_require) simp_all
  have b: "abortsOnFailure env (fst ?B)"
    by (rule aborts_andThen [OF a ia aborts_tokens])
  have ib: "inOrder 0 4 (snd ?B = None) (fst ?B)"
    by (intro inOrder_andThen [where lo = 0 and hi = 3 and lo' = 4 and hi' = 4] ia stage_tokens)
       simp_all
  from aborts_andThen [OF b ib aborts_contracts] show ?thesis
    by (simp only: registrationListed_def)
qed

lemma stage_classified:
  "inOrder 0 8 (snd (registrationClassified env msg) = None) (fst (registrationClassified env msg))"
  unfolding registrationClassified_def
  by (intro inOrder_andThen [where lo = 0 and hi = 7 and lo' = 8 and hi' = 8]
            inOrder_andThen [where lo = 0 and hi = 5 and lo' = 6 and hi' = 7]
            stage_listed stage_wallet stage_classify) simp_all

lemma prepared_classified:
  "registrationPrepared env msg = andThen (registrationClassified env msg) registrationRegistries"
  by (simp only: registrationPrepared_def registrationClassified_def)

lemma aborts_classified: "abortsOnFailure env (fst (registrationClassified env msg))"
proof -
  let ?W = "andThen (registrationListed env msg) (registrationWallet env)"
  have w: "abortsOnFailure env (fst ?W)"
    by (rule aborts_andThen [OF aborts_listed stage_listed aborts_wallet])
  have iw: "inOrder 0 7 (snd ?W = None) (fst ?W)"
    by (intro inOrder_andThen [where lo = 0 and hi = 5 and lo' = 6 and hi' = 7]
              stage_listed stage_wallet) simp_all
  from aborts_andThen [OF w iw, of "\<lambda>l. registrationClassify env (v_contracts l) l"] aborts_classify
  show ?thesis by (simp only: registrationClassified_def)
qed

lemma aborts_run: "abortsOnFailure env (consumeOrganizationRegistrationMsg env msg)"
proof -
  have p: "abortsOnFailure env (fst (registrationPrepared env msg))"
    unfolding prepared_classified
    by (rule aborts_andThen [OF aborts_classified stage_classified aborts_registries])
  from aborts_andThen [OF p stage_prepared aborts_execute] show ?thesis
    by (simp only: consumeOrganizationRegistrationMsg_def)
qed

lemma params_stops:
  "snd (registrationParams env msg) = None \<Longrightarrow>
   consumeOrganizationRegistrationMsg env msg = fst (registrationParams env msg)"
  by (simp add: consumeOrganizationRegistrationMsg_def registrationPrepared_def
      registrationListed_def registrationResolved_def andThen_def)

lemma params_malformed:
  assumes "json_Unmarshal env (msg_Data msg) = Inl err \<or>
     json_Unmarshal env (msg_Data msg) = Inr params \<and>
       (asString (map_of params ''organization_id'') = None \<or>
        asString (map_of params ''application_id'') = None \<or>
        (\<exists>applicationID problem. asString (map_of params ''application_id'') = Some applicationID \<and>
           uuid_FromString env applicationID = Inl problem) \<or>
        (\<exists>organizationID. asString (map_of params ''organization_id'') = Some organizationID \<and>
           org_ID (db_FindOrganization env organizationID) = uuid_Nil))"
  shows "\<exists>d w. isLog d \<and> isLog w \<and> registrationParams env msg = ([d, w, Nak], None)"
  using assms
  by (auto simp: registrationParams_def emit_def stop_def proceed_def Let_def
      split: sum.splits option.splits)

lemma registries_unresolved:
  assumes "v_erc1820RegistryContractID l = None \<or> v_erc1820RegistryContractAddress l = None \<or>
     v_orgRegistryContractID l = None \<or> v_orgRegistryContractAddress l = None"
  shows "\<exists>w. isLog w \<and> registrationRegistries l = ([w, Nak], None)"
  using assms by (auto simp: registrationRegistries_def stop_def)

lemma classified_stops:
  assumes "registrationClassified env msg = (es, Some l)" and "registrationRegistries l = (es', None)"
  shows "consumeOrganizationRegistrationMsg env msg = es @ es'"
  using assms
  by (simp add: consumeOrganizationRegistrationMsg_def prepared_classified andThen_def)

lemma require_unresolved:
  assumes "v_orgAddress l = None \<or> v_orgDomain l = None \<or>
     v_orgMessagingEndpoint l = None \<or> v_orgZeroKnowledgePublicKey l = None"
  shows "\<exists>w. isLog w \<and> registrationRequire l = ([w, Nak], None)"
  using assms by (auto simp: registrationRequire_def stop_def)

lemma naks_append:
  "naksRecovered xs \<Longrightarrow> Nak \<notin> set xs \<Longrightarrow> naksRecovered ys \<Longrightarrow> naksRecovered (xs @ ys)"
  by (induction xs) (auto split: if_splits)

lemma naks_andThen:
  assumes "naksRecovered (fst r)" and "inOrder lo hi (snd r = None) (fst r)"
    and "\<And>l. naksRecovered (fst (f l))"
  shows "naksRecovered (fst (andThen r f))"
proof (cases "snd r")
  case None
  with assms(1) show ?thesis by (simp add: andThen_def)
next
  case (Some l)
  with assms(2) have "inOrder lo hi False (fst r)" by simp
  from inOrder_running [OF this] assms(1,3) Some show ?thesis
    by (simp add: andThen_def naks_append)
qed

lemma naks_shape:
  "naksRecovered es \<Longrightarrow> e \<in> set es \<Longrightarrow> isRecovered e \<Longrightarrow> \<exists>pre. es = pre @ [e, Nak]"
proof (induction es)
  case Nil
  then show ?case by simp
next
  case (Cons x xs)
  show ?case
  proof (cases "isRecovered x")
    case True
    with Cons.prems(1) have xs: "xs = [Nak]" by simp
    with Cons.prems(2,3) have "e = x" by auto
    with xs have "x # xs = [] @ [e, Nak]" by simp
    then show ?thesis by blast
  next
    case False
    with Cons.prems have "naksRecovered xs" "e \<in> set xs" by auto
    from Cons.IH [OF this Cons.prems(3)] obtain pre where "xs = pre @ [e, Nak]" by blast
    then have "x # xs = (x # pre) @ [e, Nak]" by simp
    then show ?thesis by blast
  qed
qed

lemma naks_params: "naksRecovered (fst (registrationParams env msg))"
  by (simp add: registrationParams_def emit_def stop_def proceed_def Let_def
      split: sum.splits option.splits)

lemma naks_vaultKeys: "naksRecovered (fst (registrationVaultKeys env l))"
  by (simp add: registrationVaultKeys_def emit_def stop_def proceed_def recoveredRegistration_def
      split: sum.splits option.splits prod.splits list.splits)

lemma naks_metadata: "naksRecovered (fst (registrationMetadata env l))"
  by (simp add: registrationMetadata_def stop_def proceed_def recoveredRegistration_def Let_def
      split: option.splits)

lemma naks_require: "naksRecovered (fst (registrationRequire l))"
  by (simp add: registrationRequire_def stop_def proceed_def)

lemma naks_tokens: "naksRecovered (fst (registrationTokens env l))"
  by (simp add: registrationTokens_def emit_def stop_def proceed_def
      split: list.splits prod.splits)

lemma naks_contracts: "naksRecovered (fst (registrationContracts env l))"
  by (simp add: registrationContracts_def emit_def stop_def proceed_def recoveredRegistration_def
      split: list.splits option.splits sum.splits)

lemma naks_wallet: "naksRecovered (fst (registrationWallet env l))"
  by (simp add: registrationWallet_def emit_def stop_def proceed_def recoveredRegistration_def
      split: prod.splits option.splits sum.splits)

lemma naks_classify: "naksRecovered (fst (registrationClassify env cs l))"
  by (induction cs arbitrary: l)
     (simp_all add: emit_def stop_def proceed_def split: sum.splits)

lemma naks_registries: "naksRecovered (fst (registrationRegistries l))"
  by (simp add: registrationRegistries_def stop_def proceed_def)

lemma naks_execute: "naksRecovered (fst (registrationExecute env l))"
proof (cases "v_orgRegistryContractAddress l")
  case None
  then show ?thesis by (simp add: registrationExecute_def stop_def recoveredRegistration_def)
next
  case addr: (Some orgRegistryContractAddress)
  show ?thesis
  proof (cases "v_orgRegistryContractID l")
    case None
    with addr show ?thesis
      by (simp add: registrationExecute_def emit_def stop_def recoveredRegistration_def)
  next
    case cid: (Some orgRegistryContractID)
    show ?thesis
    proof (cases "org_Name (v_organization l) = None \<or> v_orgDomain l = None \<or>
        v_orgMessagingEndpoint l = None \<or> v_orgZeroKnowledgePublicKey l = None")
      case True
      with addr cid show ?thesis
        by (auto simp: registrationExecute_def emit_def stop_def recoveredRegistration_def
            split: option.splits)
    next
      case False
      then obtain name orgDomain orgMessagingEndpoint orgZeroKnowledgePublicKey where
        v: "org_Name (v_organization l) = Some name" "v_orgDomain l = Some orgDomain"
           "v_orgMessagingEndpoint l = Some orgMessagingEndpoint"
           "v_orgZeroKnowledgePublicKey l = Some orgZeroKnowledgePublicKey" by auto
      show ?thesis
      proof (cases "nchain_ExecuteContract env (v_jwtToken l) orgRegistryContractID
                (executeParams (v_orgWalletID l)
                   (if v_updateRegistry l then organizationUpdateRegistrationMethod
                    else organizationRegistrationMethod)
                   (v_orgAddress l) name orgDomain orgMessagingEndpoint orgZeroKnowledgePublicKey)")
        case (Inl err)
        with addr cid v show ?thesis
          by (simp add: registrationExecute_def emit_def stop_def)
      next
        case (Inr res)
        with addr cid v show ?thesis
          by (simp add: registrationExecute_def emit_def stop_def)
      qed
    qed
  qed
qed

lemma naks_run: "naksRecovered (consumeOrganizationRegistrationMsg env msg)"
proof -
  let ?A = "andThen (registrationParams env msg) (registrationVaultKeys env)"
  have a: "naksRecovered (fst ?A)"
    by (rule naks_andThen [OF naks_params stage_params naks_vaultKeys])
  have ia: "inOrder 0 3 (snd ?A = None) (fst ?A)"
    by (intro inOrder_andThen [where lo = 0 and hi = 0 and lo' = 1 and hi' = 3]
              stage_params stage_vaultKeys) simp_all
  from naks_andThen [OF a ia naks_metadata]
  have r: "naksRecovered (fst (registrationResolved env msg))"
    by (simp only: registrationResolved_def)
  let ?B = "andThen (registrationResolved env msg) registrationRequire"
  let ?C = "andThen ?B (registrationTokens env)"
  have b: "naksRecovered (fst ?B)"
    by (rule naks_andThen [OF r stage_resolved naks_require])
  have ib: "inOrder 0 3 (snd ?B = None) (fst ?B)"
    by (intro inOrder_andThen [where lo = 0 and hi = 3 and lo' = 3 and hi' = 3]
              stage_resolved stage_require) simp_all
  have c: "naksRecovered (fst ?C)"
    by (rule naks_andThen [OF b ib naks_tokens])
  have ic: "inOrder 0 4 (snd ?C = None) (fst ?C)"
    by (intro inOrder_andThen [where lo = 0 and hi = 3 and lo' = 4 and hi' = 4] ib stage_tokens)
       simp_all
  from naks_andThen [OF c ic naks_contracts]
  have ls: "naksRecovered (fst (registrationListed env msg))"
    by (simp only: registrationListed_def)
  let ?W = "andThen (registrationListed env msg) (registrationWallet env)"
  have w: "naksRecovered (fst ?W)"
    by (rule naks_andThen [OF ls stage_listed naks_wallet])
  have iw: "inOrder 0 7 (snd ?W = None) (fst ?W)"
    by (intro inOrder_andThen [where lo = 0 and hi = 5 and lo' = 6 and hi' = 7]
              stage_listed stage_wallet) simp_all
  from naks_andThen [OF w iw, of "\<lambda>l. registrationClassify env (v_contracts l) l"] naks_classify
  have cl: "naksRecovered (fst (registrationClassified env msg))"
    by (simp only: registrationClassified_def)
  have p: "naksRecovered (fst (registrationPrepared env msg))"
    unfolding prepared_classified
    by (rule naks_andThen [OF cl stage_classified naks_registries])
  from naks_andThen [OF p stage_prepared naks_execute] show ?thesis
    by (simp only: consumeOrganizationRegistrationMsg_def)
qed

text \<open>
  C2, as the claim states it, fails: the wallet is provisioned before the first contract
  is looked up and classified. Where the ledger fails to give the details of a contract,
  the wallet has been created (event 8 of the run) before the first lookup (event 10),
  and the run then ends with a negative-acknowledgment. And not every failure is
  negative-acknowledged: where the contract execution fails, the run contains no
  negative-acknowledgment.
\<close>

theorem registration_wallet_before_classification_counterexample:
  "firstIndex isCreateWallet (consumeOrganizationRegistrationMsg detailsFailEnv (msgOf ''register org-1 app-1'')) = Some 8 \<and>
   firstIndex isGetContractDetails (consumeOrganizationRegistrationMsg detailsFailEnv (msgOf ''register org-1 app-1'')) = Some 10 \<and>
   last (consumeOrganizationRegistrationMsg detailsFailEnv (msgOf ''register org-1 app-1'')) = Nak \<and>
   list_ex isExecuteContract (consumeOrganizationRegistrationMsg executeFailEnv (msgOf ''register org-1 app-1'')) \<and>
   Nak \<notin> set (consumeOrganizationRegistrationMsg executeFailEnv (msgOf ''register org-1 app-1''))"
  by (simp add: reg_defs env_defs detailsFailEnv_def executeFailEnv_def)

text \<open>
  C2 amended. The events of every run occur in the order of \<open>phase\<close>: organization
  token, vault listing, key listings, application token, contract listing, then the
  second organization token and the wallet, then the lookup of each listed contract
  (where it is classified), then the contract execution, the update and the
  acknowledgment. Every failure before the contract execution is negative-acknowledged
  and ends the run:

    \<^item> a call to the token issuer, the vault or the ledger that is answered with a failure
      is followed by one log line and \<open>Nak\<close>, and by nothing else;

    \<^item> an event that does not parse, that lacks one of the two identifiers, whose
      application identifier is not a UUID, or whose organization is not found, gives two
      log lines and \<open>Nak\<close>, and nothing else;

    \<^item> where one of the four required values is missing after they have been resolved, and
      where one of the two registry contracts is unresolved after the loop over the
      listed contracts, one log line and \<open>Nak\<close> follow, and nothing else;

    \<^item> the log line of a recovered panic is followed by \<open>Nak\<close> and nothing else.

  A run that does not reach the contract execution ends with \<open>Nak\<close> and contains no
  \<open>Ack\<close>, no contract execution and no update; and after a \<open>Nak\<close> nothing follows in any
  run.
\<close>

theorem registration_steps_in_source_order:
  "sorted (phases (consumeOrganizationRegistrationMsg env msg)) \<and>
   (e \<in> set (consumeOrganizationRegistrationMsg env msg) \<and> failedCall env e \<longrightarrow>
      (\<exists>pre w. isLog w \<and> consumeOrganizationRegistrationMsg env msg = pre @ [e, w, Nak])) \<and>
   (json_Unmarshal env (msg_Data msg) = Inl err \<or>
    json_Unmarshal env (msg_Data msg) = Inr params \<and>
      (asString (map_of params ''organization_id'') = None \<or>
       asString (map_of params ''application_id'') = None \<or>
       (\<exists>applicationID problem. asString (map_of params ''application_id'') = Some applicationID \<and>
          uuid_FromString env applicationID = Inl problem) \<or>
       (\<exists>organizationID. asString (map_of params ''organization_id'') = Some organizationID \<and>
          org_ID (db_FindOrganization env organizationID) = uuid_Nil)) \<longrightarrow>
      (\<exists>d w. isLog d \<and> isLog w \<and> consumeOrganizationRegistrationMsg env msg = [d, w, Nak])) \<and>
   (registrationResolved env msg = (es, Some l) \<and>
    (v_orgAddress l = None \<or> v_orgDomain l = None \<or>
     v_orgMessagingEndpoint l = None \<or> v_orgZeroKnowledgePublicKey l = None) \<longrightarrow>
      (\<exists>w. isLog w \<and> consumeOrganizationRegistrationMsg env msg = es @ [w, Nak])) \<and>
   (registrationClassified env msg = (es', Some l') \<and>
    (v_erc1820RegistryContractID l' = None \<or> v_erc1820RegistryContractAddress l' = None \<or>
     v_orgRegistryContractID l' = None \<or> v_orgRegistryContractAddress l' = None) \<longrightarrow>
      (\<exists>w. isLog w \<and> consumeOrganizationRegistrationMsg env msg = es' @ [w, Nak])) \<and>
   (Warningf ''recovered in org registration message handler; %s'' a \<in> set (consumeOrganizationRegistrationMsg env msg) \<longrightarrow>
      (\<exists>pre. consumeOrganizationRegistrationMsg env msg = pre @ [Warningf ''recovered in org registration message handler; %s'' a, Nak])) \<and>
   (snd (registrationPrepared env msg) = None \<longrightarrow>
      last (consumeOrganizationRegistrationMsg env msg) = Nak \<and>
      Ack \<notin> set (consumeOrganizationRegistrationMsg env msg) \<and>
      \<not> list_ex isExecuteContract (consumeOrganizationRegistrationMsg env msg) \<and>
      \<not> list_ex isOrganizationUpdate (consumeOrganizationRegistrationMsg env msg)) \<and>
   (Nak \<in> set (consumeOrganizationRegistrationMsg env msg) \<longrightarrow>
      last (consumeOrganizationRegistrationMsg env msg) = Nak \<and>
      Ack \<notin> set (consumeOrganizationRegistrationMsg env msg))"
proof -
  let ?t = "consumeOrganizationRegistrationMsg env msg"
  have order: "sorted (phases ?t)" by (rule registration_phases_sorted)
  have call: "\<exists>pre w. isLog w \<and> ?t = pre @ [e, w, Nak]" if "e \<in> set ?t \<and> failedCall env e"
    using aborts_shape [OF aborts_run, of e env msg] that by simp
  have malformed: "\<exists>d w. isLog d \<and> isLog w \<and> ?t = [d, w, Nak]"
    if m: "json_Unmarshal env (msg_Data msg) = Inl err \<or>
      json_Unmarshal env (msg_Data msg) = Inr params \<and>
      (asString (map_of params ''organization_id'') = None \<or>
       asString (map_of params ''application_id'') = None \<or>
       (\<exists>applicationID problem. asString (map_of params ''application_id'') = Some applicationID \<and>
          uuid_FromString env applicationID = Inl problem) \<or>
       (\<exists>organizationID. asString (map_of params ''organization_id'') = Some organizationID \<and>
          org_ID (db_FindOrganization env organizationID) = uuid_Nil))"
  proof -
    from params_malformed [OF m] obtain d w where dw: "isLog d" "isLog w"
      and p: "registrationParams env msg = ([d, w, Nak], None)" by blast
    from p params_stops [of env msg] have "?t = [d, w, Nak]" by simp
    with dw show ?thesis by blast
  qed
  have required: "\<exists>w. isLog w \<and> ?t = es @ [w, Nak]"
    if "registrationResolved env msg = (es, Some l) \<and>
      (v_orgAddress l = None \<or> v_orgDomain l = None \<or>
       v_orgMessagingEndpoint l = None \<or> v_orgZeroKnowledgePublicKey l = None)"
  proof -
    from that have r: "registrationResolved env msg = (es, Some l)"
      and "v_orgAddress l = None \<or> v_orgDomain l = None \<or>
       v_orgMessagingEndpoint l = None \<or> v_orgZeroKnowledgePublicKey l = None" by simp_all
    from require_unresolved [OF this(2)] obtain w where w: "isLog w"
      and q: "registrationRequire l = ([w, Nak], None)" by blast
    from require_stops [OF r] q have "?t = es @ [w, Nak]" by simp
    with w show ?thesis by blast
  qed
  have registries: "\<exists>w. isLog w \<and> ?t = es' @ [w, Nak]"
    if "registrationClassified env msg = (es', Some l') \<and>
      (v_erc1820RegistryContractID l' = None \<or> v_erc1820RegistryContractAddress l' = None \<or>
       v_orgRegistryContractID l' = None \<or> v_orgRegistryContractAddress l' = None)"
  proof -
    from that have r: "registrationClassified env msg = (es', Some l')"
      and "v_erc1820RegistryContractID l' = None \<or> v_erc1820RegistryContractAddress l' = None \<or>
       v_orgRegistryContractID l' = None \<or> v_orgRegistryContractAddress l' = None" by simp_all
    from registries_unresolved [OF this(2)] obtain w where w: "isLog w"
      and q: "registrationRegistries l' = ([w, Nak], None)" by blast
    from classified_stops [OF r q] w show ?thesis by blast
  qed
  have recovered: "\<exists>pre. ?t = pre @ [Warningf ''recovered in org registration message handler; %s'' a, Nak]"
    if "Warningf ''recovered in org registration message handler; %s'' a \<in> set ?t"
    using naks_shape [OF naks_run that] by simp
  have early: "last ?t = Nak \<and> Ack \<notin> set ?t \<and> \<not> list_ex isExecuteContract ?t \<and>
      \<not> list_ex isOrganizationUpdate ?t"
    if none: "snd (registrationPrepared env msg) = None"
  proof -
    from none have t: "?t = fst (registrationPrepared env msg)"
      by (simp add: consumeOrganizationRegistrationMsg_def andThen_def)
    from none stage_prepared [of env msg]
    have "inOrder 0 8 True (fst (registrationPrepared env msg))" by simp
    from inOrder_stopped [OF this] t prepared_events [of env msg] show ?thesis by simp
  qed
  have final: "last ?t = Nak \<and> Ack \<notin> set ?t" if nak: "Nak \<in> set ?t"
    using registration_run [of env msg]
  proof
    assume "snd (registrationPrepared env msg) = None \<and> ?t = fst (registrationPrepared env msg)"
    with early show ?thesis by simp
  next
    assume "\<exists>l. snd (registrationPrepared env msg) = Some l \<and>
      ?t = fst (registrationPrepared env msg) @ fst (registrationExecute env l)"
    then obtain l where l: "snd (registrationPrepared env msg) = Some l"
      and t: "?t = fst (registrationPrepared env msg) @ fst (registrationExecute env l)" by blast
    from prepared_running [OF l] nak t have "Nak \<in> set (fst (registrationExecute env l))" by simp
    from execute_nak_last [OF this] t execute_nonempty [of env l] prepared_events [of env msg]
    show ?thesis by simp
  qed
  from order call malformed required registries recovered early final show ?thesis by blast
qed

theorem registration_steps_in_source_order_witness:
  "NchainGetContractDetails ''app-jwt'' ''contract-30'' \<in> set (consumeOrganizationRegistrationMsg detailsFailEnv (msgOf ''register org-1 app-1'')) \<and>
   nchain_GetContractDetails detailsFailEnv ''app-jwt'' ''contract-30'' = Inl ''contract not found'' \<and>
   (\<exists>pre w. isLog w \<and>
      consumeOrganizationRegistrationMsg detailsFailEnv (msgOf ''register org-1 app-1'') = pre @ [NchainGetContractDetails ''app-jwt'' ''contract-30'', w, Nak]) \<and>
   sorted (phases (consumeOrganizationRegistrationMsg detailsFailEnv (msgOf ''register org-1 app-1''))) \<and>
   snd (registrationPrepared detailsFailEnv (msgOf ''register org-1 app-1'')) = None \<and>
   last (consumeOrganizationRegistrationMsg detailsFailEnv (msgOf ''register org-1 app-1'')) = Nak \<and>
   Ack \<notin> set (consumeOrganizationRegistrationMsg detailsFailEnv (msgOf ''register org-1 app-1'')) \<and>
   \<not> list_ex isExecuteContract (consumeOrganizationRegistrationMsg detailsFailEnv (msgOf ''register org-1 app-1'')) \<and>
   TokenVend 2 \<lparr>tok_OrganizationID = Some 1, tok_ApplicationID = None, tok_Scope = None, tok_Token = None\<rparr>
     \<in> set (consumeOrganizationRegistrationMsg vendFailEnv (msgOf ''register org-1 app-1'')) \<and>
   \<not> fst (token_Vend vendFailEnv 2
       \<lparr>tok_OrganizationID = Some 1, tok_ApplicationID = None, tok_Scope = None, tok_Token = None\<rparr>) \<and>
   (\<exists>pre w. isLog w \<and>
      consumeOrganizationRegistrationMsg vendFailEnv (msgOf ''register org-1 app-1'') = pre @
        [TokenVend 2 \<lparr>tok_OrganizationID = Some 1, tok_ApplicationID = None, tok_Scope = None, tok_Token = None\<rparr>,
         w, Nak]) \<and>
   json_Unmarshal okEnv (msg_Data (msgOf ''register'')) = Inl ''unexpected end of JSON input'' \<and>
   (\<exists>d w. isLog d \<and> isLog w \<and> consumeOrganizationRegistrationMsg okEnv (msgOf ''register'') = [d, w, Nak]) \<and>
   json_Unmarshal okEnv (msg_Data (msgOf ''created org-1'')) = Inr [(''organization_id'', JString ''org-1'')] \<and>
   asString (map_of [(''organization_id'', JString ''org-1'')] ''application_id'') = None \<and>
   (\<exists>d w. isLog d \<and> isLog w \<and> consumeOrganizationRegistrationMsg okEnv (msgOf ''created org-1'') = [d, w, Nak]) \<and>
   v_orgDomain (the (snd (registrationResolved noDomainEnv (msgOf ''register org-1 app-1'')))) = None \<and>
   (\<exists>w. isLog w \<and> consumeOrganizationRegistrationMsg noDomainEnv (msgOf ''register org-1 app-1'') = fst (registrationResolved noDomainEnv (msgOf ''register org-1 app-1'')) @ [w, Nak]) \<and>
   v_orgRegistryContractID (the (snd (registrationClassified noContractsEnv (msgOf ''register org-1 app-1'')))) = None \<and>
   (\<exists>w. isLog w \<and> consumeOrganizationRegistrationMsg noContractsEnv (msgOf ''register org-1 app-1'') = fst (registrationClassified noContractsEnv (msgOf ''register org-1 app-1'')) @ [w, Nak]) \<and>
   Warningf ''recovered in org registration message handler; %s'' [S nilDeref] \<in> set (consumeOrganizationRegistrationMsg nilTokenEnv (msgOf ''register org-1 app-1'')) \<and>
   (\<exists>pre. consumeOrganizationRegistrationMsg nilTokenEnv (msgOf ''register org-1 app-1'') = pre @ [Warningf ''recovered in org registration message handler; %s'' [S nilDeref], Nak])"
proof -
  let ?d = "NchainGetContractDetails ''app-jwt'' ''contract-30''"
  let ?v = "TokenVend 2 \<lparr>tok_OrganizationID = Some 1, tok_ApplicationID = None, tok_Scope = None, tok_Token = None\<rparr>"
  have d: "?d \<in> set (consumeOrganizationRegistrationMsg detailsFailEnv (msgOf ''register org-1 app-1''))"
    "nchain_GetContractDetails detailsFailEnv ''app-jwt'' ''contract-30'' = Inl ''contract not found''"
    "snd (registrationPrepared detailsFailEnv (msgOf ''register org-1 app-1'')) = None"
    by (simp_all add: reg_defs env_defs detailsFailEnv_def)
  then have fd: "failedCall detailsFailEnv ?d" by simp
  have v: "?v \<in> set (consumeOrganizationRegistrationMsg vendFailEnv (msgOf ''register org-1 app-1''))"
    "\<not> fst (token_Vend vendFailEnv 2
       \<lparr>tok_OrganizationID = Some 1, tok_ApplicationID = None, tok_Scope = None, tok_Token = None\<rparr>)"
    by (simp_all add: reg_defs env_defs vendFailEnv_def)
  then have fv: "failedCall vendFailEnv ?v" by simp
  have g: "json_Unmarshal okEnv (msg_Data (msgOf ''register'')) = Inl ''unexpected end of JSON input''"
    by (simp add: env_defs)
  have k: "json_Unmarshal okEnv (msg_Data (msgOf ''created org-1'')) = Inr [(''organization_id'', JString ''org-1'')]"
    "asString (map_of [(''organization_id'', JString ''org-1'')] ''application_id'') = None"
    by (simp_all add: env_defs)
  have n: "registrationResolved noDomainEnv (msgOf ''register org-1 app-1'') =
      (fst (registrationResolved noDomainEnv (msgOf ''register org-1 app-1'')), Some (the (snd (registrationResolved noDomainEnv (msgOf ''register org-1 app-1'')))))"
    "v_orgDomain (the (snd (registrationResolved noDomainEnv (msgOf ''register org-1 app-1'')))) = None"
    by (simp_all add: reg_defs env_defs noDomainEnv_def)
  have c: "registrationClassified noContractsEnv (msgOf ''register org-1 app-1'') =
      (fst (registrationClassified noContractsEnv (msgOf ''register org-1 app-1'')), Some (the (snd (registrationClassified noContractsEnv (msgOf ''register org-1 app-1'')))))"
    "v_orgRegistryContractID (the (snd (registrationClassified noContractsEnv (msgOf ''register org-1 app-1'')))) = None"
    by (simp_all add: registrationClassified_def reg_defs env_defs noContractsEnv_def)
  have t: "Warningf ''recovered in org registration message handler; %s'' [S nilDeref] \<in> set (consumeOrganizationRegistrationMsg nilTokenEnv (msgOf ''register org-1 app-1''))"
    by (simp add: reg_defs env_defs nilTokenEnv_def recoveredRegistration_def)
  note at_d = registration_steps_in_source_order [where env = detailsFailEnv and msg = "(msgOf ''register org-1 app-1'')" and e = ?d]
  note at_v = registration_steps_in_source_order [where env = vendFailEnv and msg = "(msgOf ''register org-1 app-1'')" and e = ?v]
  note at_g = registration_steps_in_source_order [where env = okEnv and msg = "msgOf ''register''"
      and err = "''unexpected end of JSON input''"]
  note at_k = registration_steps_in_source_order [where env = okEnv and msg = "msgOf ''created org-1''"
      and params = "[(''organization_id'', JString ''org-1'')]"]
  note at_n = registration_steps_in_source_order [where env = noDomainEnv and msg = "(msgOf ''register org-1 app-1'')"
      and es = "fst (registrationResolved noDomainEnv (msgOf ''register org-1 app-1''))"
      and l = "the (snd (registrationResolved noDomainEnv (msgOf ''register org-1 app-1'')))"]
  note at_c = registration_steps_in_source_order [where env = noContractsEnv and msg = "(msgOf ''register org-1 app-1'')"
      and es' = "fst (registrationClassified noContractsEnv (msgOf ''register org-1 app-1''))"
      and l' = "the (snd (registrationClassified noContractsEnv (msgOf ''register org-1 app-1'')))"]
  note at_t = registration_steps_in_source_order [where env = nilTokenEnv and msg = "(msgOf ''register org-1 app-1'')" and a = "[S nilDeref]"]
  from at_d d fd have 1: "\<exists>pre w. isLog w \<and> consumeOrganizationRegistrationMsg detailsFailEnv (msgOf ''register org-1 app-1'') = pre @ [?d, w, Nak]"
    and 2: "sorted (phases (consumeOrganizationRegistrationMsg detailsFailEnv (msgOf ''register org-1 app-1'')))" "last (consumeOrganizationRegistrationMsg detailsFailEnv (msgOf ''register org-1 app-1'')) = Nak" "Ack \<notin> set (consumeOrganizationRegistrationMsg detailsFailEnv (msgOf ''register org-1 app-1''))"
      "\<not> list_ex isExecuteContract (consumeOrganizationRegistrationMsg detailsFailEnv (msgOf ''register org-1 app-1''))" by blast+
  from at_v v fv have 3: "\<exists>pre w. isLog w \<and> consumeOrganizationRegistrationMsg vendFailEnv (msgOf ''register org-1 app-1'') = pre @ [?v, w, Nak]" by blast
  from at_g g have 4: "\<exists>d w. isLog d \<and> isLog w \<and> consumeOrganizationRegistrationMsg okEnv (msgOf ''register'') = [d, w, Nak]" by blast
  from at_k k have 8: "\<exists>d w. isLog d \<and> isLog w \<and> consumeOrganizationRegistrationMsg okEnv (msgOf ''created org-1'') = [d, w, Nak]" by blast
  from at_n n have 5: "\<exists>w. isLog w \<and> consumeOrganizationRegistrationMsg noDomainEnv (msgOf ''register org-1 app-1'') = fst (registrationResolved noDomainEnv (msgOf ''register org-1 app-1'')) @ [w, Nak]"
    by blast
  from at_c c have 6: "\<exists>w. isLog w \<and> consumeOrganizationRegistrationMsg noContractsEnv (msgOf ''register org-1 app-1'') = fst (registrationClassified noContractsEnv (msgOf ''register org-1 app-1'')) @ [w, Nak]"
    by blast
  from at_t t have 7: "\<exists>pre. consumeOrganizationRegistrationMsg nilTokenEnv (msgOf ''register org-1 app-1'') = pre @ [Warningf ''recovered in org registration message handler; %s'' [S nilDeref], Nak]" by blast
  from d(1,2) 1 2(1) d(3) 2(2,3,4) v 3 g 4 k 8 n(2) 5 c(2) 6 t 7 show ?thesis by (intro conjI)
qed


subsection \<open>Contract execution failure\<close>

text \<open>
  C1, as the claim states it, fails: in this run the contract execution fails, the
  failure is logged as the last event, and the run contains no \<open>Ack\<close> (and no \<open>Nak\<close>).
\<close>

theorem registration_execute_failure_counterexample:
  "list_ex isExecuteContract
     (consumeOrganizationRegistrationMsg executeFailEnv (msgOf ''register org-1 app-1'')) \<and>
   Ack \<notin> set (consumeOrganizationRegistrationMsg executeFailEnv (msgOf ''register org-1 app-1'')) \<and>
   Nak \<notin> set (consumeOrganizationRegistrationMsg executeFailEnv (msgOf ''register org-1 app-1'')) \<and>
   last (consumeOrganizationRegistrationMsg executeFailEnv (msgOf ''register org-1 app-1'')) =
     Warningf ''organization registry transaction broadcast failed on behalf of organization: %s; org registry contract id: %s; %s''
       [S ''org-1'', S ''contract-31'', S ''nonce too low'']"
  by (simp add: reg_defs env_defs executeFailEnv_def)

text \<open>
  C1 amended. In every run in which a contract-execution call is made and answered with
  an error, the handler logs the failure and does not acknowledge the message, and the
  organization is not updated: the acknowledgment is sent only when the call succeeds.
\<close>

theorem registration_execute_failure_not_acknowledged:
  assumes "NchainExecuteContract jwt cid p \<in> set (consumeOrganizationRegistrationMsg env msg)"
    and "nchain_ExecuteContract env jwt cid p = Inl err"
  shows "Ack \<notin> set (consumeOrganizationRegistrationMsg env msg) \<and>
         \<not> list_ex isOrganizationUpdate (consumeOrganizationRegistrationMsg env msg) \<and>
         (\<exists>organizationID.
            Warningf ''organization registry transaction broadcast failed on behalf of organization: %s; org registry contract id: %s; %s''
              [S organizationID, S cid, S err]
            \<in> set (consumeOrganizationRegistrationMsg env msg))"
proof -
  let ?t = "consumeOrganizationRegistrationMsg env msg"
  let ?pre = "fst (registrationPrepared env msg)"
  have noexec: "NchainExecuteContract jwt cid p \<notin> set ?pre"
    using prepared_events [of env msg] by (auto simp: list_ex_iff)
  from registration_run [of env msg] assms(1) noexec obtain l where
    l: "snd (registrationPrepared env msg) = Some l"
    and t: "?t = ?pre @ fst (registrationExecute env l)"
    and mem: "NchainExecuteContract jwt cid p \<in> set (fst (registrationExecute env l))"
    by auto
  from execute_cases [of env l] mem assms(2) obtain d where d: "isLog d"
    and ex: "fst (registrationExecute env l) =
        [d, NchainExecuteContract jwt cid p,
         Warningf ''organization registry transaction broadcast failed on behalf of organization: %s; org registry contract id: %s; %s''
           [S (v_organizationID l), S cid, S err]]"
    unfolding executeShape_def
    by (auto simp: recoveredRegistration_def dest: isLog_plain split: if_splits)
  from prepared_events [of env msg] t ex isLog_plain [OF d]
  show ?thesis by (auto simp: list_ex_iff)
qed

theorem registration_execute_failure_not_acknowledged_witness:
  "NchainExecuteContract ''app-jwt'' ''contract-31''
     (executeParams (Some ''wallet-40'') ''registerOrg'' (Some ''0xacme'') ''Acme''
        ''acme.example'' ''nats://acme'' ''c0ffee'')
     \<in> set (consumeOrganizationRegistrationMsg executeFailEnv (msgOf ''register org-1 app-1'')) \<and>
   nchain_ExecuteContract executeFailEnv ''app-jwt'' ''contract-31''
     (executeParams (Some ''wallet-40'') ''registerOrg'' (Some ''0xacme'') ''Acme''
        ''acme.example'' ''nats://acme'' ''c0ffee'') = Inl ''nonce too low'' \<and>
   Ack \<notin> set (consumeOrganizationRegistrationMsg executeFailEnv (msgOf ''register org-1 app-1'')) \<and>
   \<not> list_ex isOrganizationUpdate
       (consumeOrganizationRegistrationMsg executeFailEnv (msgOf ''register org-1 app-1''))"
proof -
  have called: "NchainExecuteContract ''app-jwt'' ''contract-31''
     (executeParams (Some ''wallet-40'') ''registerOrg'' (Some ''0xacme'') ''Acme''
        ''acme.example'' ''nats://acme'' ''c0ffee'')
     \<in> set (consumeOrganizationRegistrationMsg executeFailEnv (msgOf ''register org-1 app-1''))"
    by (simp add: reg_defs env_defs executeFailEnv_def organizationRegistrationMethod_def)
  have failed: "nchain_ExecuteContract executeFailEnv ''app-jwt'' ''contract-31''
     (executeParams (Some ''wallet-40'') ''registerOrg'' (Some ''0xacme'') ''Acme''
        ''acme.example'' ''nats://acme'' ''c0ffee'') = Inl ''nonce too low''"
    by (simp add: executeFailEnv_def)
  from registration_execute_failure_not_acknowledged [OF called failed] called failed
  show ?thesis by blast
qed

subsection \<open>The update of the organization\<close>

text \<open>
  C10. A run that updates the organization is a run in which every part before the
  contract execution went through, the contract-execution call was answered without an
  error, and the update follows that call: the run is the events of the earlier parts,
  which contain no update, no contract execution and no \<open>Nak\<close>, followed by a log line,
  the contract execution, the one update with the metadata as amended, a log line and
  \<open>Ack\<close>. So no run that fails earlier, or whose contract execution fails, updates the
  organization.
\<close>

theorem registration_update_only_after_execution:
  "list_ex isOrganizationUpdate (consumeOrganizationRegistrationMsg env msg) \<longrightarrow>
     (\<exists>l d cid p res d'.
        snd (registrationPrepared env msg) = Some l \<and> v_updateOrgMetadata l \<and>
        nchain_ExecuteContract env (v_jwtToken l) cid p = Inr res \<and>
        consumeOrganizationRegistrationMsg env msg =
          fst (registrationPrepared env msg) @
          [d, NchainExecuteContract (v_jwtToken l) cid p,
           OrganizationUpdate (v_organization l) (v_metadata l), d', Ack] \<and>
        isLog d \<and> isLog d' \<and>
        Nak \<notin> set (fst (registrationPrepared env msg)) \<and>
        \<not> list_ex isExecuteContract (fst (registrationPrepared env msg)) \<and>
        \<not> list_ex isOrganizationUpdate (fst (registrationPrepared env msg)))"
proof
  let ?t = "consumeOrganizationRegistrationMsg env msg"
  let ?pre = "fst (registrationPrepared env msg)"
  assume upd: "list_ex isOrganizationUpdate ?t"
  from registration_run [of env msg] upd prepared_events [of env msg] obtain l where
    l: "snd (registrationPrepared env msg) = Some l"
    and t: "?t = ?pre @ fst (registrationExecute env l)"
    and mem: "list_ex isOrganizationUpdate (fst (registrationExecute env l))"
    by auto
  from execute_cases [of env l] mem obtain d cid p res d' where "isLog d" "isLog d'"
    "v_updateOrgMetadata l" "nchain_ExecuteContract env (v_jwtToken l) cid p = Inr res"
    "fst (registrationExecute env l) =
        [d, NchainExecuteContract (v_jwtToken l) cid p,
         OrganizationUpdate (v_organization l) (v_metadata l), d', Ack]"
    unfolding executeShape_def
    by (auto simp: recoveredRegistration_def dest: isLog_plain split: if_splits)
  with l t prepared_events [of env msg] prepared_running [OF l]
  show "\<exists>l d cid p res d'.
        snd (registrationPrepared env msg) = Some l \<and> v_updateOrgMetadata l \<and>
        nchain_ExecuteContract env (v_jwtToken l) cid p = Inr res \<and>
        consumeOrganizationRegistrationMsg env msg =
          fst (registrationPrepared env msg) @
          [d, NchainExecuteContract (v_jwtToken l) cid p,
           OrganizationUpdate (v_organization l) (v_metadata l), d', Ack] \<and>
        isLog d \<and> isLog d' \<and>
        Nak \<notin> set (fst (registrationPrepared env msg)) \<and>
        \<not> list_ex isExecuteContract (fst (registrationPrepared env msg)) \<and>
        \<not> list_ex isOrganizationUpdate (fst (registrationPrepared env msg))"
    by (intro exI [of _ l] exI [of _ d] exI [of _ cid] exI [of _ p] exI [of _ res] exI [of _ d'])
       simp
qed

theorem registration_update_only_after_execution_witness:
  "list_ex isOrganizationUpdate
     (consumeOrganizationRegistrationMsg okEnv (msgOf ''register org-1 app-1'')) \<and>
   (\<exists>l d cid p res d'.
        snd (registrationPrepared okEnv (msgOf ''register org-1 app-1'')) = Some l \<and>
        v_updateOrgMetadata l \<and>
        nchain_ExecuteContract okEnv (v_jwtToken l) cid p = Inr res \<and>
        consumeOrganizationRegistrationMsg okEnv (msgOf ''register org-1 app-1'') =
          fst (registrationPrepared okEnv (msgOf ''register org-1 app-1'')) @
          [d, NchainExecuteContract (v_jwtToken l) cid p,
           OrganizationUpdate (v_organization l) (v_metadata l), d', Ack])"
proof -
  have updated: "list_ex isOrganizationUpdate
     (consumeOrganizationRegistrationMsg okEnv (msgOf ''register org-1 app-1''))"
    by (simp add: reg_defs env_defs)
  from registration_update_only_after_execution [of okEnv "msgOf ''register org-1 app-1''"] updated
  show ?thesis by blast
qed

subsection \<open>The four required values\<close>

text \<open>
  C3. Let the handler have come through its steps 1 and 2 with the events \<open>es\<close> and the
  local variables \<open>l\<close>. Then \<open>es\<close> contains no wallet creation and no contract execution,
  and if the first missing one of address, domain, messaging endpoint and zero-knowledge
  public key (checked in this order) is missing, in particular if exactly one is
  missing, the run is \<open>es\<close> followed by the warning that names that value and \<open>Nak\<close>. A run
  with \<open>Ack\<close> has come through steps 1 and 2 with all four values resolved.
\<close>

theorem registration_requires_four_values:
  "(registrationResolved env msg = (es, Some l) \<longrightarrow>
      \<not> list_ex isCreateWallet es \<and> \<not> list_ex isExecuteContract es \<and>
      (v_orgAddress l = None \<longrightarrow>
         consumeOrganizationRegistrationMsg env msg = es @
           [Warningf ''failed to resolve organization public address for storage in the public org registry; organization id: %s''
              [S (v_organizationID l)], Nak]) \<and>
      (v_orgAddress l \<noteq> None \<and> v_orgDomain l = None \<longrightarrow>
         consumeOrganizationRegistrationMsg env msg = es @
           [Warningf ''failed to resolve organization domain for storage in the public org registry; organization id: %s''
              [S (v_organizationID l)], Nak]) \<and>
      (v_orgAddress l \<noteq> None \<and> v_orgDomain l \<noteq> None \<and> v_orgMessagingEndpoint l = None \<longrightarrow>
         consumeOrganizationRegistrationMsg env msg = es @
           [Warningf ''failed to resolve organization messaging endpoint for storage in the public org registry; organization id: %s''
              [S (v_organizationID l)], Nak]) \<and>
      (v_orgAddress l \<noteq> None \<and> v_orgDomain l \<noteq> None \<and> v_orgMessagingEndpoint l \<noteq> None \<and>
       v_orgZeroKnowledgePublicKey l = None \<longrightarrow>
         consumeOrganizationRegistrationMsg env msg = es @
           [Warningf ''failed to resolve organization zero-knowledge public key for storage in the public org registry; organization id: %s''
              [S (v_organizationID l)], Nak])) \<and>
   (Ack \<in> set (consumeOrganizationRegistrationMsg env msg) \<longrightarrow>
      (\<exists>l0. snd (registrationResolved env msg) = Some l0 \<and>
         v_orgAddress l0 \<noteq> None \<and> v_orgDomain l0 \<noteq> None \<and>
         v_orgMessagingEndpoint l0 \<noteq> None \<and> v_orgZeroKnowledgePublicKey l0 \<noteq> None))"
proof (intro conjI impI)
  assume r: "registrationResolved env msg = (es, Some l)"
  from resolved_events [of env msg] r show "\<not> list_ex isCreateWallet es" by simp
  from resolved_events [of env msg] r show "\<not> list_ex isExecuteContract es" by simp
next
  assume r: "registrationResolved env msg = (es, Some l)" and f: "v_orgAddress l = None"
  from f have "registrationRequire l =
      ([Warningf ''failed to resolve organization public address for storage in the public org registry; organization id: %s''
              [S (v_organizationID l)], Nak], None)"
    by (simp add: registrationRequire_def stop_def)
  with require_stops [OF r] show "consumeOrganizationRegistrationMsg env msg = es @
           [Warningf ''failed to resolve organization public address for storage in the public org registry; organization id: %s''
              [S (v_organizationID l)], Nak]" by simp
next
  assume r: "registrationResolved env msg = (es, Some l)"
    and f: "v_orgAddress l \<noteq> None \<and> v_orgDomain l = None"
  from f have "registrationRequire l =
      ([Warningf ''failed to resolve organization domain for storage in the public org registry; organization id: %s''
              [S (v_organizationID l)], Nak], None)"
    by (simp add: registrationRequire_def stop_def)
  with require_stops [OF r] show "consumeOrganizationRegistrationMsg env msg = es @
           [Warningf ''failed to resolve organization domain for storage in the public org registry; organization id: %s''
              [S (v_organizationID l)], Nak]" by simp
next
  assume r: "registrationResolved env msg = (es, Some l)"
    and f: "v_orgAddress l \<noteq> None \<and> v_orgDomain l \<noteq> None \<and> v_orgMessagingEndpoint l = None"
  from f have "registrationRequire l =
      ([Warningf ''failed to resolve organization messaging endpoint for storage in the public org registry; organization id: %s''
              [S (v_organizationID l)], Nak], None)"
    by (simp add: registrationRequire_def stop_def)
  with require_stops [OF r] show "consumeOrganizationRegistrationMsg env msg = es @
           [Warningf ''failed to resolve organization messaging endpoint for storage in the public org registry; organization id: %s''
              [S (v_organizationID l)], Nak]" by simp
next
  assume r: "registrationResolved env msg = (es, Some l)"
    and f: "v_orgAddress l \<noteq> None \<and> v_orgDomain l \<noteq> None \<and> v_orgMessagingEndpoint l \<noteq> None \<and>
       v_orgZeroKnowledgePublicKey l = None"
  from f have "registrationRequire l =
      ([Warningf ''failed to resolve organization zero-knowledge public key for storage in the public org registry; organization id: %s''
              [S (v_organizationID l)], Nak], None)"
    by (simp add: registrationRequire_def stop_def)
  with require_stops [OF r] show "consumeOrganizationRegistrationMsg env msg = es @
           [Warningf ''failed to resolve organization zero-knowledge public key for storage in the public org registry; organization id: %s''
              [S (v_organizationID l)], Nak]" by simp
next
  assume ack: "Ack \<in> set (consumeOrganizationRegistrationMsg env msg)"
  from registration_run [of env msg] ack prepared_events [of env msg] obtain l9 where
    "snd (registrationPrepared env msg) = Some l9" by auto
  from prepared_resolved [OF this]
  show "\<exists>l0. snd (registrationResolved env msg) = Some l0 \<and>
         v_orgAddress l0 \<noteq> None \<and> v_orgDomain l0 \<noteq> None \<and>
         v_orgMessagingEndpoint l0 \<noteq> None \<and> v_orgZeroKnowledgePublicKey l0 \<noteq> None" by blast
qed

lemmas resolved_defs = registrationResolved_def andThen_def registrationParams_def
  registrationVaultKeys_def registrationMetadata_def emit_def stop_def proceed_def
  firstKeyAddress_def firstKeyPublicKey_def Let_def

theorem registration_requires_four_values_witness:
  "(\<exists>es l. registrationResolved noAddressEnv (msgOf ''register org-1 app-1'') = (es, Some l) \<and>
      v_orgAddress l = None \<and>
      consumeOrganizationRegistrationMsg noAddressEnv (msgOf ''register org-1 app-1'') = es @
        [Warningf ''failed to resolve organization public address for storage in the public org registry; organization id: %s''
           [S (v_organizationID l)], Nak]) \<and>
   (\<exists>es l. registrationResolved noDomainEnv (msgOf ''register org-1 app-1'') = (es, Some l) \<and>
      v_orgAddress l \<noteq> None \<and> v_orgDomain l = None \<and>
      consumeOrganizationRegistrationMsg noDomainEnv (msgOf ''register org-1 app-1'') = es @
        [Warningf ''failed to resolve organization domain for storage in the public org registry; organization id: %s''
           [S (v_organizationID l)], Nak]) \<and>
   (\<exists>es l. registrationResolved noEndpointEnv (msgOf ''register org-1 app-1'') = (es, Some l) \<and>
      v_orgAddress l \<noteq> None \<and> v_orgDomain l \<noteq> None \<and> v_orgMessagingEndpoint l = None \<and>
      consumeOrganizationRegistrationMsg noEndpointEnv (msgOf ''register org-1 app-1'') = es @
        [Warningf ''failed to resolve organization messaging endpoint for storage in the public org registry; organization id: %s''
           [S (v_organizationID l)], Nak]) \<and>
   (\<exists>es l. registrationResolved noZkKeyEnv (msgOf ''register org-1 app-1'') = (es, Some l) \<and>
      v_orgAddress l \<noteq> None \<and> v_orgDomain l \<noteq> None \<and> v_orgMessagingEndpoint l \<noteq> None \<and>
        v_orgZeroKnowledgePublicKey l = None \<and>
      consumeOrganizationRegistrationMsg noZkKeyEnv (msgOf ''register org-1 app-1'') = es @
        [Warningf ''failed to resolve organization zero-knowledge public key for storage in the public org registry; organization id: %s''
           [S (v_organizationID l)], Nak]) \<and>
   Ack \<in> set (consumeOrganizationRegistrationMsg okEnv (msgOf ''register org-1 app-1'')) \<and>
   (\<exists>l0. snd (registrationResolved okEnv (msgOf ''register org-1 app-1'')) = Some l0 \<and>
      v_orgAddress l0 \<noteq> None \<and> v_orgDomain l0 \<noteq> None \<and>
      v_orgMessagingEndpoint l0 \<noteq> None \<and> v_orgZeroKnowledgePublicKey l0 \<noteq> None)"
proof -
  have "\<exists>es l. registrationResolved noAddressEnv (msgOf ''register org-1 app-1'') = (es, Some l) \<and>
      v_orgAddress l = None"
    by (simp add: resolved_defs env_defs noAddressEnv_def)
  then obtain es l where "registrationResolved noAddressEnv (msgOf ''register org-1 app-1'') = (es, Some l)"
      "v_orgAddress l = None" by blast
  with registration_requires_four_values [of noAddressEnv "msgOf ''register org-1 app-1''" es l]
  have noAddress: "(\<exists>es l. registrationResolved noAddressEnv (msgOf ''register org-1 app-1'') = (es, Some l) \<and>
      v_orgAddress l = None \<and>
      consumeOrganizationRegistrationMsg noAddressEnv (msgOf ''register org-1 app-1'') = es @
        [Warningf ''failed to resolve organization public address for storage in the public org registry; organization id: %s''
           [S (v_organizationID l)], Nak])"
    by blast
  have "\<exists>es l. registrationResolved noDomainEnv (msgOf ''register org-1 app-1'') = (es, Some l) \<and>
      v_orgAddress l \<noteq> None \<and> v_orgDomain l = None"
    by (simp add: resolved_defs env_defs noDomainEnv_def)
  then obtain es l where "registrationResolved noDomainEnv (msgOf ''register org-1 app-1'') = (es, Some l)"
      "v_orgAddress l \<noteq> None \<and> v_orgDomain l = None" by blast
  with registration_requires_four_values [of noDomainEnv "msgOf ''register org-1 app-1''" es l]
  have noDomain: "(\<exists>es l. registrationResolved noDomainEnv (msgOf ''register org-1 app-1'') = (es, Some l) \<and>
      v_orgAddress l \<noteq> None \<and> v_orgDomain l = None \<and>
      consumeOrganizationRegistrationMsg noDomainEnv (msgOf ''register org-1 app-1'') = es @
        [Warningf ''failed to resolve organization domain for storage in the public org registry; organization id: %s''
           [S (v_organizationID l)], Nak])"
    by blast
  have "\<exists>es l. registrationResolved noEndpointEnv (msgOf ''register org-1 app-1'') = (es, Some l) \<and>
      v_orgAddress l \<noteq> None \<and> v_orgDomain l \<noteq> None \<and> v_orgMessagingEndpoint l = None"
    by (simp add: resolved_defs env_defs noEndpointEnv_def)
  then obtain es l where "registrationResolved noEndpointEnv (msgOf ''register org-1 app-1'') = (es, Some l)"
      "v_orgAddress l \<noteq> None \<and> v_orgDomain l \<noteq> None \<and> v_orgMessagingEndpoint l = None" by blast
  with registration_requires_four_values [of noEndpointEnv "msgOf ''register org-1 app-1''" es l]
  have noEndpoint: "(\<exists>es l. registrationResolved noEndpointEnv (msgOf ''register org-1 app-1'') = (es, Some l) \<and>
      v_orgAddress l \<noteq> None \<and> v_orgDomain l \<noteq> None \<and> v_orgMessagingEndpoint l = None \<and>
      consumeOrganizationRegistrationMsg noEndpointEnv (msgOf ''register org-1 app-1'') = es @
        [Warningf ''failed to resolve organization messaging endpoint for storage in the public org registry; organization id: %s''
           [S (v_organizationID l)], Nak])"
    by blast
  have "\<exists>es l. registrationResolved noZkKeyEnv (msgOf ''register org-1 app-1'') = (es, Some l) \<and>
      v_orgAddress l \<noteq> None \<and> v_orgDomain l \<noteq> None \<and> v_orgMessagingEndpoint l \<noteq> None \<and>
        v_orgZeroKnowledgePublicKey l = None"
    by (simp add: resolved_defs env_defs noZkKeyEnv_def)
  then obtain es l where "registrationResolved noZkKeyEnv (msgOf ''register org-1 app-1'') = (es, Some l)"
      "v_orgAddress l \<noteq> None \<and> v_orgDomain l \<noteq> None \<and> v_orgMessagingEndpoint l \<noteq> None \<and>
        v_orgZeroKnowledgePublicKey l = None" by blast
  with registration_requires_four_values [of noZkKeyEnv "msgOf ''register org-1 app-1''" es l]
  have noZkKey: "(\<exists>es l. registrationResolved noZkKeyEnv (msgOf ''register org-1 app-1'') = (es, Some l) \<and>
      v_orgAddress l \<noteq> None \<and> v_orgDomain l \<noteq> None \<and> v_orgMessagingEndpoint l \<noteq> None \<and>
        v_orgZeroKnowledgePublicKey l = None \<and>
      consumeOrganizationRegistrationMsg noZkKeyEnv (msgOf ''register org-1 app-1'') = es @
        [Warningf ''failed to resolve organization zero-knowledge public key for storage in the public org registry; organization id: %s''
           [S (v_organizationID l)], Nak])"
    by blast
  have ack: "Ack \<in> set (consumeOrganizationRegistrationMsg okEnv (msgOf ''register org-1 app-1''))"
    by (simp add: reg_defs env_defs)
  with registration_requires_four_values [of okEnv "msgOf ''register org-1 app-1''"]
  have "\<exists>l0. snd (registrationResolved okEnv (msgOf ''register org-1 app-1'')) = Some l0 \<and>
      v_orgAddress l0 \<noteq> None \<and> v_orgDomain l0 \<noteq> None \<and>
      v_orgMessagingEndpoint l0 \<noteq> None \<and> v_orgZeroKnowledgePublicKey l0 \<noteq> None"
    by blast
  with ack noAddress noDomain noEndpoint noZkKey show ?thesis by blast
qed

subsection \<open>The token of the contract calls\<close>

lemma andThen_events:
  "e \<in> set (fst (andThen r f)) \<Longrightarrow>
   e \<in> set (fst r) \<or> (\<exists>l. snd r = Some l \<and> e \<in> set (fst (f l)))"
  by (cases "snd r") (auto simp: andThen_def)

lemma contractCall_phase:
  "contractCallToken e = Some t \<Longrightarrow>
   e \<noteq> Nak \<and> (phase e = Some 5 \<or> phase e = Some 8 \<or> phase e = Some 9)"
  by (cases e) simp_all

lemma inOrder_contractCall:
  assumes "inOrder lo hi s es" and "e \<in> set es" and "contractCallToken e = Some t"
  shows "(lo \<le> 5 \<and> 5 \<le> hi) \<or> (lo \<le> 8 \<and> 8 \<le> hi) \<or> (lo \<le> 9 \<and> 9 \<le> hi)"
  using contractCall_phase [OF assms(3)] inOrder_bound [OF assms(1,2)] by auto

lemma contracts_calls:
  "e \<in> set (fst (registrationContracts env l)) \<Longrightarrow> contractCallToken e = Some jwt \<Longrightarrow>
   \<exists>tkn others. v_tokens l = tkn # others \<and> tok_Token tkn = Some jwt"
  by (auto simp: registrationContracts_def emit_def stop_def proceed_def recoveredRegistration_def
      split: list.splits option.splits sum.splits)

lemma classifyContract_jwt: "v_jwtToken (classifyContract env resp l) = v_jwtToken l"
  by (simp add: classifyContract_def split: option.splits)

lemma classify_calls:
  "e \<in> set (fst (registrationClassify env cs l)) \<Longrightarrow> contractCallToken e = Some jwt \<Longrightarrow>
   jwt = v_jwtToken l"
  by (induction cs arbitrary: l)
     (auto simp: emit_def stop_def proceed_def classifyContract_jwt split: sum.splits)

lemma execute_calls:
  "e \<in> set (fst (registrationExecute env l)) \<Longrightarrow> contractCallToken e = Some jwt \<Longrightarrow>
   jwt = v_jwtToken l"
  using execute_cases [of env l] unfolding executeShape_def
  by (auto simp: recoveredRegistration_def dest!: isLog_plain split: if_splits)


lemma registries_calls:
  "e \<in> set (fst (registrationRegistries l)) \<Longrightarrow> contractCallToken e = None"
  by (auto simp: registrationRegistries_def stop_def proceed_def split: if_splits)

lemma tokens_stage_source:
  assumes l0: "snd (registrationResolved env msg) = Some l0"
    and src: "db_FindTokens env (v_applicationID l0) = tkn # others \<or>
       db_FindTokens env (v_applicationID l0) = [] \<and>
       token_Vend env 1 (offlineAccessToken env (v_applicationUUID l0)) = (True, tkn)"
    and tok: "tok_Token tkn = Some jwt"
  shows "\<exists>params applicationID applicationUUID tkn others.
     json_Unmarshal env (msg_Data msg) = Inr params \<and>
     asString (map_of params ''application_id'') = Some applicationID \<and>
     uuid_FromString env applicationID = Inr applicationUUID \<and>
     tok_Token tkn = Some jwt \<and>
     (db_FindTokens env applicationID = tkn # others \<or>
      db_FindTokens env applicationID = [] \<and>
      token_Vend env 1 (offlineAccessToken env applicationUUID) = (True, tkn))"
  using resolved_frame [OF l0] src tok by blast

lemma listed_calls:
  assumes e: "e \<in> set (fst (registrationListed env msg))" and c: "contractCallToken e = Some jwt"
  shows "\<exists>l0 tkn others. snd (registrationResolved env msg) = Some l0 \<and> tok_Token tkn = Some jwt \<and>
     (db_FindTokens env (v_applicationID l0) = tkn # others \<or>
      db_FindTokens env (v_applicationID l0) = [] \<and>
      token_Vend env 1 (offlineAccessToken env (v_applicationUUID l0)) = (True, tkn))"
proof -
  let ?A = "andThen (andThen (registrationResolved env msg) registrationRequire) (registrationTokens env)"
  have early: "inOrder 0 4 (snd ?A = None) (fst ?A)"
    by (intro inOrder_andThen [where lo = 0 and hi = 3 and lo' = 4 and hi' = 4]
              inOrder_andThen [where lo = 0 and hi = 3 and lo' = 3 and hi' = 3]
              stage_resolved stage_require stage_tokens) simp_all
  from e have "e \<in> set (fst (andThen ?A (registrationContracts env)))"
    by (simp only: registrationListed_def)
  from andThen_events [OF this] inOrder_contractCall [OF early _ c]
  obtain l3 where l3: "snd ?A = Some l3" and mem: "e \<in> set (fst (registrationContracts env l3))"
    by auto
  from contracts_calls [OF mem c] obtain tkn others where
    tk: "v_tokens l3 = tkn # others" "tok_Token tkn = Some jwt" by blast
  from andThen_Some [OF l3] obtain l2 where
    l2: "snd (andThen (registrationResolved env msg) registrationRequire) = Some l2"
    and t: "snd (registrationTokens env l2) = Some l3" by blast
  from andThen_Some [OF l2] obtain l0 where l0: "snd (registrationResolved env msg) = Some l0"
    and r: "snd (registrationRequire l0) = Some l2" by blast
  from require_frame [OF r] have l2_eq: "l2 = l0" by simp
  from tokens_frame [OF t] obtain tkn' others' where
    l3_eq: "l3 = l2\<lparr>v_tokens := tkn' # others'\<rparr>"
    and src: "db_FindTokens env (v_applicationID l2) = tkn' # others' \<or>
       db_FindTokens env (v_applicationID l2) = [] \<and> others' = [] \<and>
       token_Vend env 1 (offlineAccessToken env (v_applicationUUID l2)) = (True, tkn')" by blast
  from tk l3_eq have "tkn' = tkn" by simp
  with src l2_eq tk(2) l0 show ?thesis by blast
qed

lemma listed_jwt:
  assumes "snd (registrationListed env msg) = Some ll"
  shows "\<exists>l0 tkn others. snd (registrationResolved env msg) = Some l0 \<and>
     tok_Token tkn = Some (v_jwtToken ll) \<and>
     (db_FindTokens env (v_applicationID l0) = tkn # others \<or>
      db_FindTokens env (v_applicationID l0) = [] \<and>
      token_Vend env 1 (offlineAccessToken env (v_applicationUUID l0)) = (True, tkn))"
proof -
  from listed_frame [OF assms] obtain l0 tkn others jwt contracts where
    "snd (registrationResolved env msg) = Some l0"
    "ll = l0\<lparr>v_tokens := tkn # others, v_jwtToken := jwt, v_contracts := contracts\<rparr>"
    "tok_Token tkn = Some jwt"
    "db_FindTokens env (v_applicationID l0) = tkn # others \<or>
      db_FindTokens env (v_applicationID l0) = [] \<and> others = [] \<and>
      token_Vend env 1 (offlineAccessToken env (v_applicationUUID l0)) = (True, tkn)" by blast
  then show ?thesis by (intro exI [of _ l0] exI [of _ tkn] exI [of _ others]) auto
qed

lemma prepared_calls:
  assumes e: "e \<in> set (fst (registrationPrepared env msg))" and c: "contractCallToken e = Some jwt"
  shows "\<exists>l0 tkn others. snd (registrationResolved env msg) = Some l0 \<and> tok_Token tkn = Some jwt \<and>
     (db_FindTokens env (v_applicationID l0) = tkn # others \<or>
      db_FindTokens env (v_applicationID l0) = [] \<and>
      token_Vend env 1 (offlineAccessToken env (v_applicationUUID l0)) = (True, tkn))"
proof -
  let ?W = "andThen (registrationListed env msg) (registrationWallet env)"
  let ?C = "andThen ?W (\<lambda>l. registrationClassify env (v_contracts l) l)"
  from e have "e \<in> set (fst (andThen ?C registrationRegistries))"
    by (simp only: registrationPrepared_def)
  from andThen_events [OF this] registries_calls [of e] c
  have "e \<in> set (fst ?C)" by auto
  from andThen_events [OF this]
  have "e \<in> set (fst ?W) \<or> (\<exists>l2. snd ?W = Some l2 \<and> e \<in> set (fst (registrationClassify env (v_contracts l2) l2)))"
    by simp
  then show ?thesis
  proof
    assume "e \<in> set (fst ?W)"
    from andThen_events [OF this] inOrder_contractCall [OF stage_wallet _ c]
    have "e \<in> set (fst (registrationListed env msg))" by auto
    from listed_calls [OF this c] show ?thesis .
  next
    assume "\<exists>l2. snd ?W = Some l2 \<and> e \<in> set (fst (registrationClassify env (v_contracts l2) l2))"
    then obtain l2 where l2: "snd ?W = Some l2"
      and mem: "e \<in> set (fst (registrationClassify env (v_contracts l2) l2))" by blast
    from classify_calls [OF mem c] have jwt: "jwt = v_jwtToken l2" .
    from andThen_Some [OF l2] obtain ll where ll: "snd (registrationListed env msg) = Some ll"
      and w: "snd (registrationWallet env ll) = Some l2" by blast
    from wallet_frame [OF w] jwt have "jwt = v_jwtToken ll" by auto
    with listed_jwt [OF ll] show ?thesis by simp
  qed
qed

lemma wallet_calls:
  "NchainCreateWallet jwt p \<in> set (fst (registrationWallet env l)) \<Longrightarrow>
   \<exists>tkn. token_Vend env 2 (orgTokenFor (org_ID (v_organization l))) = (True, tkn) \<and>
     tok_Token tkn = Some jwt"
  by (auto simp: registrationWallet_def emit_def stop_def proceed_def recoveredRegistration_def
      split: prod.splits option.splits sum.splits if_splits)

lemma execute_no_wallet:
  "NchainCreateWallet jwt p \<notin> set (fst (registrationExecute env l))"
  using execute_cases [of env l] unfolding executeShape_def
  by (auto simp: recoveredRegistration_def dest!: isLog_plain split: if_splits)

lemma prepared_wallet_calls:
  assumes e: "NchainCreateWallet jwt p \<in> set (fst (registrationPrepared env msg))"
  shows "\<exists>ll. snd (registrationListed env msg) = Some ll \<and>
     NchainCreateWallet jwt p \<in> set (fst (registrationWallet env ll))"
proof -
  let ?e = "NchainCreateWallet jwt p"
  let ?W = "andThen (registrationListed env msg) (registrationWallet env)"
  let ?C = "andThen ?W (\<lambda>l. registrationClassify env (v_contracts l) l)"
  have ph: "?e \<noteq> Nak" "phase ?e = Some 7" by simp_all
  from e have "?e \<in> set (fst (andThen ?C registrationRegistries))"
    by (simp only: registrationPrepared_def)
  from andThen_events [OF this] inOrder_bound [OF stage_registries _ ph]
  have "?e \<in> set (fst ?C)" by auto
  from andThen_events [OF this] inOrder_bound [OF stage_classify _ ph]
  have "?e \<in> set (fst ?W)" by auto
  from andThen_events [OF this] inOrder_bound [OF stage_listed _ ph]
  show ?thesis by auto
qed

text \<open>
  C8, as the claim states it, fails: where the application has a persisted token
  without the offline-access scope, no token is minted, and that token is the one the
  contracts are listed and the contract is executed with; the run is acknowledged. And
  one call on the ledger, the creation of the wallet, is not made with the token of the
  application at all, but with a token minted for the organization without any scope.
\<close>

theorem registration_persisted_token_counterexample:
  "db_FindTokens persistedTokenEnv ''app-1'' =
     [\<lparr>tok_OrganizationID = None, tok_ApplicationID = Some 100, tok_Scope = None,
       tok_Token = Some ''legacy-jwt''\<rparr>] \<and>
   TokenVend 1
       \<lparr>tok_OrganizationID = None, tok_ApplicationID = Some 100,
        tok_Scope = Some ''offline_access'', tok_Token = None\<rparr>
     \<notin> set (consumeOrganizationRegistrationMsg persistedTokenEnv (msgOf ''register org-1 app-1'')) \<and>
   NchainListContracts ''legacy-jwt''
     \<in> set (consumeOrganizationRegistrationMsg persistedTokenEnv (msgOf ''register org-1 app-1'')) \<and>
   map contractCallToken (filter isExecuteContract
     (consumeOrganizationRegistrationMsg persistedTokenEnv (msgOf ''register org-1 app-1''))) = [Some ''legacy-jwt''] \<and>
   filter isCreateWallet
       (consumeOrganizationRegistrationMsg persistedTokenEnv (msgOf ''register org-1 app-1'')) =
     [NchainCreateWallet ''org-jwt'' [(''purpose'', JNumber ''44'')]] \<and>
   TokenVend 2 \<lparr>tok_OrganizationID = Some 1, tok_ApplicationID = None, tok_Scope = None, tok_Token = None\<rparr>
     \<in> set (consumeOrganizationRegistrationMsg persistedTokenEnv (msgOf ''register org-1 app-1'')) \<and>
   last (consumeOrganizationRegistrationMsg persistedTokenEnv (msgOf ''register org-1 app-1'')) = Ack"
  by (simp add: reg_defs env_defs persistedTokenEnv_def persistedToken_def)


text \<open>
  C8 amended. Every call about contracts that a run makes on the ledger (listing the
  contracts, looking one up, executing one) is made with the token of the first token
  persisted for the application, whatever its scope, or, when no token is persisted for
  the application, with the token of a newly minted one: a token of the application,
  of no organization, whose requested scope is \<open>StringOrNil("offline_access")\<close>. The
  remaining call on the ledger, the creation of the wallet, is made with the token of a
  token minted for the organization of the event at the third \<open>Vend\<close> call site, with no
  scope requested.
\<close>

theorem registration_contract_calls_use_application_token:
  "(e \<in> set (consumeOrganizationRegistrationMsg env msg) \<and> contractCallToken e = Some jwt \<longrightarrow>
     (\<exists>params applicationID applicationUUID tkn others.
        json_Unmarshal env (msg_Data msg) = Inr params \<and>
        asString (map_of params ''application_id'') = Some applicationID \<and>
        uuid_FromString env applicationID = Inr applicationUUID \<and>
        tok_Token tkn = Some jwt \<and>
        (db_FindTokens env applicationID = tkn # others \<or>
         db_FindTokens env applicationID = [] \<and>
         token_Vend env 1
           \<lparr>tok_OrganizationID = None, tok_ApplicationID = Some applicationUUID,
            tok_Scope = common_StringOrNil env ''offline_access'', tok_Token = None\<rparr> = (True, tkn)))) \<and>
   (NchainCreateWallet orgJwt p \<in> set (consumeOrganizationRegistrationMsg env msg) \<longrightarrow>
     (\<exists>params organizationID tkn.
        json_Unmarshal env (msg_Data msg) = Inr params \<and>
        asString (map_of params ''organization_id'') = Some organizationID \<and>
        tok_Token tkn = Some orgJwt \<and>
        token_Vend env 2
          \<lparr>tok_OrganizationID = Some (org_ID (db_FindOrganization env organizationID)),
           tok_ApplicationID = None, tok_Scope = None, tok_Token = None\<rparr> = (True, tkn)))"
proof (intro conjI impI)
  assume "e \<in> set (consumeOrganizationRegistrationMsg env msg) \<and> contractCallToken e = Some jwt"
  then have e: "e \<in> set (consumeOrganizationRegistrationMsg env msg)"
    and c: "contractCallToken e = Some jwt" by simp_all
  have "\<exists>l0 tkn others. snd (registrationResolved env msg) = Some l0 \<and> tok_Token tkn = Some jwt \<and>
     (db_FindTokens env (v_applicationID l0) = tkn # others \<or>
      db_FindTokens env (v_applicationID l0) = [] \<and>
      token_Vend env 1 (offlineAccessToken env (v_applicationUUID l0)) = (True, tkn))"
  proof (cases "e \<in> set (fst (registrationPrepared env msg))")
    case True
    from prepared_calls [OF this c] show ?thesis .
  next
    case False
    with registration_run [of env msg] e obtain l where
      l: "snd (registrationPrepared env msg) = Some l"
      and mem: "e \<in> set (fst (registrationExecute env l))" by auto
    from execute_calls [OF mem c] have jwt: "jwt = v_jwtToken l" .
    from prepared_frame [OF l] obtain ll where ll: "snd (registrationListed env msg) = Some ll"
      and "v_jwtToken l = v_jwtToken ll" by auto
    with listed_jwt [OF ll] jwt show ?thesis by simp
  qed
  then obtain l0 tkn others where "snd (registrationResolved env msg) = Some l0"
    "tok_Token tkn = Some jwt"
    "db_FindTokens env (v_applicationID l0) = tkn # others \<or>
      db_FindTokens env (v_applicationID l0) = [] \<and>
      token_Vend env 1 (offlineAccessToken env (v_applicationUUID l0)) = (True, tkn)" by blast
  from tokens_stage_source [OF this(1,3,2)]
  show "\<exists>params applicationID applicationUUID tkn others.
        json_Unmarshal env (msg_Data msg) = Inr params \<and>
        asString (map_of params ''application_id'') = Some applicationID \<and>
        uuid_FromString env applicationID = Inr applicationUUID \<and>
        tok_Token tkn = Some jwt \<and>
        (db_FindTokens env applicationID = tkn # others \<or>
         db_FindTokens env applicationID = [] \<and>
         token_Vend env 1
           \<lparr>tok_OrganizationID = None, tok_ApplicationID = Some applicationUUID,
            tok_Scope = common_StringOrNil env ''offline_access'', tok_Token = None\<rparr> = (True, tkn))"
    unfolding offlineAccessToken_def .
next
  assume w: "NchainCreateWallet orgJwt p \<in> set (consumeOrganizationRegistrationMsg env msg)"
  with registration_run [of env msg] execute_no_wallet [of orgJwt p env]
  have "NchainCreateWallet orgJwt p \<in> set (fst (registrationPrepared env msg))" by auto
  from prepared_wallet_calls [OF this] obtain ll where
    ll: "snd (registrationListed env msg) = Some ll"
    and mem: "NchainCreateWallet orgJwt p \<in> set (fst (registrationWallet env ll))" by blast
  from wallet_calls [OF mem] obtain tkn where
    tkn: "token_Vend env 2 (orgTokenFor (org_ID (v_organization ll))) = (True, tkn)"
      "tok_Token tkn = Some orgJwt" by blast
  from listed_frame [OF ll] obtain l0 where l0: "snd (registrationResolved env msg) = Some l0"
    and org: "v_organization ll = v_organization l0" by auto
  from resolved_frame [OF l0] obtain params where
    "json_Unmarshal env (msg_Data msg) = Inr params"
    "asString (map_of params ''organization_id'') = Some (v_organizationID l0)"
    "v_organization l0 = db_FindOrganization env (v_organizationID l0)" by blast
  with tkn org
  show "\<exists>params organizationID tkn.
        json_Unmarshal env (msg_Data msg) = Inr params \<and>
        asString (map_of params ''organization_id'') = Some organizationID \<and>
        tok_Token tkn = Some orgJwt \<and>
        token_Vend env 2
          \<lparr>tok_OrganizationID = Some (org_ID (db_FindOrganization env organizationID)),
           tok_ApplicationID = None, tok_Scope = None, tok_Token = None\<rparr> = (True, tkn)"
    unfolding orgTokenFor_def by auto
qed


theorem registration_contract_calls_use_application_token_witness:
  "NchainListContracts ''legacy-jwt'' \<in> set (consumeOrganizationRegistrationMsg persistedTokenEnv (msgOf ''register org-1 app-1'')) \<and>
   contractCallToken (NchainListContracts ''legacy-jwt'') = Some ''legacy-jwt'' \<and>
   (\<exists>params applicationID applicationUUID tkn others.
     json_Unmarshal persistedTokenEnv (msg_Data (msgOf ''register org-1 app-1'')) = Inr params \<and>
     asString (map_of params ''application_id'') = Some applicationID \<and>
     uuid_FromString persistedTokenEnv applicationID = Inr applicationUUID \<and>
     tok_Token tkn = Some ''legacy-jwt'' \<and>
     (db_FindTokens persistedTokenEnv applicationID = tkn # others \<or>
      db_FindTokens persistedTokenEnv applicationID = [] \<and>
      token_Vend persistedTokenEnv 1
        \<lparr>tok_OrganizationID = None, tok_ApplicationID = Some applicationUUID,
         tok_Scope = common_StringOrNil persistedTokenEnv ''offline_access'', tok_Token = None\<rparr> = (True, tkn))) \<and>
   NchainListContracts ''app-jwt'' \<in> set (consumeOrganizationRegistrationMsg okEnv (msgOf ''register org-1 app-1'')) \<and>
   contractCallToken (NchainListContracts ''app-jwt'') = Some ''app-jwt'' \<and>
   (\<exists>params applicationID applicationUUID tkn others.
     json_Unmarshal okEnv (msg_Data (msgOf ''register org-1 app-1'')) = Inr params \<and>
     asString (map_of params ''application_id'') = Some applicationID \<and>
     uuid_FromString okEnv applicationID = Inr applicationUUID \<and>
     tok_Token tkn = Some ''app-jwt'' \<and>
     (db_FindTokens okEnv applicationID = tkn # others \<or>
      db_FindTokens okEnv applicationID = [] \<and>
      token_Vend okEnv 1
        \<lparr>tok_OrganizationID = None, tok_ApplicationID = Some applicationUUID,
         tok_Scope = common_StringOrNil okEnv ''offline_access'', tok_Token = None\<rparr> = (True, tkn))) \<and>
   TokenVend 1
       \<lparr>tok_OrganizationID = None, tok_ApplicationID = Some 100,
        tok_Scope = Some ''offline_access'', tok_Token = None\<rparr> \<in> set (consumeOrganizationRegistrationMsg okEnv (msgOf ''register org-1 app-1'')) \<and>
   NchainCreateWallet ''org-jwt'' [(''purpose'', JNumber ''44'')] \<in> set (consumeOrganizationRegistrationMsg okEnv (msgOf ''register org-1 app-1'')) \<and>
   (\<exists>params organizationID tkn.
     json_Unmarshal okEnv (msg_Data (msgOf ''register org-1 app-1'')) = Inr params \<and>
     asString (map_of params ''organization_id'') = Some organizationID \<and>
     tok_Token tkn = Some ''org-jwt'' \<and>
     token_Vend okEnv 2
       \<lparr>tok_OrganizationID = Some (org_ID (db_FindOrganization okEnv organizationID)),
        tok_ApplicationID = None, tok_Scope = None, tok_Token = None\<rparr> = (True, tkn))"
proof -
  have p1: "NchainListContracts ''legacy-jwt'' \<in> set (consumeOrganizationRegistrationMsg persistedTokenEnv (msgOf ''register org-1 app-1''))"
    by (simp add: reg_defs env_defs persistedTokenEnv_def persistedToken_def)
  have p2: "contractCallToken (NchainListContracts ''legacy-jwt'') = Some ''legacy-jwt''"
    by simp
  have o1: "NchainListContracts ''app-jwt'' \<in> set (consumeOrganizationRegistrationMsg okEnv (msgOf ''register org-1 app-1''))"
    by (simp add: reg_defs env_defs)
  have o2: "contractCallToken (NchainListContracts ''app-jwt'') = Some ''app-jwt''"
    by simp
  have o3: "TokenVend 1
       \<lparr>tok_OrganizationID = None, tok_ApplicationID = Some 100,
        tok_Scope = Some ''offline_access'', tok_Token = None\<rparr> \<in> set (consumeOrganizationRegistrationMsg okEnv (msgOf ''register org-1 app-1''))"
    by (simp add: reg_defs env_defs)
  have o4: "NchainCreateWallet ''org-jwt'' [(''purpose'', JNumber ''44'')] \<in> set (consumeOrganizationRegistrationMsg okEnv (msgOf ''register org-1 app-1''))"
    by (simp add: reg_defs env_defs)
  from registration_contract_calls_use_application_token
         [where e = "NchainListContracts ''legacy-jwt''" and jwt = "''legacy-jwt''"
            and env = persistedTokenEnv and msg = "msgOf ''register org-1 app-1''"] p1 p2
  have a: "(\<exists>params applicationID applicationUUID tkn others.
     json_Unmarshal persistedTokenEnv (msg_Data (msgOf ''register org-1 app-1'')) = Inr params \<and>
     asString (map_of params ''application_id'') = Some applicationID \<and>
     uuid_FromString persistedTokenEnv applicationID = Inr applicationUUID \<and>
     tok_Token tkn = Some ''legacy-jwt'' \<and>
     (db_FindTokens persistedTokenEnv applicationID = tkn # others \<or>
      db_FindTokens persistedTokenEnv applicationID = [] \<and>
      token_Vend persistedTokenEnv 1
        \<lparr>tok_OrganizationID = None, tok_ApplicationID = Some applicationUUID,
         tok_Scope = common_StringOrNil persistedTokenEnv ''offline_access'', tok_Token = None\<rparr> = (True, tkn)))" by blast
  from registration_contract_calls_use_application_token
         [where e = "NchainListContracts ''app-jwt''" and jwt = "''app-jwt''"
            and env = okEnv and msg = "msgOf ''register org-1 app-1''"
            and orgJwt = "''org-jwt''" and p = "[(''purpose'', JNumber ''44'')]"] o1 o2 o4
  have b: "(\<exists>params applicationID applicationUUID tkn others.
     json_Unmarshal okEnv (msg_Data (msgOf ''register org-1 app-1'')) = Inr params \<and>
     asString (map_of params ''application_id'') = Some applicationID \<and>
     uuid_FromString okEnv applicationID = Inr applicationUUID \<and>
     tok_Token tkn = Some ''app-jwt'' \<and>
     (db_FindTokens okEnv applicationID = tkn # others \<or>
      db_FindTokens okEnv applicationID = [] \<and>
      token_Vend okEnv 1
        \<lparr>tok_OrganizationID = None, tok_ApplicationID = Some applicationUUID,
         tok_Scope = common_StringOrNil okEnv ''offline_access'', tok_Token = None\<rparr> = (True, tkn)))"
    and c: "(\<exists>params organizationID tkn.
     json_Unmarshal okEnv (msg_Data (msgOf ''register org-1 app-1'')) = Inr params \<and>
     asString (map_of params ''organization_id'') = Some organizationID \<and>
     tok_Token tkn = Some ''org-jwt'' \<and>
     token_Vend okEnv 2
       \<lparr>tok_OrganizationID = Some (org_ID (db_FindOrganization okEnv organizationID)),
        tok_ApplicationID = None, tok_Scope = None, tok_Token = None\<rparr> = (True, tkn))" by blast+
  from p1 p2 a o1 o2 b o3 o4 c show ?thesis by (intro conjI)
qed

subsection \<open>The contract execution call\<close>

lemma registry_types_differ: "contractTypeERC1820Registry \<noteq> contractTypeOrgRegistry"
  by (simp add: contractTypeERC1820Registry_def contractTypeOrgRegistry_def)

text \<open>The loop when every lookup succeeds: one event per contract, and the fold of the switch.\<close>

lemma classify_all:
  "map (\<lambda>c. nchain_GetContractDetails env (v_jwtToken l) (uuid_String env (contract_ID c))) cs =
     map Inr resps \<Longrightarrow>
   registrationClassify env cs l =
     (map (\<lambda>c. NchainGetContractDetails (v_jwtToken l) (uuid_String env (contract_ID c))) cs,
      Some (foldl (\<lambda>l resp. classifyContract env resp l) l resps))"
proof (induction cs arbitrary: l resps)
  case Nil
  then show ?case by (simp add: proceed_def)
next
  case (Cons c cs)
  from Cons.prems obtain resp rest where resps: "resps = resp # rest"
    and d: "nchain_GetContractDetails env (v_jwtToken l) (uuid_String env (contract_ID c)) = Inr resp"
    and ds: "map (\<lambda>c. nchain_GetContractDetails env (v_jwtToken l) (uuid_String env (contract_ID c))) cs =
       map Inr rest"
    by (cases resps) auto
  from ds have "map (\<lambda>c. nchain_GetContractDetails env (v_jwtToken (classifyContract env resp l))
       (uuid_String env (contract_ID c))) cs = map Inr rest"
    by (simp add: classifyContract_jwt)
  from Cons.IH [OF this] d resps show ?case
    by (simp add: emit_def classifyContract_jwt)
qed

lemma fold_frame:
  "\<exists>a b c d. foldl (\<lambda>l resp. classifyContract env resp l) l resps =
     l\<lparr>v_erc1820RegistryContractID := a, v_orgRegistryContractID := b,
       v_erc1820RegistryContractAddress := c, v_orgRegistryContractAddress := d\<rparr>"
proof (induction resps arbitrary: l)
  case Nil
  have "l = l\<lparr>v_erc1820RegistryContractID := v_erc1820RegistryContractID l,
       v_orgRegistryContractID := v_orgRegistryContractID l,
       v_erc1820RegistryContractAddress := v_erc1820RegistryContractAddress l,
       v_orgRegistryContractAddress := v_orgRegistryContractAddress l\<rparr>" by simp
  then show ?case by (simp only: foldl_Nil) blast
next
  case (Cons resp rest)
  from Cons.IH [of "classifyContract env resp l"] obtain a b c d where
    f: "foldl (\<lambda>l resp. classifyContract env resp l) (classifyContract env resp l) rest =
     (classifyContract env resp l)\<lparr>v_erc1820RegistryContractID := a, v_orgRegistryContractID := b,
       v_erc1820RegistryContractAddress := c, v_orgRegistryContractAddress := d\<rparr>" by blast
  from classifyContract_frame [of env resp l] obtain a' b' c' d' where
    "classifyContract env resp l = l\<lparr>v_erc1820RegistryContractID := a', v_orgRegistryContractID := b',
       v_erc1820RegistryContractAddress := c', v_orgRegistryContractAddress := d'\<rparr>" by blast
  with f have "foldl (\<lambda>l resp. classifyContract env resp l) l (resp # rest) =
     l\<lparr>v_erc1820RegistryContractID := a, v_orgRegistryContractID := b,
       v_erc1820RegistryContractAddress := c, v_orgRegistryContractAddress := d\<rparr>" by simp
  then show ?case by blast
qed

lemma fold_no_org:
  "filter (\<lambda>r. contract_Type r = Some contractTypeOrgRegistry) resps = [] \<Longrightarrow>
   v_orgRegistryContractID (foldl (\<lambda>l resp. classifyContract env resp l) l resps) = v_orgRegistryContractID l \<and>
   v_orgRegistryContractAddress (foldl (\<lambda>l resp. classifyContract env resp l) l resps) = v_orgRegistryContractAddress l"
  by (induction resps arbitrary: l)
     (auto simp: classifyContract_def split: option.splits if_splits)

lemma fold_no_erc:
  "filter (\<lambda>r. contract_Type r = Some contractTypeERC1820Registry) resps = [] \<Longrightarrow>
   v_erc1820RegistryContractID (foldl (\<lambda>l resp. classifyContract env resp l) l resps) = v_erc1820RegistryContractID l \<and>
   v_erc1820RegistryContractAddress (foldl (\<lambda>l resp. classifyContract env resp l) l resps) = v_erc1820RegistryContractAddress l"
  by (induction resps arbitrary: l)
     (auto simp: classifyContract_def split: option.splits if_splits)

lemma fold_one_org:
  "filter (\<lambda>r. contract_Type r = Some contractTypeOrgRegistry) resps = [r] \<Longrightarrow>
   v_orgRegistryContractID (foldl (\<lambda>l resp. classifyContract env resp l) l resps) =
     common_StringOrNil env (uuid_String env (contract_ID r)) \<and>
   v_orgRegistryContractAddress (foldl (\<lambda>l resp. classifyContract env resp l) l resps) = contract_Address r"
proof (induction resps arbitrary: l)
  case Nil
  then show ?case by simp
next
  case (Cons x xs)
  show ?case
  proof (cases "contract_Type x = Some contractTypeOrgRegistry")
    case True
    with Cons.prems have "x = r" "filter (\<lambda>r. contract_Type r = Some contractTypeOrgRegistry) xs = []"
      by simp_all
    with fold_no_org [OF this(2), of env "classifyContract env x l"] True registry_types_differ
    show ?thesis by (simp add: classifyContract_def)
  next
    case False
    with Cons.prems have "filter (\<lambda>r. contract_Type r = Some contractTypeOrgRegistry) xs = [r]" by simp
    from Cons.IH [OF this, of "classifyContract env x l"] show ?thesis by simp
  qed
qed

lemma fold_one_erc:
  "filter (\<lambda>r. contract_Type r = Some contractTypeERC1820Registry) resps = [r] \<Longrightarrow>
   v_erc1820RegistryContractID (foldl (\<lambda>l resp. classifyContract env resp l) l resps) =
     common_StringOrNil env (uuid_String env (contract_ID r)) \<and>
   v_erc1820RegistryContractAddress (foldl (\<lambda>l resp. classifyContract env resp l) l resps) = contract_Address r"
proof (induction resps arbitrary: l)
  case Nil
  then show ?case by simp
next
  case (Cons x xs)
  show ?case
  proof (cases "contract_Type x = Some contractTypeERC1820Registry")
    case True
    with Cons.prems have "x = r" "filter (\<lambda>r. contract_Type r = Some contractTypeERC1820Registry) xs = []"
      by simp_all
    with fold_no_erc [OF this(2), of env "classifyContract env x l"] True
    show ?thesis by (simp add: classifyContract_def)
  next
    case False
    with Cons.prems have "filter (\<lambda>r. contract_Type r = Some contractTypeERC1820Registry) xs = [r]" by simp
    from Cons.IH [OF this, of "classifyContract env x l"] show ?thesis by simp
  qed
qed


lemma filter_none: "\<not> list_ex P xs \<Longrightarrow> filter P xs = []"
  by (induction xs) auto

text \<open>
  C7. Let steps 1 to 4 and the listing of the contracts have gone through, with the
  address, name, domain, messaging endpoint and zero-knowledge public key resolved, let
  the token be minted and the wallet provisioned, and let the lookup of every listed
  contract succeed, with exactly one contract of type \<open>erc1820-registry\<close> and exactly one
  of type \<open>organization-registry\<close> among them, each with an id and an address. Then the
  run makes exactly one contract-execution call, on the organization registry, with the
  method \<open>registerOrg\<close>, or \<open>updateOrg\<close> when the event carries \<open>update_registry = true\<close>,
  and the argument list (address, name, domain, messaging endpoint, zero-knowledge
  public key, "{}").
\<close>

theorem registration_executes_register_or_update:
  assumes listed: "registrationListed env msg = (es, Some l)"
    and params: "json_Unmarshal env (msg_Data msg) = Inr params"
    and wallet: "registrationWallet env l = (ws, Some lw)"
    and details: "map (\<lambda>c. nchain_GetContractDetails env (v_jwtToken l) (uuid_String env (contract_ID c)))
                    (v_contracts l) = map Inr resps"
    and erc: "filter (\<lambda>r. contract_Type r = Some contractTypeERC1820Registry) resps = [erc1820Registry]"
      "common_StringOrNil env (uuid_String env (contract_ID erc1820Registry)) \<noteq> None"
      "contract_Address erc1820Registry \<noteq> None"
    and org: "filter (\<lambda>r. contract_Type r = Some contractTypeOrgRegistry) resps = [orgRegistry]"
      "common_StringOrNil env (uuid_String env (contract_ID orgRegistry)) = Some orgRegistryContractID"
      "contract_Address orgRegistry \<noteq> None"
    and vals: "v_orgAddress l = Some address" "org_Name (v_organization l) = Some name"
      "v_orgDomain l = Some domain" "v_orgMessagingEndpoint l = Some messagingEndpoint"
      "v_orgZeroKnowledgePublicKey l = Some zkPublicKey"
  shows "filter isExecuteContract (consumeOrganizationRegistrationMsg env msg) =
     [NchainExecuteContract (v_jwtToken l) orgRegistryContractID
        [(''wallet_id'', jptr (v_orgWalletID lw)),
         (''method'', JString (if asBool (map_of params ''update_registry'') = Some True
                               then ''updateOrg'' else ''registerOrg'')),
         (''params'', JArray [JString address, JString name, JString domain,
                              JString messagingEndpoint, JString zkPublicKey, JString ''{}'']),
         (''value'', JNumber ''0'')]]"
proof -
  let ?events = "map (\<lambda>c. NchainGetContractDetails (v_jwtToken l) (uuid_String env (contract_ID c)))
                   (v_contracts l)"
  let ?lc = "foldl (\<lambda>l resp. classifyContract env resp l) lw resps"
  from wallet have "snd (registrationWallet env l) = Some lw" by simp
  from wallet_frame [OF this] obtain w where lw: "lw = l\<lparr>v_orgWalletID := Some w\<rparr>" by blast
  have upd: "v_updateRegistry l = (asBool (map_of params ''update_registry'') = Some True)"
  proof -
    from listed have "snd (registrationListed env msg) = Some l" by simp
    from listed_frame [OF this] obtain l0 tkn others jwt contracts where
      l0: "snd (registrationResolved env msg) = Some l0"
      and "l = l0\<lparr>v_tokens := tkn # others, v_jwtToken := jwt, v_contracts := contracts\<rparr>" by blast
    then have "v_updateRegistry l = v_updateRegistry l0" by simp
    with resolved_frame [OF l0] params show ?thesis by auto
  qed
  from details lw have "map (\<lambda>c. nchain_GetContractDetails env (v_jwtToken lw)
      (uuid_String env (contract_ID c))) (v_contracts lw) = map Inr resps" by simp
  from classify_all [OF this] lw
  have cl: "registrationClassify env (v_contracts lw) lw = (?events, Some ?lc)" by simp
  from fold_frame [of env lw resps] obtain a b c d where
    frame: "?lc = lw\<lparr>v_erc1820RegistryContractID := a, v_orgRegistryContractID := b,
       v_erc1820RegistryContractAddress := c, v_orgRegistryContractAddress := d\<rparr>" by blast
  from fold_one_erc [OF erc(1), of env lw] erc(2,3)
  obtain erc1820RegistryContractID erc1820RegistryContractAddress where
    e: "v_erc1820RegistryContractID ?lc = Some erc1820RegistryContractID"
       "v_erc1820RegistryContractAddress ?lc = Some erc1820RegistryContractAddress"
    by auto
  from fold_one_org [OF org(1), of env lw] org(2,3) obtain orgRegistryContractAddress where
    r: "v_orgRegistryContractID ?lc = Some orgRegistryContractID"
       "v_orgRegistryContractAddress ?lc = Some orgRegistryContractAddress"
    by auto
  have kept_lw: "v_orgWalletID ?lc = v_orgWalletID lw" "v_jwtToken ?lc = v_jwtToken lw"
    "v_organizationID ?lc = v_organizationID lw" "v_organization ?lc = v_organization lw"
    "v_updateRegistry ?lc = v_updateRegistry lw" "v_orgAddress ?lc = v_orgAddress lw"
    "v_orgDomain ?lc = v_orgDomain lw" "v_orgMessagingEndpoint ?lc = v_orgMessagingEndpoint lw"
    "v_orgZeroKnowledgePublicKey ?lc = v_orgZeroKnowledgePublicKey lw"
    "v_updateOrgMetadata ?lc = v_updateOrgMetadata lw" "v_metadata ?lc = v_metadata lw"
    by (simp_all add: frame)
  have lw_l: "v_orgWalletID lw = Some w" "v_jwtToken lw = v_jwtToken l"
    "v_organizationID lw = v_organizationID l" "v_organization lw = v_organization l"
    "v_updateRegistry lw = v_updateRegistry l" "v_orgAddress lw = v_orgAddress l"
    "v_orgDomain lw = v_orgDomain l" "v_orgMessagingEndpoint lw = v_orgMessagingEndpoint l"
    "v_orgZeroKnowledgePublicKey lw = v_orgZeroKnowledgePublicKey l"
    by (simp_all add: lw)
  note kept = kept_lw(1-9) [unfolded lw_l]
  from e r kept(1) have reg: "registrationRegistries ?lc = ([], Some ?lc)"
    by (simp add: registrationRegistries_def proceed_def)
  from listed wallet cl reg
  have prep: "registrationPrepared env msg = (es @ ws @ ?events, Some ?lc)"
    by (simp add: registrationPrepared_def andThen_def)
  then have t: "consumeOrganizationRegistrationMsg env msg =
      (es @ ws @ ?events) @ fst (registrationExecute env ?lc)"
    by (simp add: consumeOrganizationRegistrationMsg_def andThen_def)
  from prepared_events [of env msg] prep
  have before: "filter isExecuteContract (es @ ws @ ?events) = []"
    by (simp add: filter_none)
  have ex: "filter isExecuteContract (fst (registrationExecute env ?lc)) =
     [NchainExecuteContract (v_jwtToken l) orgRegistryContractID
        [(''wallet_id'', jptr (v_orgWalletID lw)),
         (''method'', JString (if asBool (map_of params ''update_registry'') = Some True
                               then ''updateOrg'' else ''registerOrg'')),
         (''params'', JArray [JString address, JString name, JString domain,
                              JString messagingEndpoint, JString zkPublicKey, JString ''{}'']),
         (''value'', JNumber ''0'')]]"
    unfolding registrationExecute_def r kept vals upd lw_l(1)
    by (simp add: emit_def stop_def executeParams_def jptr_def Let_def
        organizationRegistrationMethod_def organizationUpdateRegistrationMethod_def
        split: sum.splits)
  from t before ex show ?thesis by (simp only: filter_append append_Nil)
qed

theorem registration_executes_register_or_update_witness:
  "filter isExecuteContract
     (consumeOrganizationRegistrationMsg okEnv (msgOf ''register org-1 app-1'')) =
     [NchainExecuteContract ''app-jwt'' ''contract-31''
        [(''wallet_id'', JString ''wallet-40''),
         (''method'', JString ''registerOrg''),
         (''params'', JArray [JString ''0xacme'', JString ''Acme'', JString ''acme.example'',
                              JString ''nats://acme'', JString ''c0ffee'', JString ''{}'']),
         (''value'', JNumber ''0'')]] \<and>
   filter isExecuteContract
     (consumeOrganizationRegistrationMsg okEnv (msgOf ''update org-1 app-1'')) =
     [NchainExecuteContract ''app-jwt'' ''contract-31''
        [(''wallet_id'', JString ''wallet-40''),
         (''method'', JString ''updateOrg''),
         (''params'', JArray [JString ''0xacme'', JString ''Acme'', JString ''acme.example'',
                              JString ''nats://acme'', JString ''c0ffee'', JString ''{}'']),
         (''value'', JNumber ''0'')]]"
proof -
  have erc: "filter (\<lambda>r. contract_Type r = Some contractTypeERC1820Registry)
       [okErc1820Registry, okOrgRegistry] = [okErc1820Registry]"
    "common_StringOrNil okEnv (uuid_String okEnv (contract_ID okErc1820Registry)) \<noteq> None"
    "contract_Address okErc1820Registry \<noteq> None"
    by (simp_all add: okEnv_def okUuidString_def okErc1820Registry_def okOrgRegistry_def
        contractTypeERC1820Registry_def)
  have org: "filter (\<lambda>r. contract_Type r = Some contractTypeOrgRegistry)
       [okErc1820Registry, okOrgRegistry] = [okOrgRegistry]"
    "common_StringOrNil okEnv (uuid_String okEnv (contract_ID okOrgRegistry)) = Some ''contract-31''"
    "contract_Address okOrgRegistry \<noteq> None"
    by (simp_all add: okEnv_def okUuidString_def okErc1820Registry_def okOrgRegistry_def
        contractTypeOrgRegistry_def)
  have "\<exists>es l. registrationListed okEnv (msgOf ''register org-1 app-1'') = (es, Some l) \<and>
      v_jwtToken l = ''app-jwt'' \<and> v_contracts l = okContracts \<and>
      v_orgAddress l = Some ''0xacme'' \<and> org_Name (v_organization l) = Some ''Acme'' \<and>
      v_orgDomain l = Some ''acme.example'' \<and> v_orgMessagingEndpoint l = Some ''nats://acme'' \<and>
      v_orgZeroKnowledgePublicKey l = Some ''c0ffee'' \<and>
      (\<exists>ws lw. registrationWallet okEnv l = (ws, Some lw) \<and> v_orgWalletID lw = Some ''wallet-40'')"
    by (simp add: registrationListed_def registrationRequire_def registrationTokens_def
        registrationContracts_def registrationWallet_def offlineAccessToken_def resolved_defs
        env_defs okContracts_def)
  then obtain es l ws lw where reg: "registrationListed okEnv (msgOf ''register org-1 app-1'') = (es, Some l)"
      "v_jwtToken l = ''app-jwt''" "v_contracts l = okContracts"
      "v_orgAddress l = Some ''0xacme''" "org_Name (v_organization l) = Some ''Acme''"
      "v_orgDomain l = Some ''acme.example''" "v_orgMessagingEndpoint l = Some ''nats://acme''"
      "v_orgZeroKnowledgePublicKey l = Some ''c0ffee''"
      "registrationWallet okEnv l = (ws, Some lw)" "v_orgWalletID lw = Some ''wallet-40''"
    by blast
  have reg_params: "json_Unmarshal okEnv (msg_Data (msgOf ''register org-1 app-1'')) =
      Inr [(''organization_id'', JString ''org-1''), (''application_id'', JString ''app-1'')]"
    by (simp add: okEnv_def okUnmarshal_def msgOf_def)
  from reg(2,3) have reg_details:
    "map (\<lambda>c. nchain_GetContractDetails okEnv (v_jwtToken l) (uuid_String okEnv (contract_ID c)))
       (v_contracts l) = map Inr [okErc1820Registry, okOrgRegistry]"
    by (simp add: okEnv_def okUuidString_def okContracts_def okErc1820Registry_def okOrgRegistry_def)
  from registration_executes_register_or_update
         [OF reg(1) reg_params reg(9) reg_details erc(1) erc(2) erc(3) org(1) org(2) org(3)
             reg(4) reg(5) reg(6) reg(7) reg(8)] reg(2,10)
  have reg_call: "filter isExecuteContract (consumeOrganizationRegistrationMsg okEnv (msgOf ''register org-1 app-1'')) =
     [NchainExecuteContract ''app-jwt'' ''contract-31''
        [(''wallet_id'', JString ''wallet-40''),
         (''method'', JString ''registerOrg''),
         (''params'', JArray [JString ''0xacme'', JString ''Acme'', JString ''acme.example'',
                              JString ''nats://acme'', JString ''c0ffee'', JString ''{}'']),
         (''value'', JNumber ''0'')]]"
    by (simp add: asBool_def jptr_def)
  have "\<exists>es l. registrationListed okEnv (msgOf ''update org-1 app-1'') = (es, Some l) \<and>
      v_jwtToken l = ''app-jwt'' \<and> v_contracts l = okContracts \<and>
      v_orgAddress l = Some ''0xacme'' \<and> org_Name (v_organization l) = Some ''Acme'' \<and>
      v_orgDomain l = Some ''acme.example'' \<and> v_orgMessagingEndpoint l = Some ''nats://acme'' \<and>
      v_orgZeroKnowledgePublicKey l = Some ''c0ffee'' \<and>
      (\<exists>ws lw. registrationWallet okEnv l = (ws, Some lw) \<and> v_orgWalletID lw = Some ''wallet-40'')"
    by (simp add: registrationListed_def registrationRequire_def registrationTokens_def
        registrationContracts_def registrationWallet_def offlineAccessToken_def resolved_defs
        env_defs okContracts_def)
  then obtain es l ws lw where upd: "registrationListed okEnv (msgOf ''update org-1 app-1'') = (es, Some l)"
      "v_jwtToken l = ''app-jwt''" "v_contracts l = okContracts"
      "v_orgAddress l = Some ''0xacme''" "org_Name (v_organization l) = Some ''Acme''"
      "v_orgDomain l = Some ''acme.example''" "v_orgMessagingEndpoint l = Some ''nats://acme''"
      "v_orgZeroKnowledgePublicKey l = Some ''c0ffee''"
      "registrationWallet okEnv l = (ws, Some lw)" "v_orgWalletID lw = Some ''wallet-40''"
    by blast
  have upd_params: "json_Unmarshal okEnv (msg_Data (msgOf ''update org-1 app-1'')) =
      Inr [(''organization_id'', JString ''org-1''), (''application_id'', JString ''app-1''), (''update_registry'', JBool True)]"
    by (simp add: okEnv_def okUnmarshal_def msgOf_def)
  from upd(2,3) have upd_details:
    "map (\<lambda>c. nchain_GetContractDetails okEnv (v_jwtToken l) (uuid_String okEnv (contract_ID c)))
       (v_contracts l) = map Inr [okErc1820Registry, okOrgRegistry]"
    by (simp add: okEnv_def okUuidString_def okContracts_def okErc1820Registry_def okOrgRegistry_def)
  from registration_executes_register_or_update
         [OF upd(1) upd_params upd(9) upd_details erc(1) erc(2) erc(3) org(1) org(2) org(3)
             upd(4) upd(5) upd(6) upd(7) upd(8)] upd(2,10)
  have upd_call: "filter isExecuteContract (consumeOrganizationRegistrationMsg okEnv (msgOf ''update org-1 app-1'')) =
     [NchainExecuteContract ''app-jwt'' ''contract-31''
        [(''wallet_id'', JString ''wallet-40''),
         (''method'', JString ''updateOrg''),
         (''params'', JArray [JString ''0xacme'', JString ''Acme'', JString ''acme.example'',
                              JString ''nats://acme'', JString ''c0ffee'', JString ''{}'']),
         (''value'', JNumber ''0'')]]"
    by (simp add: asBool_def jptr_def)
  from reg_call upd_call show ?thesis by blast
qed

section \<open>Onboarding Trigger\<close>

lemma associated_after_insert:
  "filter (\<lambda>organization. org_ID organization \<noteq> d)
     (associatedOrganizations
        (db\<lparr>db_applications_organizations := db_applications_organizations db @ [(appID, d, permissions)]\<rparr>)
        appID) =
   filter (\<lambda>organization. org_ID organization \<noteq> d) (associatedOrganizations db appID)"
proof -
  have "filter (\<lambda>organization. org_ID organization \<noteq> d)
     (concat (map (\<lambda>organization. map (\<lambda>ao. organization)
         (filter (\<lambda>ao. fst (snd ao) = org_ID organization \<and> fst ao = appID)
            (aos @ [(appID, d, permissions)]))) orgs)) =
   filter (\<lambda>organization. org_ID organization \<noteq> d)
     (concat (map (\<lambda>organization. map (\<lambda>ao. organization)
         (filter (\<lambda>ao. fst (snd ao) = org_ID organization \<and> fst ao = appID) aos)) orgs))"
    for aos :: "(uuid \<times> uuid \<times> 32 word) list" and orgs
    by (induction orgs) auto
  then show ?thesis by (simp add: associatedOrganizations_def)
qed

lemma mset_concat_map_ids:
  "mset (concat (map (\<lambda>organization. g (org_ID organization)) xs)) =
   (\<Sum>i \<in># image_mset org_ID (mset xs). mset (g i))"
  by (induction xs) simp_all

text \<open>
  C6. Let the application be baselined (its configuration parses to an object whose
  \<open>baselined\<close> is \<open>true\<close>) and associated with exactly the organizations \<open>a\<close>, \<open>b\<close> and
  \<open>c\<close>, and let a new organization be added to it, the \<open>INSERT\<close> reporting one row. Then
  \<open>addOrganization\<close> succeeds, publishes nothing itself, and the goroutines it starts
  publish exactly seven events. Six are on \<open>ident.organization.keys.exchange.init\<close>: for
  each of the three peers one whose \<open>organization_id\<close> is the new organization and whose
  \<open>peer_organization_id\<close> is the peer, and one with the two the other way round. One is
  on \<open>ident.organization.registration\<close>, with the application as \<open>application_id\<close> and
  the new organization as \<open>organization_id\<close>.
\<close>

theorem onboarding_trigger_fan_out:
  assumes order: "\<And>xs. mset (orderByNameDesc xs) = mset xs"
    and inserted: "rowsAffected = 1"
    and config: "app_Config app = Some raw" "json_Unmarshal env raw = Inr cfg" "\<not> jsonNull raw"
      "asBool (map_of cfg ''baselined'') = Some True"
    and associated: "mset (map org_ID (associatedOrganizations db (app_ID app))) = {#a, b, c#}"
    and new: "org_ID org \<notin> {a, b, c}"
  shows "case addOrganization env orderByNameDesc rowsAffected db app org permissions of
           (success, db', events, goroutines) \<Rightarrow>
             success \<and> \<not> list_ex isPublish events \<and>
             mset (filter isPublish (concat goroutines)) =
               {#NatsPublish ''ident.organization.keys.exchange.init''
                   [(''organization_id'', JString (uuid_String env (org_ID org))),
                    (''peer_organization_id'', JString (uuid_String env a))],
                 NatsPublish ''ident.organization.keys.exchange.init''
                   [(''organization_id'', JString (uuid_String env a)),
                    (''peer_organization_id'', JString (uuid_String env (org_ID org)))],
                 NatsPublish ''ident.organization.keys.exchange.init''
                   [(''organization_id'', JString (uuid_String env (org_ID org))),
                    (''peer_organization_id'', JString (uuid_String env b))],
                 NatsPublish ''ident.organization.keys.exchange.init''
                   [(''organization_id'', JString (uuid_String env b)),
                    (''peer_organization_id'', JString (uuid_String env (org_ID org)))],
                 NatsPublish ''ident.organization.keys.exchange.init''
                   [(''organization_id'', JString (uuid_String env (org_ID org))),
                    (''peer_organization_id'', JString (uuid_String env c))],
                 NatsPublish ''ident.organization.keys.exchange.init''
                   [(''organization_id'', JString (uuid_String env c)),
                    (''peer_organization_id'', JString (uuid_String env (org_ID org)))],
                 NatsPublish ''ident.organization.registration''
                   [(''application_id'', JString (uuid_String env (app_ID app))),
                    (''organization_id'', JString (uuid_String env (org_ID org)))]#} \<and>
             length (filter (isPublishOn ''ident.organization.keys.exchange.init'') (concat goroutines)) = 6 \<and>
             length (filter (isPublishOn ''ident.organization.registration'') (concat goroutines)) = 1"
proof -
  let ?d = "org_ID org"
  let ?db' = "db\<lparr>db_applications_organizations :=
                 db_applications_organizations db @ [(app_ID app, ?d, permissions)]\<rparr>"
  let ?pair = "\<lambda>i. [NatsPublish natsOrganizationImplicitKeyExchangeInitSubject (exchangeInitPayload env ?d i),
                    NatsPublish natsOrganizationImplicitKeyExchangeInitSubject (exchangeInitPayload env i ?d)]"
  let ?peers = "peerOrganizations orderByNameDesc ?db' (app_ID app) ?d"
  let ?reg = "NatsPublish natsOrganizationRegistrationSubject (registrationPayload env (app_ID app) ?d)"
  have ids: "image_mset org_ID (mset ?peers) = {#a, b, c#}"
  proof -
    have "image_mset org_ID (mset ?peers) =
        image_mset org_ID (mset (orderByNameDesc (filter (\<lambda>organization. org_ID organization \<noteq> ?d)
          (associatedOrganizations ?db' (app_ID app)))))"
      by (simp add: peerOrganizations_def)
    also have "\<dots> = image_mset org_ID (mset (filter (\<lambda>organization. org_ID organization \<noteq> ?d)
          (associatedOrganizations db (app_ID app))))"
      by (simp only: order associated_after_insert)
    also have "\<dots> = filter_mset (\<lambda>i. i \<noteq> ?d) (mset (map org_ID (associatedOrganizations db (app_ID app))))"
      by (simp add: filter_mset_image_mset)
    also from associated new have "\<dots> = {#a, b, c#}" by auto
    finally show ?thesis .
  qed
  have kx: "filter isPublish (initImplicitDiffieHellmanKeyExchange env orderByNameDesc ?db' app ?d) =
      concat (map (\<lambda>organization. ?pair (org_ID organization)) ?peers)"
    by (simp add: initImplicitDiffieHellmanKeyExchange_def filter_concat comp_def)
  have kx_mset: "mset (filter isPublish (initImplicitDiffieHellmanKeyExchange env orderByNameDesc ?db' app ?d)) =
      mset (?pair a) + mset (?pair b) + mset (?pair c)"
    using mset_concat_map_ids [of ?pair ?peers] by (simp add: kx ids ac_simps)
  have kx_on: "filter (isPublishOn natsOrganizationImplicitKeyExchangeInitSubject)
        (initImplicitDiffieHellmanKeyExchange env orderByNameDesc ?db' app ?d) =
      concat (map (\<lambda>organization. ?pair (org_ID organization)) ?peers)"
    by (simp add: initImplicitDiffieHellmanKeyExchange_def filter_concat comp_def)
  have kx_len: "length (filter (isPublishOn natsOrganizationImplicitKeyExchangeInitSubject)
        (initImplicitDiffieHellmanKeyExchange env orderByNameDesc ?db' app ?d)) = 6"
  proof -
    have "length (concat (map (\<lambda>organization. ?pair (org_ID organization)) ?peers)) =
        size (mset (concat (map (\<lambda>organization. ?pair (org_ID organization)) ?peers)))" by simp
    also have "\<dots> = 6" using mset_concat_map_ids [of ?pair ?peers] by (simp add: ids)
    finally show ?thesis unfolding kx_on .
  qed
  have kx_reg: "filter (isPublishOn natsOrganizationRegistrationSubject)
        (initImplicitDiffieHellmanKeyExchange env orderByNameDesc ?db' app ?d) = []"
    by (simp add: initImplicitDiffieHellmanKeyExchange_def filter_concat comp_def
        natsOrganizationImplicitKeyExchangeInitSubject_def natsOrganizationRegistrationSubject_def)
  have reg: "filter isPublish (initOrgRegistration env app ?d) = [?reg]"
    "filter (isPublishOn natsOrganizationRegistrationSubject) (initOrgRegistration env app ?d) = [?reg]"
    "filter (isPublishOn natsOrganizationImplicitKeyExchangeInitSubject) (initOrgRegistration env app ?d) = []"
    by (simp_all add: initOrgRegistration_def
        natsOrganizationImplicitKeyExchangeInitSubject_def natsOrganizationRegistrationSubject_def)
  from inserted config have run: "addOrganization env orderByNameDesc rowsAffected db app org permissions =
      (True, ?db',
       [Debugf ''adding organization %s to application: %s'' [U ?d, U (app_ID app)],
        DbExec ''INSERT INTO applications_organizations (application_id, organization_id, permissions) VALUES (?, ?, ?)''
          [U (app_ID app), U ?d, N (unat permissions)],
        Debugf ''added organization %s to application: %s'' [U ?d, U (app_ID app)],
        DbExec ''DELETE FROM applications_users WHERE applications_users.application_id=? AND applications_users.user_id IN (SELECT user_id FROM organizations_users WHERE organizations_users.organization_id=?)''
          [U (app_ID app), U ?d]],
       [initOrgRegistration env app ?d,
        initImplicitDiffieHellmanKeyExchange env orderByNameDesc ?db' app ?d])"
    by (simp add: addOrganization_def ParseConfig_def Let_def)
  let ?gs = "[initOrgRegistration env app ?d,
              initImplicitDiffieHellmanKeyExchange env orderByNameDesc ?db' app ?d]"
  have "mset (filter isPublish (concat ?gs)) =
      mset (filter isPublish (initOrgRegistration env app ?d)) +
      mset (filter isPublish (initImplicitDiffieHellmanKeyExchange env orderByNameDesc ?db' app ?d))"
    by simp
  also have "\<dots> = mset [?reg] + (mset (?pair a) + mset (?pair b) + mset (?pair c))"
    by (simp only: reg(1) kx_mset)
  also have "\<dots> = mset (?pair a) + mset (?pair b) + mset (?pair c) + {#?reg#}"
    by (simp add: ac_simps)
  finally have all: "mset (filter isPublish (concat ?gs)) =
      mset (?pair a) + mset (?pair b) + mset (?pair c) + {#?reg#}" .
  have "length (filter (isPublishOn natsOrganizationImplicitKeyExchangeInitSubject) (concat ?gs)) =
      length (filter (isPublishOn natsOrganizationImplicitKeyExchangeInitSubject)
                (initOrgRegistration env app ?d)) +
      length (filter (isPublishOn natsOrganizationImplicitKeyExchangeInitSubject)
                (initImplicitDiffieHellmanKeyExchange env orderByNameDesc ?db' app ?d))"
    by simp
  with reg(3) kx_len
  have six: "length (filter (isPublishOn natsOrganizationImplicitKeyExchangeInitSubject) (concat ?gs)) = 6"
    by simp
  have "filter (isPublishOn natsOrganizationRegistrationSubject) (concat ?gs) =
      filter (isPublishOn natsOrganizationRegistrationSubject) (initOrgRegistration env app ?d) @
      filter (isPublishOn natsOrganizationRegistrationSubject)
        (initImplicitDiffieHellmanKeyExchange env orderByNameDesc ?db' app ?d)"
    by simp
  with reg(2) kx_reg
  have one: "length (filter (isPublishOn natsOrganizationRegistrationSubject) (concat ?gs)) = 1"
    by simp
  from all six one
  have "success \<and> \<not> list_ex isPublish events \<and>
        mset (filter isPublish (concat goroutines)) =
          mset (?pair a) + mset (?pair b) + mset (?pair c) + {#?reg#} \<and>
        length (filter (isPublishOn natsOrganizationImplicitKeyExchangeInitSubject) (concat goroutines)) = 6 \<and>
        length (filter (isPublishOn natsOrganizationRegistrationSubject) (concat goroutines)) = 1"
    if "addOrganization env orderByNameDesc rowsAffected db app org permissions =
          (success, db', events, goroutines)" for success db' events goroutines
    using that unfolding run by auto
  then show ?thesis
    unfolding exchangeInitPayload_def registrationPayload_def
      natsOrganizationImplicitKeyExchangeInitSubject_def natsOrganizationRegistrationSubject_def
    by (auto simp: ac_simps split: prod.splits)
qed

theorem onboarding_trigger_fan_out_witness:
  "case addOrganization okEnv rev 1 okDb okApplication (organizationWithID 4) 0 of
     (success, db', events, goroutines) \<Rightarrow>
       success \<and> \<not> list_ex isPublish events \<and>
       mset (filter isPublish (concat goroutines)) =
         {#NatsPublish ''ident.organization.keys.exchange.init''
             [(''organization_id'', JString ''org-4''),
              (''peer_organization_id'', JString ''org-1'')],
           NatsPublish ''ident.organization.keys.exchange.init''
             [(''organization_id'', JString ''org-1''),
              (''peer_organization_id'', JString ''org-4'')],
           NatsPublish ''ident.organization.keys.exchange.init''
             [(''organization_id'', JString ''org-4''),
              (''peer_organization_id'', JString ''org-2'')],
           NatsPublish ''ident.organization.keys.exchange.init''
             [(''organization_id'', JString ''org-2''),
              (''peer_organization_id'', JString ''org-4'')],
           NatsPublish ''ident.organization.keys.exchange.init''
             [(''organization_id'', JString ''org-4''),
              (''peer_organization_id'', JString ''org-3'')],
           NatsPublish ''ident.organization.keys.exchange.init''
             [(''organization_id'', JString ''org-3''),
              (''peer_organization_id'', JString ''org-4'')],
           NatsPublish ''ident.organization.registration''
             [(''application_id'', JString ''app-1''), (''organization_id'', JString ''org-4'')]#} \<and>
       length (filter (isPublishOn ''ident.organization.keys.exchange.init'') (concat goroutines)) = 6 \<and>
       length (filter (isPublishOn ''ident.organization.registration'') (concat goroutines)) = 1"
proof -
  have order: "mset (rev xs) = mset xs" for xs :: "Organization list" by simp
  have inserted: "(1::nat) = 1" by simp
  have config: "app_Config okApplication = Some ''baselined''"
    "json_Unmarshal okEnv ''baselined'' = Inr [(''baselined'', JBool True)]"
    "\<not> jsonNull ''baselined''"
    "asBool (map_of [(''baselined'', JBool True)] ''baselined'') = Some True"
    by (simp_all add: okApplication_def okEnv_def okUnmarshal_def asBool_def jsonNull_def jsonSpace_def)
  have associated: "mset (map org_ID (associatedOrganizations okDb (app_ID okApplication))) = {#1, 2, 3#}"
    by (simp add: associatedOrganizations_def okDb_def okApplication_def organizationWithID_def)
  have new: "org_ID (organizationWithID 4) \<notin> {1, 2, 3}"
    by (simp add: organizationWithID_def)
  have ids: "uuid_String okEnv 1 = ''org-1''" "uuid_String okEnv 2 = ''org-2''"
    "uuid_String okEnv 3 = ''org-3''" "uuid_String okEnv 4 = ''org-4''"
    "uuid_String okEnv 100 = ''app-1''"
    by (simp_all add: okEnv_def okUuidString_def)
  from onboarding_trigger_fan_out [of rev 1 okApplication "''baselined''" okEnv
         "[(''baselined'', JBool True)]" okDb 1 2 3 "organizationWithID 4" 0,
         OF order inserted config associated new]
  show ?thesis by (simp add: organizationWithID_def okApplication_def ids)
qed

end
